theory Spec2Isabelle
  imports Main "HOL-Library.Word"
begin

section \<open>Data model of package acmeapi\<close>

text \<open>
  The embedding follows \<^verbatim>\<open>src/acmeapi/api.go\<close>. Go structs are records, the dynamic
  type of a \<^verbatim>\<open>crypto.PrivateKey\<close> is a datatype, every error return is a value of
  type \<open>error\<close>, and instants and durations are integers counting nanoseconds
  (\<^verbatim>\<open>time.Duration\<close> is an \<^verbatim>\<open>int64\<close>). Fields that carry the same name in several Go
  structs get the struct's name as a prefix.
\<close>

type_synonym Time = int
type_synonym Duration = int

text \<open>\<^verbatim>\<open>http.Header\<close> is a map from (canonical) header names to value lists.\<close>

type_synonym Header = "(string \<times> string list) list"

text \<open>
  \<^verbatim>\<open>Header.Get\<close>: the first value stored under the key, or the empty string. All keys
  the package asks for are already in canonical form.
\<close>

definition Header_Get :: "Header \<Rightarrow> string \<Rightarrow> string" where
  "Header_Get h k = (case map_of h k of Some (v # vs) \<Rightarrow> v | _ \<Rightarrow> [])"

text \<open>
  An \<^verbatim>\<open>http.Response\<close>: \<open>Body\<close> is what reading the body to its end gives, the bytes
  (\<open>Inr\<close>) or the read error's message (\<open>Inl\<close>).
\<close>

record Response =
  StatusCode :: int
  Header :: Header
  Body :: "string + string"

record Request =
  Method :: string
  URL :: string
  ReqHeader :: Header
  ReqBody :: "string option"

datatype error =
    InvalidURL string
  | AccountKeyMustBeSpecified
  | UnsupportedECDSACurve string
  | UnsupportedPrivateKeyType string
  | HTTPError Response string
  | UnexpectedContentType string
  | NotAValidStatus string
  | DirectoryMissingEndpoints
  | UnexpectedStatusCode int
  | AgreementError string
  | NoChallengesOffered
  | CombinationsMalformed
  | ExpectedStatus201AndValidLocation
  | InvalidURI string
  | CertificateUnexpectedType string
  | UnexpectedCertificateType string
  | InvalidURIError
  | LibError string
  | NilDereference

text \<open>
  \<open>LibError\<close> is an error handed up from a library (encoding/json, go-jose, net/http,
  io, the context); \<open>NilDereference\<close> is the run-time panic of reading a field through
  a nil pointer.
\<close>

text \<open>The dynamic type of a private key: an ECDSA key carries its curve's name.\<close>

datatype PrivateKey =
    RSAPrivateKey
  | ECDSAPrivateKey string
  | OtherKey string

datatype SignatureAlgorithm = RS256 | ES256 | ES384 | ES512

record directoryInfo =
  NewReg :: string
  RecoverReg :: string
  NewAuthz :: string
  NewCert :: string
  RevokeCert :: string

record regInfo =
  reg_Resource :: string
  Contact :: "string list"
  AgreementURI :: string
  AuthorizationsURI :: string
  CertificatesURI :: string

record Identifier =
  id_Type :: string
  id_Value :: string

type_synonym Status = string

record Challenge =
  ch_URI :: string
  ch_Resource :: string
  ch_Type :: string
  ch_Status :: Status
  Validated :: Time
  Token :: string
  ch_retryAt :: Time

text \<open>
  \<open>Combinations\<close> is a Go slice of slices: \<open>None\<close> is the nil slice, \<open>Some []\<close> an empty
  slice that is not nil (what decoding the JSON array \<^verbatim>\<open>[]\<close> leaves).
\<close>

record Authorization =
  az_URI :: string
  az_Resource :: string
  az_Identifier :: Identifier
  az_Status :: Status
  Expires :: Time
  Challenges :: "Challenge list"
  Combinations :: "int list list option"
  az_retryAt :: Time

record Certificate =
  crt_URI :: string
  crt_Resource :: string
  crt_Certificate :: string
  ExtraCertificates :: "string list"
  CSR :: string
  crt_retryAt :: Time

text \<open>
  The Client. \<open>AccountKey\<close> is an interface value (\<open>None\<close> is nil), \<open>dir\<close> a pointer,
  \<open>nonceSource\<close> the pool of nonces.
\<close>

record Client =
  AccountKey :: "PrivateKey option"
  AgreementURIs :: "string set"
  RegistrationURI :: string
  ContactURIs :: "string list"
  DirectoryURL :: string
  dir :: "directoryInfo option"
  nonceSource :: "string list"

record URL =
  Scheme :: string
  Rest :: string

text \<open>
  The environment of the package: the package variable \<^verbatim>\<open>TestingNoTLS\<close> and the library
  functions the code calls, which are not part of the repository. \<open>'w\<close> is the state of
  everything outside the process (the server, the network, the clock). A JSON decoder
  gets the body and the current value of its target and gives the error, if any, and
  the target as it leaves it. Signing draws a nonce from the pool, over the network
  when the pool is empty. \<open>time_Parse_tail\<close> is \<^verbatim>\<open>time.Parse\<close> from the day of the month
  on, that is with the layout \<^verbatim>\<open>02 Jan 2006 15:04:05 MST\<close>.
\<close>

record 'w Env =
  TestingNoTLS :: bool
  url_Parse :: "string \<Rightarrow> URL option"
  url_ResolveReference :: "URL \<Rightarrow> URL \<Rightarrow> URL"
  url_String :: "URL \<Rightarrow> string"
  json_Unmarshal_string :: "string \<Rightarrow> error + string"
  json_Marshal_regInfo :: "regInfo \<Rightarrow> error + string"
  json_Marshal_Authorization :: "Authorization \<Rightarrow> error + string"
  json_Marshal_Certificate :: "Certificate \<Rightarrow> error + string"
  json_Decode_directoryInfo ::
    "string + string \<Rightarrow> directoryInfo option \<Rightarrow> error option \<times> directoryInfo option"
  json_Decode_regInfo ::
    "string + string \<Rightarrow> regInfo option \<Rightarrow> error option \<times> regInfo option"
  json_Decode_Authorization ::
    "string + string \<Rightarrow> Authorization \<Rightarrow> error option \<times> Authorization"
  json_Decode_Challenge ::
    "string + string \<Rightarrow> Challenge \<Rightarrow> error option \<times> Challenge"
  jose_NewSigner :: "SignatureAlgorithm \<Rightarrow> PrivateKey \<Rightarrow> error option"
  jose_Sign ::
    "SignatureAlgorithm \<Rightarrow> PrivateKey \<Rightarrow> string \<Rightarrow> string list \<Rightarrow> 'w
       \<Rightarrow> (error + string) \<times> string list \<times> 'w"
  nonce_AddNonce :: "string \<Rightarrow> string list \<Rightarrow> string list"
  http_NewRequest :: "string \<Rightarrow> string \<Rightarrow> error option"
  http_Do :: "'w \<Rightarrow> Request \<Rightarrow> (error + Response) \<times> 'w"
  link_ParseResponse :: "Response \<Rightarrow> string \<Rightarrow> string option"
  time_Parse_tail :: "string \<Rightarrow> Time option"
  time_Now :: "'w \<Rightarrow> Time"

section \<open>Status\<close>

definition Status_Valid :: "Status \<Rightarrow> bool" where
  "Status_Valid s =
     (if s = ''unknown'' \<or> s = ''pending'' \<or> s = ''processing'' \<or> s = ''valid''
         \<or> s = ''invalid'' \<or> s = ''revoked''
      then True else False)"

definition Status_Final :: "Status \<Rightarrow> bool" where
  "Status_Final s =
     (if s = ''valid'' \<or> s = ''invalid'' \<or> s = ''revoked'' then True else False)"

text \<open>
  \<^verbatim>\<open>(*Status).UnmarshalJSON\<close>: the first component of the pair is the returned error, the
  second the target \<^verbatim>\<open>*s\<close> after the call.
\<close>

definition Status_UnmarshalJSON :: "'w Env \<Rightarrow> Status \<Rightarrow> string \<Rightarrow> error option \<times> Status" where
  "Status_UnmarshalJSON env s data =
     (case json_Unmarshal_string env data of
        Inl err \<Rightarrow> (Some err, s)
      | Inr ss \<Rightarrow>
          if \<not> Status_Valid ss then (Some (NotAValidStatus ss), s)
          else (None, ss))"

section \<open>Signing algorithm\<close>

definition algorithmFromKey :: "PrivateKey \<Rightarrow> error + SignatureAlgorithm" where
  "algorithmFromKey key =
     (case key of
        RSAPrivateKey \<Rightarrow> Inr RS256
      | ECDSAPrivateKey name \<Rightarrow>
          if name = ''P-256'' then Inr ES256
          else if name = ''P-384'' then Inr ES384
          else if name = ''P-521'' then Inr ES512
          else Inl (UnsupportedECDSACurve name)
      | OtherKey t \<Rightarrow> Inl (UnsupportedPrivateKeyType t))"

section \<open>Retry-After\<close>

text \<open>
  \<^verbatim>\<open>strconv.ParseUint(v, 10, 31)\<close> of the Go standard library, specialised to base 10
  and 31 bits: the empty string and any byte that is not a decimal digit are syntax
  errors (no sign is accepted), and the accumulator \<open>n\<close>, a \<^verbatim>\<open>uint64\<close>, is checked
  against the cutoff before it is multiplied and against \<open>2^31 - 1\<close> after the digit is
  added. \<open>None\<close> stands for either error.
\<close>

definition is_digit :: "char \<Rightarrow> bool" where
  "is_digit c = ((of_char (CHR ''0'') :: nat) \<le> of_char c \<and> (of_char c :: nat) \<le> of_char (CHR ''9''))"

definition digit_val :: "char \<Rightarrow> nat" where
  "digit_val c = of_char c - of_char (CHR ''0'')"

definition maxUint64 :: nat where
  "maxUint64 = 2 ^ 64 - 1"

definition maxVal31 :: nat where
  "maxVal31 = 2 ^ 31 - 1"

fun ParseUint_loop :: "nat \<Rightarrow> string \<Rightarrow> nat option" where
  "ParseUint_loop n [] = Some n"
| "ParseUint_loop n (c # cs) =
     (if \<not> is_digit c then None
      else if n \<ge> maxUint64 div 10 + 1 then None
      else let n0 = (n * 10) mod 2 ^ 64;
               n1 = (n0 + digit_val c) mod 2 ^ 64
           in if n1 < n0 \<or> n1 > maxVal31 then None
              else ParseUint_loop n1 cs)"

definition ParseUint_10_31 :: "string \<Rightarrow> nat option" where
  "ParseUint_10_31 s = (if s = [] then None else ParseUint_loop 0 s)"

text \<open>
  \<^verbatim>\<open>time.Duration(n) * time.Second\<close>: a multiplication of two \<^verbatim>\<open>int64\<close>, which wraps.
\<close>

definition Second :: Duration where
  "Second = 1000000000"

definition Duration_mul :: "Duration \<Rightarrow> Duration \<Rightarrow> Duration" where
  "Duration_mul a b = sint (word_of_int (a * b) :: 64 word)"

text \<open>The zero \<^verbatim>\<open>time.Time\<close>: 1 January of year 1, counted from the Unix epoch.\<close>

definition zeroTime :: Time where
  "zeroTime = - 62135596800 * 1000000000"

text \<open>
  \<^verbatim>\<open>time.Parse(time.RFC1123, v)\<close> of the Go standard library, where \<^verbatim>\<open>time.RFC1123\<close> is
  the layout \<^verbatim>\<open>Mon, 02 Jan 2006 15:04:05 MST\<close>. The parser walks the layout chunk by
  chunk. Its first two turns are modelled after the library: the chunk \<^verbatim>\<open>Mon\<close> looks
  the value up in the table of abbreviated weekday names (\<^verbatim>\<open>lookup\<close>, which compares
  with \<^verbatim>\<open>match\<close>, folding the case of letters, and ignores which day it found), and the
  comma and space before the chunk \<^verbatim>\<open>02\<close> is removed by \<^verbatim>\<open>skip\<close>, which takes a run of
  spaces for one space. What the library does from there on is the parameter
  \<open>time_Parse_tail\<close> of the environment. \<open>None\<close> stands for an error.
\<close>

definition shortDayNames :: "string list" where
  "shortDayNames = [''Sun'', ''Mon'', ''Tue'', ''Wed'', ''Thu'', ''Fri'', ''Sat'']"

text \<open>\<^verbatim>\<open>c |= 'a' - 'A'\<close> on a byte.\<close>

definition fold_case :: "char \<Rightarrow> 8 word" where
  "fold_case c = or (of_char c) 32"

text \<open>
  \<^verbatim>\<open>match\<close> indexes its second argument by the positions of the first; \<^verbatim>\<open>lookup\<close>
  calls it on two strings of the same length only.
\<close>

fun match :: "string \<Rightarrow> string \<Rightarrow> bool" where
  "match [] s2 = True"
| "match (c1 # s1) [] = False"
| "match (c1 # s1) (c2 # s2) =
     (if c1 \<noteq> c2 \<and> (fold_case c1 \<noteq> fold_case c2 \<or> fold_case c1 < 97 \<or> fold_case c1 > 122)
      then False
      else match s1 s2)"

text \<open>\<open>i\<close> is the index of the first entry of \<open>tab\<close> in the table.\<close>

fun lookup :: "string list \<Rightarrow> nat \<Rightarrow> string \<Rightarrow> (nat \<times> string) option" where
  "lookup [] i val = None"
| "lookup (v # tab) i val =
     (if length val \<ge> length v \<and> match (take (length v) val) v
      then Some (i, drop (length v) val)
      else lookup tab (Suc i) val)"

definition cutspace :: "string \<Rightarrow> string" where
  "cutspace s = dropWhile (\<lambda>c. c = CHR '' '') s"

function skip :: "string \<Rightarrow> string \<Rightarrow> string option" where
  "skip val [] = Some val"
| "skip val (p # ps) =
     (if p = CHR '' '' then
        (if val \<noteq> [] \<and> hd val \<noteq> CHR '' '' then None
         else skip (cutspace val) (cutspace (p # ps)))
      else if val = [] \<or> hd val \<noteq> p then None
      else skip (tl val) ps)"
  by pat_completeness auto
termination
proof (relation "measure (\<lambda>(val, prefix). length prefix)")
  show "wf (measure (\<lambda>(val, prefix). length prefix))" by simp
next
  fix val :: string and p :: char and ps :: string
  assume "p = CHR '' ''"
  then have "length (cutspace (p # ps)) \<le> length ps"
    by (simp add: cutspace_def length_dropWhile_le)
  then show "((cutspace val, cutspace (p # ps)), val, p # ps)
               \<in> measure (\<lambda>(val, prefix). length prefix)"
    by simp
next
  fix val :: string and p :: char and ps :: string
  show "((tl val, ps), val, p # ps) \<in> measure (\<lambda>(val, prefix). length prefix)" by simp
qed

declare skip.simps [simp del]

definition time_Parse_RFC1123 :: "'w Env \<Rightarrow> string \<Rightarrow> Time option" where
  "time_Parse_RFC1123 env v =
     (case lookup shortDayNames 0 v of
        None \<Rightarrow> None
      | Some (i, val1) \<Rightarrow>
          (case skip val1 '', '' of
             None \<Rightarrow> None
           | Some val2 \<Rightarrow> time_Parse_tail env val2))"

text \<open>
  \<open>now\<close> is what \<^verbatim>\<open>time.Now()\<close> gives at the call. The result is \<open>None\<close> where the Go
  function returns \<^verbatim>\<open>ok = false\<close>.
\<close>

definition parseRetryAfter :: "'w Env \<Rightarrow> Header \<Rightarrow> Time \<Rightarrow> Time option" where
  "parseRetryAfter env h now =
     (let v = Header_Get h ''Retry-After'' in
      if v = [] then None
      else case ParseUint_10_31 v of
             None \<Rightarrow>
               (case time_Parse_RFC1123 env v of
                  None \<Rightarrow> None
                | Some t \<Rightarrow> Some t)
           | Some n \<Rightarrow> Some (now + Duration_mul (int n) Second))"

definition retryAtDefault :: "'w Env \<Rightarrow> Header \<Rightarrow> Duration \<Rightarrow> Time \<Rightarrow> Time" where
  "retryAtDefault env h d now =
     (case parseRetryAfter env h now of
        Some t \<Rightarrow> t
      | None \<Rightarrow> now + d)"


section \<open>The HTTP transactor\<close>

definition ValidURL :: "'w Env \<Rightarrow> string \<Rightarrow> bool" where
  "ValidURL env u =
     (case url_Parse env u of
        None \<Rightarrow> False
      | Some ur \<Rightarrow> Scheme ur = ''https'' \<or> (TestingNoTLS env \<and> Scheme ur = ''http''))"

definition newHTTPError :: "Response \<Rightarrow> error" where
  "newHTTPError res =
     (if Header_Get (Header res) ''Content-Type'' = ''application/problem+json''
      then (case Body res of Inr b \<Rightarrow> HTTPError res b | Inl msg \<Rightarrow> HTTPError res [])
      else HTTPError res [])"

text \<open>
  What \<^verbatim>\<open>doReqEx\<close> returns, a pair of a response pointer and an error: \<open>Fail err\<close> is
  \<^verbatim>\<open>(nil, err)\<close>, \<open>ResErr res err\<close> is \<^verbatim>\<open>(res, err)\<close> and \<open>Ok res\<close> is \<^verbatim>\<open>(res, nil)\<close>.
\<close>

datatype outcome = Fail error | ResErr Response error | Ok Response

definition outcome_err :: "outcome \<Rightarrow> error option" where
  "outcome_err oc = (case oc of Fail err \<Rightarrow> Some err | ResErr res err \<Rightarrow> Some err | Ok res \<Rightarrow> None)"

text \<open>
  Lines 296 to 330 of \<^verbatim>\<open>doReqEx\<close>: the request body. \<open>key\<close> is the key after the
  default was applied, \<open>v\<close> the payload (\<open>None\<close> is nil) and \<open>marshal\<close> is
  \<^verbatim>\<open>json.Marshal\<close> at the payload's type. The result is the reader \<^verbatim>\<open>rdr\<close>.
\<close>

definition signBody ::
  "'w Env \<Rightarrow> ('v \<Rightarrow> error + string) \<Rightarrow> PrivateKey option \<Rightarrow> 'v option \<Rightarrow> Client \<Rightarrow> 'w
     \<Rightarrow> (error + string option) \<times> Client \<times> 'w" where
  "signBody env marshal key v c w =
     (case v of
        None \<Rightarrow> (Inr None, c, w)
      | Some x \<Rightarrow>
          (case marshal x of
             Inl err \<Rightarrow> (Inl err, c, w)
           | Inr b \<Rightarrow>
               (case key of
                  None \<Rightarrow> (Inl AccountKeyMustBeSpecified, c, w)
                | Some k \<Rightarrow>
                    (case algorithmFromKey k of
                       Inl err \<Rightarrow> (Inl err, c, w)
                     | Inr kalg \<Rightarrow>
                         (case jose_NewSigner env kalg k of
                            Some err \<Rightarrow> (Inl err, c, w)
                          | None \<Rightarrow>
                              (case jose_Sign env kalg k b (nonceSource c) w of
                                 (Inl err, ns, w') \<Rightarrow> (Inl err, c\<lparr>nonceSource := ns\<rparr>, w')
                               | (Inr s, ns, w') \<Rightarrow>
                                   (Inr (Some s), c\<lparr>nonceSource := ns\<rparr>, w')))))))"

text \<open>Lines 350 to 352: a \<^verbatim>\<open>Replay-Nonce\<close> header of the response goes into the pool.\<close>

definition absorb_nonce :: "'w Env \<Rightarrow> Response \<Rightarrow> Client \<Rightarrow> Client" where
  "absorb_nonce env res c =
     (let n = Header_Get (Header res) ''Replay-Nonce'' in
      if n \<noteq> [] then c\<lparr>nonceSource := nonce_AddNonce env n (nonceSource c)\<rparr> else c)"

text \<open>
  Lines 354 to 371 of \<^verbatim>\<open>doReqEx\<close>: the response. \<open>r\<close> is the current value of the
  decoding target (\<open>None\<close> is a nil \<^verbatim>\<open>r\<close>) and \<open>decode\<close> the JSON decoder at its type;
  the target comes back as the decoder left it.
\<close>

definition receive ::
  "'w Env \<Rightarrow> (string + string \<Rightarrow> 'r \<Rightarrow> error option \<times> 'r) \<Rightarrow> 'r option \<Rightarrow> Response \<Rightarrow> Client
     \<Rightarrow> outcome \<times> 'r option \<times> Client" where
  "receive env decode r res c =
     (let c1 = absorb_nonce env res c
      in if StatusCode res \<ge> 400 \<and> StatusCode res < 600
         then (ResErr res (newHTTPError res), r, c1)
         else case r of
                None \<Rightarrow> (Ok res, None, c1)
              | Some tgt \<Rightarrow>
                  (let ct = Header_Get (Header res) ''Content-Type'' in
                   if ct \<noteq> ''application/json''
                   then (ResErr res (UnexpectedContentType ct), r, c1)
                   else case decode (Body res) tgt of
                          (Some err, tgt') \<Rightarrow> (Fail err, Some tgt', c1)
                        | (None, tgt') \<Rightarrow> (Ok res, Some tgt', c1)))"

definition request_headers :: "string \<Rightarrow> Header" where
  "request_headers method =
     [(''User-Agent'', [''acmetool'']), (''Accept'', [''application/json''])]
     @ (if method = ''POST'' then [(''Content-Type'', [''application/json''])] else [])"

text \<open>Lines 285 to 287: under \<^verbatim>\<open>TestingNoTLS\<close> an \<^verbatim>\<open>https:\<close> URL is fetched as \<^verbatim>\<open>http:\<close>.\<close>

definition noTLS_url :: "'w Env \<Rightarrow> string \<Rightarrow> string" where
  "noTLS_url env url =
     (if TestingNoTLS env \<and> take 6 url = ''https:'' then ''http'' @ drop 5 url else url)"

definition doReqEx ::
  "'w Env \<Rightarrow> ('v \<Rightarrow> error + string) \<Rightarrow> (string + string \<Rightarrow> 'r \<Rightarrow> error option \<times> 'r)
     \<Rightarrow> string \<Rightarrow> string \<Rightarrow> PrivateKey option \<Rightarrow> 'v option \<Rightarrow> 'r option \<Rightarrow> Client \<Rightarrow> 'w
     \<Rightarrow> outcome \<times> 'r option \<times> Client \<times> 'w" where
  "doReqEx env marshal decode method url key v r c w =
     (let url1 = noTLS_url env url
      in if \<not> ValidURL env url1 then (Fail (InvalidURL url1), r, c, w)
         else
           let key1 = (case key of None \<Rightarrow> AccountKey c | Some k \<Rightarrow> Some k) in
           case signBody env marshal key1 v c w of
             (Inl err, c1, w1) \<Rightarrow> (Fail err, r, c1, w1)
           | (Inr rdr, c1, w1) \<Rightarrow>
               (case http_NewRequest env method url1 of
                  Some err \<Rightarrow> (Fail err, r, c1, w1)
                | None \<Rightarrow>
                    (let req = \<lparr>Method = method, URL = url1,
                                ReqHeader = request_headers method, ReqBody = rdr\<rparr>
                     in case http_Do env w1 req of
                          (Inl err, w2) \<Rightarrow> (Fail err, r, c1, w2)
                        | (Inr res, w2) \<Rightarrow>
                            (case receive env decode r res c1 of
                               (oc, r', c2) \<Rightarrow> (oc, r', c2, w2)))))"

definition doReq ::
  "'w Env \<Rightarrow> ('v \<Rightarrow> error + string) \<Rightarrow> (string + string \<Rightarrow> 'r \<Rightarrow> error option \<times> 'r)
     \<Rightarrow> string \<Rightarrow> string \<Rightarrow> 'v option \<Rightarrow> 'r option \<Rightarrow> Client \<Rightarrow> 'w
     \<Rightarrow> outcome \<times> 'r option \<times> Client \<times> 'w" where
  "doReq env marshal decode method url v r c w =
     doReqEx env marshal decode method url None v r c w"

text \<open>Stand-ins for the marshaller of a nil payload and the decoder of a nil target.\<close>

definition no_marshal :: "unit \<Rightarrow> error + string" where
  "no_marshal x = Inr []"

definition no_decode :: "string + string \<Rightarrow> unit \<Rightarrow> error option \<times> unit" where
  "no_decode b t = (None, t)"

section \<open>Directory and registration\<close>

definition DefaultDirectoryURL :: string where
  "DefaultDirectoryURL = ''https://acme-staging.api.letsencrypt.org/directory''"

text \<open>
  The decoding target of \<^verbatim>\<open>getDirectory\<close> is the field \<^verbatim>\<open>c.dir\<close> itself, so what the
  decoder leaves is written back into the Client, also when the request fails.
\<close>

definition getDirectory :: "'w Env \<Rightarrow> Client \<Rightarrow> 'w \<Rightarrow> (error + directoryInfo) \<times> Client \<times> 'w" where
  "getDirectory env c w =
     (case dir c of
        Some d \<Rightarrow> (Inr d, c, w)
      | None \<Rightarrow>
          (let c1 = (if DirectoryURL c = [] then c\<lparr>DirectoryURL := DefaultDirectoryURL\<rparr> else c)
           in case doReq env no_marshal (json_Decode_directoryInfo env) ''GET'' (DirectoryURL c1)
                     None (Some (dir c1)) c1 w of
                (oc, r', c2, w2) \<Rightarrow>
                  (let c3 = c2\<lparr>dir := (case r' of Some d \<Rightarrow> d | None \<Rightarrow> dir c2)\<rparr> in
                   case outcome_err oc of
                     Some err \<Rightarrow> (Inl err, c3, w2)
                   | None \<Rightarrow>
                       (case dir c3 of
                          None \<Rightarrow> (Inl NilDereference, c3, w2)
                        | Some d \<Rightarrow>
                            if \<not> ValidURL env (NewReg d) \<or> \<not> ValidURL env (NewAuthz d)
                               \<or> \<not> ValidURL env (NewCert d)
                            then (Inl DirectoryMissingEndpoints, c3\<lparr>dir := None\<rparr>, w2)
                            else (Inr d, c3, w2)))))"

text \<open>
  \<^verbatim>\<open>regInfo\<close> values built by the package never set the \<^verbatim>\<open>Key\<close> field, which is left
  out of the record.
\<close>

definition getRegistrationURI :: "'w Env \<Rightarrow> Client \<Rightarrow> 'w \<Rightarrow> (error + string) \<times> Client \<times> 'w" where
  "getRegistrationURI env c w =
     (if RegistrationURI c \<noteq> [] then (Inr (RegistrationURI c), c, w)
      else
        case getDirectory env c w of
          (Inl err, c1, w1) \<Rightarrow> (Inl err, c1, w1)
        | (Inr di, c1, w1) \<Rightarrow>
            (let reqInfo = \<lparr>reg_Resource = ''new-reg'', Contact = ContactURIs c1,
                            AgreementURI = [], AuthorizationsURI = [], CertificatesURI = []\<rparr>
             in case doReq env (json_Marshal_regInfo env) (json_Decode_regInfo env) ''POST''
                       (NewReg di) (Some reqInfo) (Some None) c1 w1 of
                  (Fail err, resInfo, c2, w2) \<Rightarrow> (Inl err, c2, w2)
                | (ResErr res err, resInfo, c2, w2) \<Rightarrow>
                    if StatusCode res = 201 \<or> StatusCode res = 409 then
                      (let loc = Header_Get (Header res) ''Location'' in
                       if \<not> ValidURL env loc then (Inl (InvalidURL loc), c2, w2)
                       else (Inr loc, c2\<lparr>RegistrationURI := loc\<rparr>, w2))
                    else (Inl err, c2, w2)
                | (Ok res, resInfo, c2, w2) \<Rightarrow>
                    if StatusCode res = 201 \<or> StatusCode res = 409 then
                      (let loc = Header_Get (Header res) ''Location'' in
                       if \<not> ValidURL env loc then (Inl (InvalidURL loc), c2, w2)
                       else (Inr loc, c2\<lparr>RegistrationURI := loc\<rparr>, w2))
                    else (Inl (UnexpectedStatusCode (StatusCode res)), c2, w2)))"

definition UpsertRegistration :: "'w Env \<Rightarrow> Client \<Rightarrow> 'w \<Rightarrow> error option \<times> Client \<times> 'w" where
  "UpsertRegistration env c w =
     (case getRegistrationURI env c w of
        (Inl err, c1, w1) \<Rightarrow> (Some err, c1, w1)
      | (Inr regURI, c1, w1) \<Rightarrow>
          (let reqInfo = \<lparr>reg_Resource = ''reg'', Contact = ContactURIs c1,
                          AgreementURI = [], AuthorizationsURI = [], CertificatesURI = []\<rparr>
           in case doReq env (json_Marshal_regInfo env) (json_Decode_regInfo env) ''POST''
                     regURI (Some reqInfo) (Some None) c1 w1 of
                (Fail err, resInfo, c2, w2) \<Rightarrow> (Some err, c2, w2)
              | (ResErr res err, resInfo, c2, w2) \<Rightarrow> (Some err, c2, w2)
              | (Ok res, resInfo, c2, w2) \<Rightarrow>
                  (case link_ParseResponse env res ''terms-of-service'' of
                     None \<Rightarrow> (None, c2, w2)
                   | Some tosURI \<Rightarrow>
                       (case resInfo of
                          Some (Some ri) \<Rightarrow>
                            if AgreementURI ri \<noteq> tosURI then
                              if tosURI \<notin> AgreementURIs c2
                              then (Some (AgreementError tosURI), c2, w2)
                              else
                                (case doReq env (json_Marshal_regInfo env)
                                        (json_Decode_regInfo env) ''POST'' regURI
                                        (Some (reqInfo\<lparr>AgreementURI := tosURI\<rparr>))
                                        resInfo c2 w2 of
                                   (oc, resInfo', c3, w3) \<Rightarrow>
                                     (case outcome_err oc of
                                        Some err \<Rightarrow> (Some err, c3, w3)
                                      | None \<Rightarrow> (None, c3, w3)))
                            else (None, c2, w2)
                        | _ \<Rightarrow> (Some NilDereference, c2, w2)))))"

section \<open>Authorizations\<close>

text \<open>
  The loop of \<^verbatim>\<open>validate\<close> that builds the synthesized combination: \<open>i\<close> counts up to the
  number of challenges and is appended to \<open>is\<close>.
\<close>

function all_indices :: "nat \<Rightarrow> nat \<Rightarrow> int list \<Rightarrow> int list" where
  "all_indices i n js = (if i < n then all_indices (Suc i) n (js @ [int i]) else js)"
  by pat_completeness auto
termination
  by (relation "measure (\<lambda>(i, n, js). n - i)") auto

declare all_indices.simps [simp del]

text \<open>
  The two nested range loops of \<^verbatim>\<open>validate\<close>: is some index of some combination not
  below the number \<open>n\<close> of challenges? The indices are Go \<^verbatim>\<open>int\<close>s, compared as signed
  numbers.
\<close>

fun index_out_of_range :: "nat \<Rightarrow> int list \<Rightarrow> bool" where
  "index_out_of_range n [] = False"
| "index_out_of_range n (i # js) = (if i \<ge> int n then True else index_out_of_range n js)"

fun combinations_malformed :: "nat \<Rightarrow> int list list \<Rightarrow> bool" where
  "combinations_malformed n [] = False"
| "combinations_malformed n (c # cs) =
     (if index_out_of_range n c then True else combinations_malformed n cs)"

text \<open>The range over a nil slice runs no iteration.\<close>

definition slice_elems :: "'a list option \<Rightarrow> 'a list" where
  "slice_elems s = (case s of None \<Rightarrow> [] | Some xs \<Rightarrow> xs)"

text \<open>
  \<^verbatim>\<open>(*Authorization).validate\<close>: the returned error and the Authorization as the call
  leaves it.
\<close>

definition Authorization_validate :: "Authorization \<Rightarrow> error option \<times> Authorization" where
  "Authorization_validate az =
     (if length (Challenges az) = 0 then (Some NoChallengesOffered, az)
      else
        let az1 = (if Combinations az = None
                   then az\<lparr>Combinations :=
                          Some (slice_elems (Combinations az)
                                @ [all_indices 0 (length (Challenges az)) []])\<rparr>
                   else az)
        in if combinations_malformed (length (Challenges az1)) (slice_elems (Combinations az1))
           then (Some CombinationsMalformed, az1)
           else (None, az1))"

text \<open>
  The shape of an Authorization that passed \<^verbatim>\<open>validate\<close>: there are challenges, the
  combinations are not nil, and every index in them is below the number of challenges.
\<close>

definition well_formed :: "Authorization \<Rightarrow> bool" where
  "well_formed az =
     (Challenges az \<noteq> []
      \<and> (\<exists>cs. Combinations az = Some cs
            \<and> (\<forall>comb\<in>set cs. \<forall>i\<in>set comb. i < int (length (Challenges az)))))"

text \<open>
  Decoding into an Authorization: the \<^verbatim>\<open>URI\<close> field is tagged \<^verbatim>\<open>json:"-"\<close> and
  \<^verbatim>\<open>retryAt\<close> is unexported, so the decoder leaves both as they were.
\<close>

definition decode_Authorization ::
  "'w Env \<Rightarrow> string + string \<Rightarrow> Authorization \<Rightarrow> error option \<times> Authorization" where
  "decode_Authorization env body az =
     (case json_Decode_Authorization env body az of
        (err, az') \<Rightarrow> (err, az'\<lparr>az_URI := az_URI az, az_retryAt := az_retryAt az\<rparr>))"

text \<open>
  \<^verbatim>\<open>LoadAuthorization\<close> works on the caller's Authorization in place: the second
  component is that object after the call, whatever the call returns.
\<close>

definition LoadAuthorization ::
  "'w Env \<Rightarrow> Authorization \<Rightarrow> Client \<Rightarrow> 'w \<Rightarrow> error option \<times> Authorization \<times> Client \<times> 'w" where
  "LoadAuthorization env az c w =
     (let az0 = az\<lparr>Combinations := None\<rparr> in
      case doReq env no_marshal (decode_Authorization env) ''GET'' (az_URI az0)
             None (Some az0) c w of
        (oc, r', c1, w1) \<Rightarrow>
          (let az1 = (case r' of Some a \<Rightarrow> a | None \<Rightarrow> az0) in
           case oc of
             Fail err \<Rightarrow> (Some err, az1, c1, w1)
           | ResErr res err \<Rightarrow> (Some err, az1, c1, w1)
           | Ok res \<Rightarrow>
               (case Authorization_validate az1 of
                  (Some err, az2) \<Rightarrow> (Some err, az2, c1, w1)
                | (None, az2) \<Rightarrow>
                    (None,
                     az2\<lparr>az_retryAt :=
                           retryAtDefault env (Header res) (10 * Second) (time_Now env w1)\<rparr>,
                     c1, w1))))"

definition NewAuthorization ::
  "'w Env \<Rightarrow> string \<Rightarrow> Client \<Rightarrow> 'w \<Rightarrow> (error + Authorization) \<times> Client \<times> 'w" where
  "NewAuthorization env hostname c w =
     (case getDirectory env c w of
        (Inl err, c1, w1) \<Rightarrow> (Inl err, c1, w1)
      | (Inr di, c1, w1) \<Rightarrow>
          (let az = \<lparr>az_URI = [], az_Resource = ''new-authz'',
                     az_Identifier = \<lparr>id_Type = ''dns'', id_Value = hostname\<rparr>,
                     az_Status = [], Expires = zeroTime, Challenges = [],
                     Combinations = None, az_retryAt = zeroTime\<rparr>
           in case doReq env (json_Marshal_Authorization env) (decode_Authorization env) ''POST''
                     (NewAuthz di) (Some az) (Some az) c1 w1 of
                (oc, r', c2, w2) \<Rightarrow>
                  (case oc of
                     Fail err \<Rightarrow> (Inl err, c2, w2)
                   | ResErr res err \<Rightarrow> (Inl err, c2, w2)
                   | Ok res \<Rightarrow>
                       (let az1 = (case r' of Some a \<Rightarrow> a | None \<Rightarrow> az);
                            loc = Header_Get (Header res) ''Location''
                        in if StatusCode res \<noteq> 201 \<or> \<not> ValidURL env loc
                           then (Inl ExpectedStatus201AndValidLocation, c2, w2)
                           else
                             case Authorization_validate (az1\<lparr>az_URI := loc\<rparr>) of
                               (Some err, az2) \<Rightarrow> (Inl err, c2, w2)
                             | (None, az2) \<Rightarrow> (Inr az2, c2, w2)))))"

text \<open>
  Challenges: \<^verbatim>\<open>(*Challenge).validate\<close> checks nothing, and the decoder cannot reach
  the unexported \<^verbatim>\<open>retryAt\<close>.
\<close>

definition Challenge_validate :: "Challenge \<Rightarrow> error option" where
  "Challenge_validate ch = None"

definition decode_Challenge ::
  "'w Env \<Rightarrow> string + string \<Rightarrow> Challenge \<Rightarrow> error option \<times> Challenge" where
  "decode_Challenge env body ch =
     (case json_Decode_Challenge env body ch of
        (err, ch') \<Rightarrow> (err, ch'\<lparr>ch_retryAt := ch_retryAt ch\<rparr>))"

definition LoadChallenge ::
  "'w Env \<Rightarrow> Challenge \<Rightarrow> Client \<Rightarrow> 'w \<Rightarrow> error option \<times> Challenge \<times> Client \<times> 'w" where
  "LoadChallenge env ch c w =
     (case doReq env no_marshal (decode_Challenge env) ''GET'' (ch_URI ch) None (Some ch) c w of
        (oc, r', c1, w1) \<Rightarrow>
          (let ch1 = (case r' of Some a \<Rightarrow> a | None \<Rightarrow> ch) in
           case oc of
             Fail err \<Rightarrow> (Some err, ch1, c1, w1)
           | ResErr res err \<Rightarrow> (Some err, ch1, c1, w1)
           | Ok res \<Rightarrow>
               (case Challenge_validate ch1 of
                  Some err \<Rightarrow> (Some err, ch1, c1, w1)
                | None \<Rightarrow>
                    (None,
                     ch1\<lparr>ch_retryAt :=
                           retryAtDefault env (Header res) (10 * Second) (time_Now env w1)\<rparr>,
                     c1, w1))))"

section \<open>Certificates\<close>

text \<open>
  One turn of the loop of \<^verbatim>\<open>loadExtraCertificates\<close>, on the certificate, the response
  last received, the Client and the world: \<open>Inl\<close> is a return (with the error, if any),
  \<open>Inr\<close> the state the next turn starts from.
\<close>

type_synonym 'w chain_state = "Certificate \<times> Response \<times> Client \<times> 'w"
type_synonym 'w chain_result = "error option \<times> Certificate \<times> Client \<times> 'w"

definition chain_step :: "'w Env \<Rightarrow> 'w chain_state \<Rightarrow> 'w chain_result + 'w chain_state" where
  "chain_step env s =
     (case s of (crt, res, c, w) \<Rightarrow>
        (case link_ParseResponse env res ''up'' of
           None \<Rightarrow> Inl (None, crt, c, w)
         | Some up \<Rightarrow>
             (case url_Parse env (crt_URI crt) of
                None \<Rightarrow> Inl (Some InvalidURIError, crt, c, w)
              | Some crtURI \<Rightarrow>
                  (case url_Parse env up of
                     None \<Rightarrow> Inl (Some InvalidURIError, crt, c, w)
                   | Some upURI \<Rightarrow>
                       (case doReq env no_marshal no_decode ''GET''
                               (url_String env (url_ResolveReference env crtURI upURI))
                               None None c w of
                          (Fail err, r', c1, w1) \<Rightarrow> Inl (Some err, crt, c1, w1)
                        | (ResErr res' err, r', c1, w1) \<Rightarrow> Inl (Some err, crt, c1, w1)
                        | (Ok res', r', c1, w1) \<Rightarrow>
                            (let ct = Header_Get (Header res') ''Content-Type'' in
                             if ct \<noteq> ''application/pkix-cert''
                             then Inl (Some (UnexpectedCertificateType ct), crt, c1, w1)
                             else
                               case Body res' of
                                 Inl msg \<Rightarrow> Inl (Some (LibError msg), crt, c1, w1)
                               | Inr der \<Rightarrow>
                                   Inr (crt\<lparr>ExtraCertificates := ExtraCertificates crt @ [der]\<rparr>,
                                        res', c1, w1)))))))"

text \<open>
  The loop itself has no bound: it is a partial function, and \<open>None\<close> is the run that
  never returns.
\<close>

partial_function (option) chain_loop :: "'w Env \<Rightarrow> 'w chain_state \<Rightarrow> 'w chain_result option" where
  "chain_loop env s = (case chain_step env s of Inl r \<Rightarrow> Some r | Inr s' \<Rightarrow> chain_loop env s')"

text \<open>The same loop cut off after \<open>n\<close> turns: \<open>None\<close> when it has not returned by then.\<close>

fun chain_run :: "'w Env \<Rightarrow> nat \<Rightarrow> 'w chain_state \<Rightarrow> 'w chain_result option" where
  "chain_run env 0 s = None"
| "chain_run env (Suc n) s =
     (case chain_step env s of Inl r \<Rightarrow> Some r | Inr s' \<Rightarrow> chain_run env n s')"

definition loadExtraCertificates ::
  "'w Env \<Rightarrow> Certificate \<Rightarrow> Response \<Rightarrow> Client \<Rightarrow> 'w \<Rightarrow> 'w chain_result option" where
  "loadExtraCertificates env crt res c w =
     chain_loop env (crt\<lparr>ExtraCertificates := []\<rparr>, res, c, w)"

definition loadCertificate ::
  "'w Env \<Rightarrow> Certificate \<Rightarrow> Response \<Rightarrow> Client \<Rightarrow> 'w \<Rightarrow> 'w chain_result option" where
  "loadCertificate env crt res c w =
     (let ct = Header_Get (Header res) ''Content-Type'' in
      if ct = ''application/pkix-cert'' then
        (case Body res of
           Inl msg \<Rightarrow> Some (Some (LibError msg), crt, c, w)
         | Inr der \<Rightarrow>
             (case loadExtraCertificates env (crt\<lparr>crt_Certificate := der\<rparr>) res c w of
                None \<Rightarrow> None
              | Some (Some err, crt1, c1, w1) \<Rightarrow> Some (Some err, crt1, c1, w1)
              | Some (None, crt1, c1, w1) \<Rightarrow>
                  Some (None,
                        crt1\<lparr>crt_retryAt :=
                               retryAtDefault env (Header res) (10 * Second) (time_Now env w1)\<rparr>,
                        c1, w1)))
      else if StatusCode res = 200 then Some (Some (CertificateUnexpectedType ct), crt, c, w)
      else Some (None,
                 crt\<lparr>crt_retryAt :=
                       retryAtDefault env (Header res) (10 * Second) (time_Now env w)\<rparr>,
                 c, w))"

definition LoadCertificate ::
  "'w Env \<Rightarrow> Certificate \<Rightarrow> Client \<Rightarrow> 'w \<Rightarrow> 'w chain_result option" where
  "LoadCertificate env crt c w =
     (case doReq env no_marshal no_decode ''GET'' (crt_URI crt) None None c w of
        (Fail err, r', c1, w1) \<Rightarrow> Some (Some err, crt, c1, w1)
      | (ResErr res err, r', c1, w1) \<Rightarrow> Some (Some err, crt, c1, w1)
      | (Ok res, r', c1, w1) \<Rightarrow> loadCertificate env crt res c1 w1)"

text \<open>
  \<^verbatim>\<open>RequestCertificate\<close>: the result is \<open>None\<close> when the chain walk it starts never
  returns.
\<close>

definition RequestCertificate ::
  "'w Env \<Rightarrow> string \<Rightarrow> Client \<Rightarrow> 'w \<Rightarrow> ((error + Certificate) \<times> Client \<times> 'w) option" where
  "RequestCertificate env csrDER c w =
     (case getDirectory env c w of
        (Inl err, c1, w1) \<Rightarrow> Some (Inl err, c1, w1)
      | (Inr di, c1, w1) \<Rightarrow>
          (let crt = \<lparr>crt_URI = [], crt_Resource = ''new-cert'', crt_Certificate = [],
                      ExtraCertificates = [], CSR = csrDER, crt_retryAt = zeroTime\<rparr>
           in case doReq env (json_Marshal_Certificate env) no_decode ''POST'' (NewCert di)
                     (Some crt) None c1 w1 of
                (Fail err, r', c2, w2) \<Rightarrow> Some (Inl err, c2, w2)
              | (ResErr res err, r', c2, w2) \<Rightarrow> Some (Inl err, c2, w2)
              | (Ok res, r', c2, w2) \<Rightarrow>
                  if StatusCode res \<noteq> 201
                  then Some (Inl (UnexpectedStatusCode (StatusCode res)), c2, w2)
                  else
                    (let loc = Header_Get (Header res) ''Location'' in
                     if \<not> ValidURL env loc then Some (Inl (InvalidURI loc), c2, w2)
                     else
                       case loadCertificate env (crt\<lparr>crt_URI := loc\<rparr>) res c2 w2 of
                         None \<Rightarrow> None
                       | Some (Some err, crt1, c3, w3) \<Rightarrow> Some (Inl err, c3, w3)
                       | Some (None, crt1, c3, w3) \<Rightarrow> Some (Inr crt1, c3, w3))))"

section \<open>Waiting\<close>

text \<open>
  A context, as far as \<^verbatim>\<open>waitUntil\<close> can see it: the instant at which its \<^verbatim>\<open>Done\<close>
  channel is closed (\<open>None\<close>: never) and the error \<^verbatim>\<open>Err\<close> gives from then on.
\<close>

record Context =
  ctx_cancelAt :: "Time option"
  ctx_Err :: error

definition ctx_Done :: "Context \<Rightarrow> Time \<Rightarrow> bool" where
  "ctx_Done ctx at = (case ctx_cancelAt ctx of None \<Rightarrow> False | Some d \<Rightarrow> d \<le> at)"

text \<open>\<^verbatim>\<open>Time.Sub\<close> saturates at the least and the greatest \<^verbatim>\<open>Duration\<close>.\<close>

definition Time_Sub :: "Time \<Rightarrow> Time \<Rightarrow> Duration" where
  "Time_Sub t u = max (- (2 ^ 63)) (min (2 ^ 63 - 1) (t - u))"

text \<open>
  \<^verbatim>\<open>waitUntil\<close>, with \<open>now\<close> the instant of the call, at which both selects are entered.
  The channel \<^verbatim>\<open>ch\<close> is ready from \<open>wake\<close> on: at once for the closed channel, after the
  timer's duration otherwise. The outer select has a default case, so it takes the
  context's case exactly when \<^verbatim>\<open>Done\<close> is closed already. The inner select blocks until
  one of its channels is ready and takes that case; when both become ready at the same
  instant the run time picks one, which is the argument \<open>pick\<close> (true: the context).
  The result is the returned error and the instant of the return.
\<close>

definition waitUntil :: "Time \<Rightarrow> Time \<Rightarrow> Context \<Rightarrow> bool \<Rightarrow> error option \<times> Time" where
  "waitUntil t now ctx pick =
     (let wake = (if t > now then now + Time_Sub t now else now) in
      if ctx_Done ctx now then (Some (ctx_Err ctx), now)
      else
        case ctx_cancelAt ctx of
          None \<Rightarrow> (None, wake)
        | Some d \<Rightarrow>
            if d < wake then (Some (ctx_Err ctx), d)
            else if d = wake then (if pick then (Some (ctx_Err ctx), d) else (None, wake))
            else (None, wake))"

definition WaitLoadAuthorization ::
  "'w Env \<Rightarrow> Context \<Rightarrow> bool \<Rightarrow> Authorization \<Rightarrow> Client \<Rightarrow> 'w
     \<Rightarrow> error option \<times> Authorization \<times> Client \<times> 'w" where
  "WaitLoadAuthorization env ctx pick az c w =
     (case waitUntil (az_retryAt az) (time_Now env w) ctx pick of
        (Some err, at) \<Rightarrow> (Some err, az, c, w)
      | (None, at) \<Rightarrow> LoadAuthorization env az c w)"

definition WaitLoadChallenge ::
  "'w Env \<Rightarrow> Context \<Rightarrow> bool \<Rightarrow> Challenge \<Rightarrow> Client \<Rightarrow> 'w
     \<Rightarrow> error option \<times> Challenge \<times> Client \<times> 'w" where
  "WaitLoadChallenge env ctx pick ch c w =
     (case waitUntil (ch_retryAt ch) (time_Now env w) ctx pick of
        (Some err, at) \<Rightarrow> (Some err, ch, c, w)
      | (None, at) \<Rightarrow> LoadChallenge env ch c w)"

definition WaitLoadCertificate ::
  "'w Env \<Rightarrow> Context \<Rightarrow> bool \<Rightarrow> Certificate \<Rightarrow> Client \<Rightarrow> 'w \<Rightarrow> 'w chain_result option" where
  "WaitLoadCertificate env ctx pick crt c w =
     (case waitUntil (crt_retryAt crt) (time_Now env w) ctx pick of
        (Some err, at) \<Rightarrow> Some (Some err, crt, c, w)
      | (None, at) \<Rightarrow> LoadCertificate env crt c w)"

section \<open>A concrete environment\<close>

text \<open>
  The theorems below hold for every environment. To evaluate the functions on concrete
  inputs, this section fixes one small environment: URLs are split at their first
  colon, a reference that has a scheme resolves to itself, the link parser reads a
  header of the form \<^verbatim>\<open><URI>;rel="name"\<close>, the JSON decoders know a handful of
  bodies, signing takes the first nonce of the pool, and the transport is a parameter.
\<close>

definition demo_url_Parse :: "string \<Rightarrow> URL option" where
  "demo_url_Parse s =
     (if CHR '':'' \<in> set s
      then Some \<lparr>Scheme = takeWhile (\<lambda>ch. ch \<noteq> CHR '':'') s,
                 Rest = drop 1 (dropWhile (\<lambda>ch. ch \<noteq> CHR '':'') s)\<rparr>
      else Some \<lparr>Scheme = [], Rest = s\<rparr>)"

definition demo_url_ResolveReference :: "URL \<Rightarrow> URL \<Rightarrow> URL" where
  "demo_url_ResolveReference base ref =
     (if Scheme ref \<noteq> [] then ref else \<lparr>Scheme = Scheme base, Rest = Rest ref\<rparr>)"

definition demo_url_String :: "URL \<Rightarrow> string" where
  "demo_url_String u = (if Scheme u = [] then Rest u else Scheme u @ '':'' @ Rest u)"

definition demo_Unmarshal_string :: "string \<Rightarrow> error + string" where
  "demo_Unmarshal_string data =
     (if 2 \<le> length data \<and> hd data = CHR 0x22 \<and> last data = CHR 0x22
      then Inr (butlast (tl data))
      else Inl (LibError ''json: cannot unmarshal into Go value of type string''))"

definition demo_directory :: directoryInfo where
  "demo_directory =
     \<lparr>NewReg = ''https://ca/new-reg'', RecoverReg = [], NewAuthz = ''https://ca/new-authz'',
      NewCert = ''https://ca/new-cert'', RevokeCert = ''https://ca/revoke-cert''\<rparr>"

definition demo_Decode_directoryInfo ::
  "string + string \<Rightarrow> directoryInfo option \<Rightarrow> error option \<times> directoryInfo option" where
  "demo_Decode_directoryInfo body tgt =
     (if body = Inr ''{\"new-reg\":\"https://ca/new-reg\",\"new-authz\":\"https://ca/new-authz\",\"new-cert\":\"https://ca/new-cert\",\"revoke-cert\":\"https://ca/revoke-cert\"}''
      then (None, Some demo_directory)
      else (Some (LibError ''json: syntax error''), tgt))"

definition demo_Decode_regInfo ::
  "string + string \<Rightarrow> regInfo option \<Rightarrow> error option \<times> regInfo option" where
  "demo_Decode_regInfo body tgt =
     (if body = Inr ''{\"contact\":[\"mailto:a@b\"]}''
      then (None, Some \<lparr>reg_Resource = [], Contact = [''mailto:a@b''], AgreementURI = [],
                         AuthorizationsURI = [], CertificatesURI = []\<rparr>)
      else if body = Inr ''{\"contact\":[\"mailto:a@b\"],\"agreement\":\"https://ca/tos/v2\"}''
      then (None, Some \<lparr>reg_Resource = [], Contact = [''mailto:a@b''],
                         AgreementURI = ''https://ca/tos/v2'',
                         AuthorizationsURI = [], CertificatesURI = []\<rparr>)
      else (Some (LibError ''json: syntax error''), tgt))"

definition demo_challenge :: "string \<Rightarrow> Challenge" where
  "demo_challenge t =
     \<lparr>ch_URI = [], ch_Resource = [], ch_Type = t, ch_Status = ''pending'',
      Validated = zeroTime, Token = ''tok'', ch_retryAt = zeroTime\<rparr>"

definition demo_three :: "Challenge list" where
  "demo_three = [demo_challenge ''http-01'', demo_challenge ''dns-01'',
                 demo_challenge ''tls-sni-01'']"

definition demo_Decode_Authorization ::
  "string + string \<Rightarrow> Authorization \<Rightarrow> error option \<times> Authorization" where
  "demo_Decode_Authorization body az =
     (if body = Inr ''{\"status\":\"pending\",\"challenges\":[{\"type\":\"http-01\",\"status\":\"pending\",\"token\":\"tok\"},{\"type\":\"dns-01\",\"status\":\"pending\",\"token\":\"tok\"},{\"type\":\"tls-sni-01\",\"status\":\"pending\",\"token\":\"tok\"}]}''
      then (None, az\<lparr>az_Status := ''pending'', Challenges := demo_three\<rparr>)
      else if body = Inr ''{\"status\":\"pending\",\"challenges\":[{\"type\":\"http-01\",\"status\":\"pending\",\"token\":\"tok\"}],\"combinations\":[]}''
      then (None, az\<lparr>az_Status := ''pending'',
                       Challenges := [demo_challenge ''http-01''],
                       Combinations := Some []\<rparr>)
      else (Some (LibError ''json: syntax error''), az))"

definition demo_Sign ::
  "SignatureAlgorithm \<Rightarrow> PrivateKey \<Rightarrow> string \<Rightarrow> string list \<Rightarrow> 'w
     \<Rightarrow> (error + string) \<times> string list \<times> 'w" where
  "demo_Sign kalg k b ns w =
     (case ns of
        [] \<Rightarrow> (Inl (LibError ''no nonce''), [], w)
      | n # ns' \<Rightarrow> (Inr (''jws:'' @ n @ '':'' @ b), ns', w))"

definition demo_link_ParseResponse :: "Response \<Rightarrow> string \<Rightarrow> string option" where
  "demo_link_ParseResponse res rel =
     (let v = Header_Get (Header res) ''Link'';
          u = takeWhile (\<lambda>ch. ch \<noteq> CHR ''>'') (drop 1 v)
      in if v = ''<'' @ u @ ''>;rel=\"'' @ rel @ ''\"'' then Some u else None)"

definition demo_Parse_tail :: "string \<Rightarrow> Time option" where
  "demo_Parse_tail v =
     (if v = ''01 Jan 1970 00:01:40 GMT'' then Some (100 * Second) else None)"

definition demo_Marshal_regInfo :: "regInfo \<Rightarrow> error + string" where
  "demo_Marshal_regInfo ri =
     (if AgreementURI ri = [] then Inr (''{\"resource\":\"'' @ reg_Resource ri @ ''\"}'')
      else Inr (''{\"resource\":\"'' @ reg_Resource ri @ ''\",\"agreement\":\"''
                @ AgreementURI ri @ ''\"}''))"

definition demoEnv :: "('w \<Rightarrow> Request \<Rightarrow> (error + Response) \<times> 'w) \<Rightarrow> 'w Env" where
  "demoEnv transport =
     \<lparr>TestingNoTLS = False,
      url_Parse = demo_url_Parse,
      url_ResolveReference = demo_url_ResolveReference,
      url_String = demo_url_String,
      json_Unmarshal_string = demo_Unmarshal_string,
      json_Marshal_regInfo = demo_Marshal_regInfo,
      json_Marshal_Authorization = (\<lambda>az. Inr (''{\"resource\":\"'' @ az_Resource az @ ''\"}'')),
      json_Marshal_Certificate = (\<lambda>crt. Inr (''{\"resource\":\"'' @ crt_Resource crt @ ''\"}'')),
      json_Decode_directoryInfo = demo_Decode_directoryInfo,
      json_Decode_regInfo = demo_Decode_regInfo,
      json_Decode_Authorization = demo_Decode_Authorization,
      json_Decode_Challenge = (\<lambda>body ch. (Some (LibError ''json: syntax error''), ch)),
      jose_NewSigner = (\<lambda>kalg k. None),
      jose_Sign = demo_Sign,
      nonce_AddNonce = (\<lambda>n ns. ns @ [n]),
      http_NewRequest = (\<lambda>method url. None),
      http_Do = transport,
      link_ParseResponse = demo_link_ParseResponse,
      time_Parse_tail = demo_Parse_tail,
      time_Now = (\<lambda>w. 1000 * Second)\<rparr>"

text \<open>A server that answers the requests it gets with a fixed list of responses, in order.\<close>

definition scripted :: "Response list \<Rightarrow> Request \<Rightarrow> (error + Response) \<times> Response list" where
  "scripted w req =
     (case w of
        [] \<Rightarrow> (Inl (LibError ''connection refused''), [])
      | res # rest \<Rightarrow> (Inr res, rest))"

definition demo_newreg :: regInfo where
  "demo_newreg = \<lparr>reg_Resource = ''reg'', Contact = [''mailto:a@b''],
                  AgreementURI = [], AuthorizationsURI = [], CertificatesURI = []\<rparr>"

definition demo_crt :: Certificate where
  "demo_crt =
     \<lparr>crt_URI = ''https://ca/cert/5'', crt_Resource = [], crt_Certificate = [],
      ExtraCertificates = [], CSR = [], crt_retryAt = zeroTime\<rparr>"

definition res_pending :: Response where
  "res_pending = \<lparr>StatusCode = 202, Header = [(''Retry-After'', [''5''])], Body = Inr []\<rparr>"

definition res_notfound :: Response where
  "res_notfound =
     \<lparr>StatusCode = 404, Header = [(''Content-Type'', [''text/plain''])],
      Body = Inr ''not found''\<rparr>"

text \<open>
  A server whose certificate names itself as its issuer: every request is answered with
  the same certificate and an \<^verbatim>\<open>up\<close> link back to the certificate's own URL.
\<close>

definition res_cycle :: Response where
  "res_cycle =
     \<lparr>StatusCode = 200,
      Header = [(''Content-Type'', [''application/pkix-cert'']),
                (''Link'', [''<https://ca/cert/5>;rel=\"up\"''])],
      Body = Inr ''DER''\<rparr>"

definition cyclic :: "unit \<Rightarrow> Request \<Rightarrow> (error + Response) \<times> unit" where
  "cyclic w req = (Inr res_cycle, w)"

definition res_root :: Response where
  "res_root =
     \<lparr>StatusCode = 200, Header = [(''Content-Type'', [''application/pkix-cert''])],
      Body = Inr ''DER1''\<rparr>"

definition res_leaf :: Response where
  "res_leaf =
     \<lparr>StatusCode = 200,
      Header = [(''Content-Type'', [''application/pkix-cert'']),
                (''Link'', [''<https://ca/ca/root>;rel=\"up\"''])],
      Body = Inr ''DER0''\<rparr>"

definition demo_az :: Authorization where
  "demo_az =
     \<lparr>az_URI = ''https://ca/authz/7'', az_Resource = [],
      az_Identifier = \<lparr>id_Type = [], id_Value = []\<rparr>, az_Status = [], Expires = zeroTime,
      Challenges = [], Combinations = Some [[0], [1]], az_retryAt = zeroTime\<rparr>"

definition res_authz_three :: Response where
  "res_authz_three =
     \<lparr>StatusCode = 200, Header = [(''Content-Type'', [''application/json''])],
      Body = Inr ''{\"status\":\"pending\",\"challenges\":[{\"type\":\"http-01\",\"status\":\"pending\",\"token\":\"tok\"},{\"type\":\"dns-01\",\"status\":\"pending\",\"token\":\"tok\"},{\"type\":\"tls-sni-01\",\"status\":\"pending\",\"token\":\"tok\"}]}''\<rparr>"

definition res_authz_created :: Response where
  "res_authz_created =
     \<lparr>StatusCode = 201,
      Header = [(''Location'', [''https://ca/authz/7'']),
                (''Content-Type'', [''application/json''])],
      Body = Inr ''{\"status\":\"pending\",\"challenges\":[{\"type\":\"http-01\",\"status\":\"pending\",\"token\":\"tok\"},{\"type\":\"dns-01\",\"status\":\"pending\",\"token\":\"tok\"},{\"type\":\"tls-sni-01\",\"status\":\"pending\",\"token\":\"tok\"}]}''\<rparr>"

definition res_authz_empty :: Response where
  "res_authz_empty =
     \<lparr>StatusCode = 200, Header = [(''Content-Type'', [''application/json''])],
      Body = Inr ''{\"status\":\"pending\",\"challenges\":[{\"type\":\"http-01\",\"status\":\"pending\",\"token\":\"tok\"}],\"combinations\":[]}''\<rparr>"

definition res_created :: Response where
  "res_created =
     \<lparr>StatusCode = 201,
      Header = [(''Location'', [''https://ca/acct/1'']),
                (''Content-Type'', [''application/json''])],
      Body = Inr ''{\"contact\":[\"mailto:a@b\"]}''\<rparr>"

definition res_created_empty :: Response where
  "res_created_empty =
     \<lparr>StatusCode = 201,
      Header = [(''Location'', [''https://ca/acct/1'']),
                (''Content-Type'', [''application/json''])],
      Body = Inr []\<rparr>"

definition res_conflict_empty :: Response where
  "res_conflict_empty =
     \<lparr>StatusCode = 409,
      Header = [(''Location'', [''https://ca/acct/1'']),
                (''Content-Type'', [''application/json''])],
      Body = Inr []\<rparr>"

definition res_reg_tos :: Response where
  "res_reg_tos =
     \<lparr>StatusCode = 200,
      Header = [(''Content-Type'', [''application/json'']),
                (''Link'', [''<https://ca/tos/v2>;rel=\"terms-of-service\"''])],
      Body = Inr ''{\"contact\":[\"mailto:a@b\"]}''\<rparr>"

definition res_reg_agreed :: Response where
  "res_reg_agreed =
     \<lparr>StatusCode = 200,
      Header = [(''Content-Type'', [''application/json'']),
                (''Link'', [''<https://ca/tos/v2>;rel=\"terms-of-service\"''])],
      Body = Inr ''{\"contact\":[\"mailto:a@b\"],\"agreement\":\"https://ca/tos/v2\"}''\<rparr>"

definition reg_contact :: regInfo where
  "reg_contact = \<lparr>reg_Resource = [], Contact = [''mailto:a@b''], AgreementURI = [],
                   AuthorizationsURI = [], CertificatesURI = []\<rparr>"

definition req_reg :: "string \<Rightarrow> Request" where
  "req_reg body = \<lparr>Method = ''POST'', URL = ''https://ca/acct/1'',
                    ReqHeader = request_headers ''POST'', ReqBody = Some body\<rparr>"

definition ctx_cancelled :: Context where
  "ctx_cancelled = \<lparr>ctx_cancelAt = Some 5, ctx_Err = LibError ''context canceled''\<rparr>"

definition ctx_background :: Context where
  "ctx_background = \<lparr>ctx_cancelAt = None, ctx_Err = LibError ''context canceled''\<rparr>"

text \<open>
  The same server, keeping the requests it got: the world is the list of responses
  still to give and the list of requests received, latest first.
\<close>

definition recording ::
  "Response list \<times> Request list \<Rightarrow> Request
     \<Rightarrow> (error + Response) \<times> Response list \<times> Request list" where
  "recording w req =
     (case fst w of
        [] \<Rightarrow> (Inl (LibError ''connection refused''), [], req # snd w)
      | res # rest \<Rightarrow> (Inr res, rest, req # snd w))"

definition demo_client :: Client where
  "demo_client =
     \<lparr>AccountKey = Some RSAPrivateKey, AgreementURIs = {}, RegistrationURI = [],
      ContactURIs = [''mailto:a@b''], DirectoryURL = ''https://ca/directory'',
      dir = Some demo_directory, nonceSource = [''n1'', ''n2'', ''n3'']\<rparr>"

definition demo_registered :: Client where
  "demo_registered = demo_client\<lparr>RegistrationURI := ''https://ca/acct/1''\<rparr>"

section \<open>Properties of Status\<close>

text \<open>
  Claim C3. \<open>Valid\<close> holds exactly for the six status strings and \<open>Final\<close> exactly for
  \<open>valid\<close>, \<open>invalid\<close> and \<open>revoked\<close>. Unmarshalling a JSON string that is not one of the
  six fails and leaves the target as it was; so does a failure of the JSON string
  decoder; one of the six is stored.
\<close>

theorem Status_forms:
  "(Status_Valid s \<longleftrightarrow>
      s \<in> {''unknown'', ''pending'', ''processing'', ''valid'', ''invalid'', ''revoked''})
   \<and> (Status_Final s \<longleftrightarrow> s \<in> {''valid'', ''invalid'', ''revoked''})
   \<and> (\<forall>ss. json_Unmarshal_string env data = Inr ss
          \<and> ss \<notin> {''unknown'', ''pending'', ''processing'', ''valid'', ''invalid'', ''revoked''}
        \<longrightarrow> Status_UnmarshalJSON env s0 data = (Some (NotAValidStatus ss), s0))
   \<and> (\<forall>ss. json_Unmarshal_string env data = Inr ss
          \<and> ss \<in> {''unknown'', ''pending'', ''processing'', ''valid'', ''invalid'', ''revoked''}
        \<longrightarrow> Status_UnmarshalJSON env s0 data = (None, ss))
   \<and> (\<forall>err. json_Unmarshal_string env data = Inl err
        \<longrightarrow> Status_UnmarshalJSON env s0 data = (Some err, s0))"
  by (simp add: Status_Valid_def Status_Final_def Status_UnmarshalJSON_def)

theorem Status_forms_witness:
  "Status_UnmarshalJSON (demoEnv scripted) ''pending'' ''\"bogus\"''
     = (Some (NotAValidStatus ''bogus''), ''pending'')
   \<and> Status_UnmarshalJSON (demoEnv scripted) ''pending'' ''\"valid\"'' = (None, ''valid'')
   \<and> Status_UnmarshalJSON (demoEnv scripted) ''pending'' ''17''
     = (Some (LibError ''json: cannot unmarshal into Go value of type string''), ''pending'')
   \<and> Status_Valid ''processing'' \<and> \<not> Status_Final ''processing''"
proof -
  have u1: "json_Unmarshal_string (demoEnv scripted) ''\"bogus\"'' = Inr ''bogus''"
    by (simp add: demoEnv_def demo_Unmarshal_string_def)
  have u2: "json_Unmarshal_string (demoEnv scripted) ''\"valid\"'' = Inr ''valid''"
    by (simp add: demoEnv_def demo_Unmarshal_string_def)
  have u3: "json_Unmarshal_string (demoEnv scripted) ''17''
              = Inl (LibError ''json: cannot unmarshal into Go value of type string'')"
    by (simp add: demoEnv_def demo_Unmarshal_string_def)
  show ?thesis
    using Status_forms [of "''processing''" "demoEnv scripted" "''\"bogus\"''" "''pending''"]
      Status_forms [of "''processing''" "demoEnv scripted" "''\"valid\"''" "''pending''"]
      Status_forms [of "''processing''" "demoEnv scripted" "''17''" "''pending''"]
    by (simp add: u1 u2 u3)
qed

section \<open>Properties of the signing algorithm selection\<close>

text \<open>
  Claim C4. The algorithm is a function of the key alone: RS256 for an RSA key, ES256,
  ES384 and ES512 for an ECDSA key on P-256, P-384 and P-521, and an error (and no
  algorithm) for an ECDSA key on any other curve and for a key of any other type.
\<close>

theorem algorithmFromKey_forms:
  "algorithmFromKey RSAPrivateKey = Inr RS256
   \<and> algorithmFromKey (ECDSAPrivateKey ''P-256'') = Inr ES256
   \<and> algorithmFromKey (ECDSAPrivateKey ''P-384'') = Inr ES384
   \<and> algorithmFromKey (ECDSAPrivateKey ''P-521'') = Inr ES512
   \<and> (name \<notin> {''P-256'', ''P-384'', ''P-521''}
        \<longrightarrow> algorithmFromKey (ECDSAPrivateKey name) = Inl (UnsupportedECDSACurve name))
   \<and> algorithmFromKey (OtherKey t) = Inl (UnsupportedPrivateKeyType t)"
  by (simp add: algorithmFromKey_def)

theorem algorithmFromKey_forms_witness:
  "algorithmFromKey (ECDSAPrivateKey ''P-224'') = Inl (UnsupportedECDSACurve ''P-224'')
   \<and> algorithmFromKey (OtherKey ''ed25519.PrivateKey'')
       = Inl (UnsupportedPrivateKeyType ''ed25519.PrivateKey'')"
  using algorithmFromKey_forms [of "''P-224''" "''ed25519.PrivateKey''"]
  by simp

section \<open>Properties of the Retry-After parser\<close>

















section \<open>Properties of the transactor\<close>

lemma signBody_nil [simp]: "signBody env marshal key None c w = (Inr None, c, w)"
  by (simp add: signBody_def)

lemma signBody_no_key:
  "signBody env marshal None (Some x) c w =
     (case marshal x of Inl err \<Rightarrow> (Inl err, c, w) | Inr b \<Rightarrow> (Inl AccountKeyMustBeSpecified, c, w))"
  by (simp add: signBody_def split: sum.splits)

text \<open>
  Claim C9, as the code has it. A request with a payload, no key of its own and no
  account key fails before any HTTP request is built or sent: the target, the Client
  (its nonce pool included) and the world are as before. The error is the missing
  account key when the URL is valid and the payload marshals; an invalid URL and a
  payload that does not marshal are reported first.
\<close>

theorem doReqEx_no_key:
  "AccountKey c = None \<longrightarrow>
     doReqEx env marshal decode method url None (Some x) r c w =
       (Fail (if \<not> ValidURL env (noTLS_url env url) then InvalidURL (noTLS_url env url)
              else case marshal x of Inl err \<Rightarrow> err | Inr b \<Rightarrow> AccountKeyMustBeSpecified),
        r, c, w)"
  by (simp add: doReqEx_def signBody_no_key Let_def split: sum.splits)


lemma demo_ValidURL_https [simp]:
  "ValidURL (demoEnv t) (''https:'' @ rest)"
  by (simp add: ValidURL_def demoEnv_def demo_url_Parse_def)

lemma demo_ValidURL_http [simp]:
  "\<not> ValidURL (demoEnv t) (''http:'' @ rest)"
  by (simp add: ValidURL_def demoEnv_def demo_url_Parse_def)

lemma demo_noTLS [simp]: "noTLS_url (demoEnv t) u = u"
  by (simp add: noTLS_url_def demoEnv_def)

theorem doReqEx_no_key_witness:
  "doReqEx (demoEnv scripted) (json_Marshal_regInfo (demoEnv scripted))
       (json_Decode_regInfo (demoEnv scripted)) ''POST'' ''https://ca/acct/1'' None
       (Some demo_newreg) (Some None) (demo_client\<lparr>AccountKey := None\<rparr>) []
     = (Fail AccountKeyMustBeSpecified, Some None, demo_client\<lparr>AccountKey := None\<rparr>, [])"
proof -
  have v: "ValidURL (demoEnv scripted) (''https:'' @ ''//ca/acct/1'')"
    by (rule demo_ValidURL_https)
  have m: "json_Marshal_regInfo (demoEnv scripted) demo_newreg = Inr ''{\"resource\":\"reg\"}''"
    by (simp add: demoEnv_def demo_newreg_def demo_Marshal_regInfo_def)
  have k: "AccountKey (demo_client\<lparr>AccountKey := None\<rparr>) = None" by simp
  show ?thesis
    using doReqEx_no_key [of "demo_client\<lparr>AccountKey := None\<rparr>" "demoEnv scripted"
        "json_Marshal_regInfo (demoEnv scripted)" "json_Decode_regInfo (demoEnv scripted)"
        "''POST''" "''https://ca/acct/1''" demo_newreg "Some None" "[]"] v m k
    by simp
qed

text \<open>
  With a plain \<^verbatim>\<open>http:\<close> URL the same request fails with the invalid URL error, not with
  the missing account key.
\<close>

theorem doReqEx_no_key_counterexample:
  "fst (doReqEx (demoEnv scripted) (json_Marshal_regInfo (demoEnv scripted))
       (json_Decode_regInfo (demoEnv scripted)) ''POST'' ''http://ca/acct/1'' None
       (Some demo_newreg) (Some None) (demo_client\<lparr>AccountKey := None\<rparr>) [])
     = Fail (InvalidURL ''http://ca/acct/1'')
   \<and> fst (doReqEx (demoEnv scripted) (json_Marshal_regInfo (demoEnv scripted))
       (json_Decode_regInfo (demoEnv scripted)) ''POST'' ''http://ca/acct/1'' None
       (Some demo_newreg) (Some None) (demo_client\<lparr>AccountKey := None\<rparr>) [])
     \<noteq> Fail AccountKeyMustBeSpecified"
proof -
  have v: "\<not> ValidURL (demoEnv scripted) (''http:'' @ ''//ca/acct/1'')"
    by (rule demo_ValidURL_http)
  show ?thesis using v by (simp add: doReqEx_def)
qed

section \<open>Properties of certificate loading\<close>

lemma doReq_plain:
  assumes "ValidURL env (noTLS_url env url)"
    and "http_NewRequest env m (noTLS_url env url) = None"
    and "http_Do env w \<lparr>Method = m, URL = noTLS_url env url,
                         ReqHeader = request_headers m, ReqBody = None\<rparr> = (Inr res, w1)"
  shows "doReq env no_marshal no_decode m url None None c w =
           (if 400 \<le> StatusCode res \<and> StatusCode res < 600
            then ResErr res (newHTTPError res) else Ok res,
            None, absorb_nonce env res c, w1)"
  using assms by (simp add: doReq_def doReqEx_def receive_def Let_def)

lemma loadCertificate_not_ready:
  "Header_Get (Header res) ''Content-Type'' \<noteq> ''application/pkix-cert'' \<Longrightarrow>
   StatusCode res \<noteq> 200 \<Longrightarrow>
   loadCertificate env crt res c w =
     Some (None,
           crt\<lparr>crt_retryAt := retryAtDefault env (Header res) (10 * Second) (time_Now env w)\<rparr>,
           c, w)"
  by (simp add: loadCertificate_def)

text \<open>
  Claim C10, as the code has it. \<^verbatim>\<open>loadCertificate\<close>, given a response that is not a
  certificate and whose status is not 200, returns success and changes the retry
  instant only. \<^verbatim>\<open>LoadCertificate\<close> does so for the response of its GET when the status
  is also outside 400 to 599; for a status in that range the transactor's HTTP error
  is returned and the certificate is left as it was.
\<close>

theorem LoadCertificate_pending:
  "(Header_Get (Header res) ''Content-Type'' \<noteq> ''application/pkix-cert''
      \<and> StatusCode res \<noteq> 200
    \<longrightarrow> loadCertificate env crt res c w =
          Some (None,
                crt\<lparr>crt_retryAt :=
                      retryAtDefault env (Header res) (10 * Second) (time_Now env w)\<rparr>,
                c, w))
   \<and> (ValidURL env (noTLS_url env (crt_URI crt))
      \<and> http_NewRequest env ''GET'' (noTLS_url env (crt_URI crt)) = None
      \<and> http_Do env w \<lparr>Method = ''GET'', URL = noTLS_url env (crt_URI crt),
                         ReqHeader = request_headers ''GET'', ReqBody = None\<rparr> = (Inr res, w1)
      \<and> Header_Get (Header res) ''Content-Type'' \<noteq> ''application/pkix-cert''
      \<and> StatusCode res \<noteq> 200
    \<longrightarrow> LoadCertificate env crt c w =
          (if 400 \<le> StatusCode res \<and> StatusCode res < 600
           then Some (Some (newHTTPError res), crt, absorb_nonce env res c, w1)
           else Some (None,
                      crt\<lparr>crt_retryAt :=
                            retryAtDefault env (Header res) (10 * Second) (time_Now env w1)\<rparr>,
                      absorb_nonce env res c, w1)))"
proof (intro conjI impI)
  assume "Header_Get (Header res) ''Content-Type'' \<noteq> ''application/pkix-cert''
      \<and> StatusCode res \<noteq> 200"
  then show "loadCertificate env crt res c w =
          Some (None,
                crt\<lparr>crt_retryAt :=
                      retryAtDefault env (Header res) (10 * Second) (time_Now env w)\<rparr>,
                c, w)"
    by (simp add: loadCertificate_not_ready)
next
  assume a: "ValidURL env (noTLS_url env (crt_URI crt))
      \<and> http_NewRequest env ''GET'' (noTLS_url env (crt_URI crt)) = None
      \<and> http_Do env w \<lparr>Method = ''GET'', URL = noTLS_url env (crt_URI crt),
                         ReqHeader = request_headers ''GET'', ReqBody = None\<rparr> = (Inr res, w1)
      \<and> Header_Get (Header res) ''Content-Type'' \<noteq> ''application/pkix-cert''
      \<and> StatusCode res \<noteq> 200"
  then have d: "doReq env no_marshal no_decode ''GET'' (crt_URI crt) None None c w =
           (if 400 \<le> StatusCode res \<and> StatusCode res < 600
            then ResErr res (newHTTPError res) else Ok res,
            None, absorb_nonce env res c, w1)"
    by (intro doReq_plain) simp_all
  show "LoadCertificate env crt c w =
          (if 400 \<le> StatusCode res \<and> StatusCode res < 600
           then Some (Some (newHTTPError res), crt, absorb_nonce env res c, w1)
           else Some (None,
                      crt\<lparr>crt_retryAt :=
                            retryAtDefault env (Header res) (10 * Second) (time_Now env w1)\<rparr>,
                      absorb_nonce env res c, w1))"
    using a by (simp add: LoadCertificate_def d loadCertificate_not_ready)
qed

lemma demoEnv_fields [simp]:
  "TestingNoTLS (demoEnv t) = False"
  "url_Parse (demoEnv t) = demo_url_Parse"
  "url_ResolveReference (demoEnv t) = demo_url_ResolveReference"
  "url_String (demoEnv t) = demo_url_String"
  "json_Decode_directoryInfo (demoEnv t) = demo_Decode_directoryInfo"
  "json_Decode_regInfo (demoEnv t) = demo_Decode_regInfo"
  "json_Decode_Authorization (demoEnv t) = demo_Decode_Authorization"
  "jose_NewSigner (demoEnv t) = (\<lambda>kalg k. None)"
  "jose_Sign (demoEnv t) = demo_Sign"
  "nonce_AddNonce (demoEnv t) = (\<lambda>n ns. ns @ [n])"
  "http_NewRequest (demoEnv t) = (\<lambda>method url. None)"
  "http_Do (demoEnv t) = t"
  "link_ParseResponse (demoEnv t) = demo_link_ParseResponse"
  "time_Parse_tail (demoEnv t) = demo_Parse_tail"
  "time_Now (demoEnv t) = (\<lambda>w. 1000 * Second)"
  by (simp_all add: demoEnv_def)

theorem LoadCertificate_pending_witness:
  "loadCertificate (demoEnv scripted) demo_crt res_pending demo_client []
     = Some (None, demo_crt\<lparr>crt_retryAt := 1005000000000\<rparr>, demo_client, [])
   \<and> LoadCertificate (demoEnv scripted) demo_crt demo_client [res_pending]
     = Some (None, demo_crt\<lparr>crt_retryAt := 1005000000000\<rparr>, demo_client, [])"
proof -
  have v: "ValidURL (demoEnv scripted) (''https:'' @ ''//ca/cert/5'')"
    by (rule demo_ValidURL_https)
  have r: "retryAtDefault (demoEnv scripted) (Header res_pending) (10 * Second) (1000 * Second)
             = 1005000000000"
    by (simp add: retryAtDefault_def parseRetryAfter_def res_pending_def Header_Get_def
          ParseUint_10_31_def is_digit_def digit_val_def maxUint64_def maxVal31_def
          Duration_mul_def Second_def)
  have a: "absorb_nonce (demoEnv scripted) res_pending demo_client = demo_client"
    by (simp add: absorb_nonce_def res_pending_def Header_Get_def)
  have h: "Header_Get (Header res_pending) ''Content-Type'' \<noteq> ''application/pkix-cert''"
    by (simp add: res_pending_def Header_Get_def)
  have s: "StatusCode res_pending = 202" by (simp add: res_pending_def)
  have hs: "Header_Get (Header res_pending) ''Content-Type'' \<noteq> ''application/pkix-cert''
            \<and> StatusCode res_pending \<noteq> 200"
    using h s by simp
  have l1: "loadCertificate (demoEnv scripted) demo_crt res_pending demo_client []
     = Some (None, demo_crt\<lparr>crt_retryAt := 1005000000000\<rparr>, demo_client, [])"
    using LoadCertificate_pending [THEN conjunct1, THEN mp, OF hs, of "demoEnv scripted"
        demo_crt demo_client "[]"] r
    by simp
  have l2: "LoadCertificate (demoEnv scripted) demo_crt demo_client [res_pending]
     = Some (None, demo_crt\<lparr>crt_retryAt := 1005000000000\<rparr>, demo_client, [])"
    using LoadCertificate_pending [of res_pending "demoEnv scripted" demo_crt demo_client
        "[res_pending]" "[]"] v r a h s
    by (simp add: demo_crt_def scripted_def)
  show ?thesis using l1 l2 by simp
qed

text \<open>
  A 404 answer is not a certificate and its status is not 200, yet \<^verbatim>\<open>LoadCertificate\<close>
  returns an error.
\<close>

theorem LoadCertificate_pending_counterexample:
  "LoadCertificate (demoEnv scripted) demo_crt demo_client [res_notfound]
     = Some (Some (HTTPError res_notfound []), demo_crt, demo_client, [])
   \<and> StatusCode res_notfound \<noteq> 200
   \<and> Header_Get (Header res_notfound) ''Content-Type'' \<noteq> ''application/pkix-cert''"
proof -
  have v: "ValidURL (demoEnv scripted) (''https:'' @ ''//ca/cert/5'')"
    by (rule demo_ValidURL_https)
  have a: "absorb_nonce (demoEnv scripted) res_notfound demo_client = demo_client"
    by (simp add: absorb_nonce_def res_notfound_def Header_Get_def)
  have d: "doReq (demoEnv scripted) no_marshal no_decode ''GET'' ''https://ca/cert/5'' None None
             demo_client [res_notfound]
           = (ResErr res_notfound (HTTPError res_notfound []), None, demo_client, [])"
    using v by (subst doReq_plain [where res = res_notfound and ?w1.0 = "[]"])
      (simp_all add: scripted_def a, simp_all add: res_notfound_def newHTTPError_def Header_Get_def)
  show ?thesis
    by (simp add: LoadCertificate_def demo_crt_def d)
      (simp add: res_notfound_def Header_Get_def)
qed

section \<open>Properties of the chain walk\<close>

lemma chain_run_imp_loop: "chain_run env n s = Some r \<Longrightarrow> chain_loop env s = Some r"
proof (induction n arbitrary: s)
  case 0
  then show ?case by simp
next
  case (Suc n)
  show ?case
  proof (cases "chain_step env s")
    case (Inl r')
    with Suc.prems show ?thesis by (simp add: chain_loop.simps [of env s])
  next
    case (Inr s')
    with Suc.prems have "chain_run env n s' = Some r" by simp
    then have "chain_loop env s' = Some r" by (rule Suc.IH)
    with Inr show ?thesis by (simp add: chain_loop.simps [of env s])
  qed
qed

lemma chain_loop_imp_run:
  assumes "chain_loop env s = Some r"
  shows "\<exists>n. chain_run env n s = Some r"
proof (rule chain_loop.raw_induct [where P = "\<lambda>env s r. \<exists>n. chain_run env n s = Some r", OF _ assms])
  fix loop :: "'a Env \<Rightarrow> 'a chain_state \<Rightarrow> 'a chain_result option" and env' s' r'
  assume IH: "\<And>env s r. loop env s = Some r \<Longrightarrow> \<exists>n. chain_run env n s = Some r"
    and step: "(case chain_step env' s' of Inl r \<Rightarrow> Some r | Inr s'' \<Rightarrow> loop env' s'') = Some r'"
  show "\<exists>n. chain_run env' n s' = Some r'"
  proof (cases "chain_step env' s'")
    case (Inl r0)
    with step have "chain_run env' (Suc 0) s' = Some r'" by simp
    then show ?thesis ..
  next
    case (Inr s'')
    with step have "loop env' s'' = Some r'" by simp
    then obtain n where "chain_run env' n s'' = Some r'" using IH by blast
    with Inr have "chain_run env' (Suc n) s' = Some r'" by simp
    then show ?thesis ..
  qed
qed

lemma chain_step_no_up:
  "link_ParseResponse env res ''up'' = None \<Longrightarrow>
   chain_step env (crt, res, c, w) = Inl (None, crt, c, w)"
  by (simp add: chain_step_def)

lemma chain_loop_never:
  assumes inv: "\<And>s. I s \<Longrightarrow> \<exists>s'. chain_step env s = Inr s' \<and> I s'"
  shows "I s \<Longrightarrow> chain_loop env s = None"
proof -
  have "\<And>n s. I s \<Longrightarrow> chain_run env n s = None"
  proof -
    fix n s show "I s \<Longrightarrow> chain_run env n s = None"
    proof (induction n arbitrary: s)
      case 0
      show ?case by simp
    next
      case (Suc n)
      from inv [OF Suc.prems] obtain s' where s': "chain_step env s = Inr s'" "I s'" by blast
      with Suc.IH [of s'] show ?case by simp
    qed
  qed
  moreover assume "I s"
  ultimately have none: "\<And>n. chain_run env n s = None" by blast
  show "chain_loop env s = None"
  proof (cases "chain_loop env s")
    case None
    then show ?thesis .
  next
    case (Some r)
    then obtain n where "chain_run env n s = Some r" using chain_loop_imp_run by blast
    with none show ?thesis by simp
  qed
qed

lemma chain_step_success:
  "(\<exists>crt' c' w'. chain_step env (crt, res, c, w) = Inl (None, crt', c', w'))
     = (link_ParseResponse env res ''up'' = None)"
  by (auto simp: chain_step_def Let_def
        split: option.splits prod.splits outcome.splits sum.splits if_splits)

lemma chain_run_trace:
  "chain_run env n s = Some r \<Longrightarrow>
   \<exists>m f. f 0 = s \<and> (\<forall>i<m. chain_step env (f i) = Inr (f (Suc i)))
         \<and> chain_step env (f m) = Inl r"
proof (induction n arbitrary: s)
  case 0
  then show ?case by simp
next
  case (Suc n)
  show ?case
  proof (cases "chain_step env s")
    case (Inl r')
    with Suc.prems have r: "chain_step env s = Inl r" by simp
    define f where "f = (\<lambda>i :: nat. s)"
    have "f 0 = s \<and> (\<forall>i<0. chain_step env (f i) = Inr (f (Suc i)))
            \<and> chain_step env (f 0) = Inl r"
      using r by (simp add: f_def)
    then show ?thesis by blast
  next
    case (Inr s')
    with Suc.prems have "chain_run env n s' = Some r" by simp
    from Suc.IH [OF this] obtain m g where g0: "g 0 = s'"
      and gs: "\<forall>i<m. chain_step env (g i) = Inr (g (Suc i))"
      and gm: "chain_step env (g m) = Inl r" by blast
    define f where "f = (\<lambda>i. case i of 0 \<Rightarrow> s | Suc j \<Rightarrow> g j)"
    have "f 0 = s" by (simp add: f_def)
    moreover have "\<forall>i<Suc m. chain_step env (f i) = Inr (f (Suc i))"
    proof (intro allI impI)
      fix i assume "i < Suc m"
      then show "chain_step env (f i) = Inr (f (Suc i))"
        using Inr g0 gs by (cases i) (simp_all add: f_def)
    qed
    moreover have "chain_step env (f (Suc m)) = Inl r" using gm by (simp add: f_def)
    ultimately show ?thesis by blast
  qed
qed

lemma trace_chain_run:
  "(\<forall>i<m. chain_step env (f i) = Inr (f (Suc i))) \<Longrightarrow> chain_step env (f m) = Inl r \<Longrightarrow>
   chain_run env (Suc m) (f 0) = Some r"
proof (induction m arbitrary: f)
  case 0
  then show ?case by simp
next
  case (Suc m)
  have "\<forall>i<m. chain_step env ((f \<circ> Suc) i) = Inr ((f \<circ> Suc) (Suc i))"
    using Suc.prems(1) by simp
  moreover have "chain_step env ((f \<circ> Suc) m) = Inl r" using Suc.prems(2) by simp
  ultimately have "chain_run env (Suc m) ((f \<circ> Suc) 0) = Some r" by (rule Suc.IH)
  moreover have "chain_step env (f 0) = Inr (f (Suc 0))" using Suc.prems(1) by simp
  ultimately show ?case by simp
qed

lemma chain_loop_trace:
  "(chain_loop env s = Some r)
     = (\<exists>m f. f 0 = s \<and> (\<forall>i<m. chain_step env (f i) = Inr (f (Suc i)))
          \<and> chain_step env (f m) = Inl r)"
proof
  assume "chain_loop env s = Some r"
  then obtain n where "chain_run env n s = Some r" using chain_loop_imp_run by blast
  then show "\<exists>m f. f 0 = s \<and> (\<forall>i<m. chain_step env (f i) = Inr (f (Suc i)))
          \<and> chain_step env (f m) = Inl r"
    by (rule chain_run_trace)
next
  assume "\<exists>m f. f 0 = s \<and> (\<forall>i<m. chain_step env (f i) = Inr (f (Suc i)))
          \<and> chain_step env (f m) = Inl r"
  then obtain m f where "f 0 = s" and "\<forall>i<m. chain_step env (f i) = Inr (f (Suc i))"
    and "chain_step env (f m) = Inl r" by blast
  then have "chain_run env (Suc m) s = Some r" using trace_chain_run by blast
  then show "chain_loop env s = Some r" by (rule chain_run_imp_loop)
qed

lemma chain_step_get:
  assumes "link_ParseResponse env res ''up'' = Some up"
    and "url_Parse env (crt_URI crt) = Some cu"
    and "url_Parse env up = Some uu"
    and "doReq env no_marshal no_decode ''GET''
           (url_String env (url_ResolveReference env cu uu)) None None c w = (oc, r', c1, w1)"
  shows "(outcome_err oc = Some err \<longrightarrow> chain_step env (crt, res, c, w) = Inl (Some err, crt, c1, w1))
     \<and> (oc = Ok res' \<and> Header_Get (Header res') ''Content-Type'' \<noteq> ''application/pkix-cert''
          \<longrightarrow> chain_step env (crt, res, c, w)
              = Inl (Some (UnexpectedCertificateType (Header_Get (Header res') ''Content-Type'')),
                     crt, c1, w1))
     \<and> (oc = Ok res' \<and> Header_Get (Header res') ''Content-Type'' = ''application/pkix-cert''
          \<and> Body res' = Inl msg
          \<longrightarrow> chain_step env (crt, res, c, w) = Inl (Some (LibError msg), crt, c1, w1))
     \<and> (oc = Ok res' \<and> Header_Get (Header res') ''Content-Type'' = ''application/pkix-cert''
          \<and> Body res' = Inr der
          \<longrightarrow> chain_step env (crt, res, c, w)
              = Inr (crt\<lparr>ExtraCertificates := ExtraCertificates crt @ [der]\<rparr>, res', c1, w1))"
  using assms by (cases oc) (simp_all add: chain_step_def outcome_err_def Let_def)

lemma loadCertificate_None:
  "(loadCertificate env crt res c w = None)
     = (Header_Get (Header res) ''Content-Type'' = ''application/pkix-cert''
        \<and> (\<exists>der. Body res = Inr der
              \<and> loadExtraCertificates env (crt\<lparr>crt_Certificate := der\<rparr>) res c w = None))"
  by (auto simp: loadCertificate_def Let_def split: sum.splits option.splits prod.splits)

lemma LoadCertificate_None:
  "(LoadCertificate env crt c w = None)
     = (\<exists>res r' c1 w1. doReq env no_marshal no_decode ''GET'' (crt_URI crt) None None c w
                          = (Ok res, r', c1, w1)
          \<and> loadCertificate env crt res c1 w1 = None)"
  by (auto simp: LoadCertificate_def split: prod.splits outcome.splits)

lemma RequestCertificate_None:
  "(RequestCertificate env csrDER c w = None)
     = (\<exists>di c1 w1 res r' c2 w2.
          getDirectory env c w = (Inr di, c1, w1)
          \<and> doReq env (json_Marshal_Certificate env) no_decode ''POST'' (NewCert di)
               (Some \<lparr>crt_URI = [], crt_Resource = ''new-cert'', crt_Certificate = [],
                      ExtraCertificates = [], CSR = csrDER, crt_retryAt = zeroTime\<rparr>)
               None c1 w1 = (Ok res, r', c2, w2)
          \<and> StatusCode res = 201
          \<and> ValidURL env (Header_Get (Header res) ''Location'')
          \<and> loadCertificate env
               \<lparr>crt_URI = Header_Get (Header res) ''Location'', crt_Resource = ''new-cert'',
                crt_Certificate = [], ExtraCertificates = [], CSR = csrDER,
                crt_retryAt = zeroTime\<rparr>
               res c2 w2 = None)"
  by (auto simp: RequestCertificate_def Let_def
        split: prod.splits outcome.splits sum.splits option.splits if_splits)


text \<open>
  Claim C2, as the code has it. One turn of the loop of \<^verbatim>\<open>loadExtraCertificates\<close>
  looks at the response last received. Without an \<^verbatim>\<open>up\<close> link the turn returns
  success, with no request made and the certificate as it stands, and only then does a
  turn return without an error. With an \<^verbatim>\<open>up\<close> link, the turn returns the error
  \<^verbatim>\<open>invalid URI\<close> when the certificate's URI or the link does not parse; otherwise it
  makes one GET of the link resolved against the certificate's URI, and returns the
  error of the request when it fails, an error when the answer is not of type
  \<^verbatim>\<open>application/pkix-cert\<close> or its body cannot be read, and otherwise appends the body
  to the extra certificates and goes on with the answer as the response to look at.

  The walk starts from no extra certificates and returns \<open>r\<close> exactly when finitely many
  turns that go on are followed by a turn that returns \<open>r\<close>. It has no bound on the
  number of turns and keeps no record of the URLs it visited: from a state in a set of
  states that every turn leaves by going on into the set, it never returns.
  \<^verbatim>\<open>LoadCertificate\<close> and \<^verbatim>\<open>RequestCertificate\<close> fail to return exactly when the chain walk
  they start does.
\<close>

theorem chain_walk_returns:
  "(link_ParseResponse env res ''up'' = None
      \<longrightarrow> loadExtraCertificates env crt res c w
            = Some (None, crt\<lparr>ExtraCertificates := []\<rparr>, c, w))
   \<and> ((loadExtraCertificates env crt res c w = Some r)
        = (\<exists>n. chain_run env n (crt\<lparr>ExtraCertificates := []\<rparr>, res, c, w) = Some r))
   \<and> ((\<exists>crt' c' w'. chain_step env (crt, res, c, w) = Inl (None, crt', c', w'))
        = (link_ParseResponse env res ''up'' = None))
   \<and> (link_ParseResponse env res ''up'' = None
      \<longrightarrow> chain_step env (crt, res, c, w) = Inl (None, crt, c, w))
   \<and> (link_ParseResponse env res ''up'' = Some up
        \<and> (url_Parse env (crt_URI crt) = None \<or> url_Parse env up = None)
      \<longrightarrow> chain_step env (crt, res, c, w) = Inl (Some InvalidURIError, crt, c, w))
   \<and> (link_ParseResponse env res ''up'' = Some up
        \<and> url_Parse env (crt_URI crt) = Some cu \<and> url_Parse env up = Some uu
        \<and> doReq env no_marshal no_decode ''GET''
             (url_String env (url_ResolveReference env cu uu)) None None c w = (oc, r', c1, w1)
      \<longrightarrow> (outcome_err oc = Some err
            \<longrightarrow> chain_step env (crt, res, c, w) = Inl (Some err, crt, c1, w1))
        \<and> (oc = Ok res' \<and> Header_Get (Header res') ''Content-Type'' \<noteq> ''application/pkix-cert''
            \<longrightarrow> chain_step env (crt, res, c, w)
                = Inl (Some (UnexpectedCertificateType (Header_Get (Header res') ''Content-Type'')),
                       crt, c1, w1))
        \<and> (oc = Ok res' \<and> Header_Get (Header res') ''Content-Type'' = ''application/pkix-cert''
             \<and> Body res' = Inl msg
            \<longrightarrow> chain_step env (crt, res, c, w) = Inl (Some (LibError msg), crt, c1, w1))
        \<and> (oc = Ok res' \<and> Header_Get (Header res') ''Content-Type'' = ''application/pkix-cert''
             \<and> Body res' = Inr der
            \<longrightarrow> chain_step env (crt, res, c, w)
                = Inr (crt\<lparr>ExtraCertificates := ExtraCertificates crt @ [der]\<rparr>, res', c1, w1)))
   \<and> ((loadExtraCertificates env crt res c w = Some r)
        = (\<exists>m f. f 0 = (crt\<lparr>ExtraCertificates := []\<rparr>, res, c, w)
             \<and> (\<forall>i<m. chain_step env (f i) = Inr (f (Suc i)))
             \<and> chain_step env (f m) = Inl r))
   \<and> ((\<forall>s. I s \<longrightarrow> (\<exists>s'. chain_step env s = Inr s' \<and> I s'))
        \<and> I (crt\<lparr>ExtraCertificates := []\<rparr>, res, c, w)
      \<longrightarrow> loadExtraCertificates env crt res c w = None)
   \<and> ((LoadCertificate env crt c w = None)
        = (\<exists>res0 r0 c0 w0 der0.
             doReq env no_marshal no_decode ''GET'' (crt_URI crt) None None c w
               = (Ok res0, r0, c0, w0)
             \<and> Header_Get (Header res0) ''Content-Type'' = ''application/pkix-cert''
             \<and> Body res0 = Inr der0
             \<and> loadExtraCertificates env (crt\<lparr>crt_Certificate := der0\<rparr>) res0 c0 w0 = None))
   \<and> ((RequestCertificate env csrDER c w = None)
        = (\<exists>di ca wa res0 r0 c0 w0 der0.
             getDirectory env c w = (Inr di, ca, wa)
             \<and> doReq env (json_Marshal_Certificate env) no_decode ''POST'' (NewCert di)
                  (Some \<lparr>crt_URI = [], crt_Resource = ''new-cert'', crt_Certificate = [],
                         ExtraCertificates = [], CSR = csrDER, crt_retryAt = zeroTime\<rparr>)
                  None ca wa = (Ok res0, r0, c0, w0)
             \<and> StatusCode res0 = 201
             \<and> ValidURL env (Header_Get (Header res0) ''Location'')
             \<and> Header_Get (Header res0) ''Content-Type'' = ''application/pkix-cert''
             \<and> Body res0 = Inr der0
             \<and> loadExtraCertificates env
                  \<lparr>crt_URI = Header_Get (Header res0) ''Location'', crt_Resource = ''new-cert'',
                   crt_Certificate = der0, ExtraCertificates = [], CSR = csrDER,
                   crt_retryAt = zeroTime\<rparr>
                  res0 c0 w0 = None))"
proof (intro conjI)
  show "link_ParseResponse env res ''up'' = None
      \<longrightarrow> loadExtraCertificates env crt res c w
            = Some (None, crt\<lparr>ExtraCertificates := []\<rparr>, c, w)"
  proof
    assume "link_ParseResponse env res ''up'' = None"
    then have "chain_run env (Suc 0) (crt\<lparr>ExtraCertificates := []\<rparr>, res, c, w)
                 = Some (None, crt\<lparr>ExtraCertificates := []\<rparr>, c, w)"
      by (simp add: chain_step_no_up)
    then show "loadExtraCertificates env crt res c w
                 = Some (None, crt\<lparr>ExtraCertificates := []\<rparr>, c, w)"
      unfolding loadExtraCertificates_def by (rule chain_run_imp_loop)
  qed
next
  show "(loadExtraCertificates env crt res c w = Some r)
        = (\<exists>n. chain_run env n (crt\<lparr>ExtraCertificates := []\<rparr>, res, c, w) = Some r)"
    unfolding loadExtraCertificates_def
    using chain_run_imp_loop chain_loop_imp_run by blast
next
  show "(\<exists>crt' c' w'. chain_step env (crt, res, c, w) = Inl (None, crt', c', w'))
        = (link_ParseResponse env res ''up'' = None)"
    by (rule chain_step_success)
next
  show "link_ParseResponse env res ''up'' = None
      \<longrightarrow> chain_step env (crt, res, c, w) = Inl (None, crt, c, w)"
    by (simp add: chain_step_no_up)
next
  show "link_ParseResponse env res ''up'' = Some up
        \<and> (url_Parse env (crt_URI crt) = None \<or> url_Parse env up = None)
      \<longrightarrow> chain_step env (crt, res, c, w) = Inl (Some InvalidURIError, crt, c, w)"
    by (auto simp: chain_step_def split: option.splits)
next
  show "link_ParseResponse env res ''up'' = Some up
        \<and> url_Parse env (crt_URI crt) = Some cu \<and> url_Parse env up = Some uu
        \<and> doReq env no_marshal no_decode ''GET''
             (url_String env (url_ResolveReference env cu uu)) None None c w = (oc, r', c1, w1)
      \<longrightarrow> (outcome_err oc = Some err
            \<longrightarrow> chain_step env (crt, res, c, w) = Inl (Some err, crt, c1, w1))
        \<and> (oc = Ok res' \<and> Header_Get (Header res') ''Content-Type'' \<noteq> ''application/pkix-cert''
            \<longrightarrow> chain_step env (crt, res, c, w)
                = Inl (Some (UnexpectedCertificateType (Header_Get (Header res') ''Content-Type'')),
                       crt, c1, w1))
        \<and> (oc = Ok res' \<and> Header_Get (Header res') ''Content-Type'' = ''application/pkix-cert''
             \<and> Body res' = Inl msg
            \<longrightarrow> chain_step env (crt, res, c, w) = Inl (Some (LibError msg), crt, c1, w1))
        \<and> (oc = Ok res' \<and> Header_Get (Header res') ''Content-Type'' = ''application/pkix-cert''
             \<and> Body res' = Inr der
            \<longrightarrow> chain_step env (crt, res, c, w)
                = Inr (crt\<lparr>ExtraCertificates := ExtraCertificates crt @ [der]\<rparr>, res', c1, w1))"
  proof
    assume a: "link_ParseResponse env res ''up'' = Some up
        \<and> url_Parse env (crt_URI crt) = Some cu \<and> url_Parse env up = Some uu
        \<and> doReq env no_marshal no_decode ''GET''
             (url_String env (url_ResolveReference env cu uu)) None None c w = (oc, r', c1, w1)"
    show "(outcome_err oc = Some err
            \<longrightarrow> chain_step env (crt, res, c, w) = Inl (Some err, crt, c1, w1))
        \<and> (oc = Ok res' \<and> Header_Get (Header res') ''Content-Type'' \<noteq> ''application/pkix-cert''
            \<longrightarrow> chain_step env (crt, res, c, w)
                = Inl (Some (UnexpectedCertificateType (Header_Get (Header res') ''Content-Type'')),
                       crt, c1, w1))
        \<and> (oc = Ok res' \<and> Header_Get (Header res') ''Content-Type'' = ''application/pkix-cert''
             \<and> Body res' = Inl msg
            \<longrightarrow> chain_step env (crt, res, c, w) = Inl (Some (LibError msg), crt, c1, w1))
        \<and> (oc = Ok res' \<and> Header_Get (Header res') ''Content-Type'' = ''application/pkix-cert''
             \<and> Body res' = Inr der
            \<longrightarrow> chain_step env (crt, res, c, w)
                = Inr (crt\<lparr>ExtraCertificates := ExtraCertificates crt @ [der]\<rparr>, res', c1, w1))"
      by (rule chain_step_get [OF a [THEN conjunct1] a [THEN conjunct2, THEN conjunct1]
            a [THEN conjunct2, THEN conjunct2, THEN conjunct1]
            a [THEN conjunct2, THEN conjunct2, THEN conjunct2]])
  qed
next
  show "(loadExtraCertificates env crt res c w = Some r)
        = (\<exists>m f. f 0 = (crt\<lparr>ExtraCertificates := []\<rparr>, res, c, w)
             \<and> (\<forall>i<m. chain_step env (f i) = Inr (f (Suc i)))
             \<and> chain_step env (f m) = Inl r)"
    unfolding loadExtraCertificates_def by (rule chain_loop_trace)
next
  show "(\<forall>s. I s \<longrightarrow> (\<exists>s'. chain_step env s = Inr s' \<and> I s'))
        \<and> I (crt\<lparr>ExtraCertificates := []\<rparr>, res, c, w)
      \<longrightarrow> loadExtraCertificates env crt res c w = None"
  proof
    assume a: "(\<forall>s. I s \<longrightarrow> (\<exists>s'. chain_step env s = Inr s' \<and> I s'))
        \<and> I (crt\<lparr>ExtraCertificates := []\<rparr>, res, c, w)"
    show "loadExtraCertificates env crt res c w = None"
      unfolding loadExtraCertificates_def
    proof (rule chain_loop_never [where I = I])
      fix s assume "I s"
      with a show "\<exists>s'. chain_step env s = Inr s' \<and> I s'" by blast
    next
      from a show "I (crt\<lparr>ExtraCertificates := []\<rparr>, res, c, w)" by blast
    qed
  qed
next
  show "(LoadCertificate env crt c w = None)
        = (\<exists>res0 r0 c0 w0 der0.
             doReq env no_marshal no_decode ''GET'' (crt_URI crt) None None c w
               = (Ok res0, r0, c0, w0)
             \<and> Header_Get (Header res0) ''Content-Type'' = ''application/pkix-cert''
             \<and> Body res0 = Inr der0
             \<and> loadExtraCertificates env (crt\<lparr>crt_Certificate := der0\<rparr>) res0 c0 w0 = None)"
    unfolding LoadCertificate_None loadCertificate_None by blast
next
  show "(RequestCertificate env csrDER c w = None)
        = (\<exists>di ca wa res0 r0 c0 w0 der0.
             getDirectory env c w = (Inr di, ca, wa)
             \<and> doReq env (json_Marshal_Certificate env) no_decode ''POST'' (NewCert di)
                  (Some \<lparr>crt_URI = [], crt_Resource = ''new-cert'', crt_Certificate = [],
                         ExtraCertificates = [], CSR = csrDER, crt_retryAt = zeroTime\<rparr>)
                  None ca wa = (Ok res0, r0, c0, w0)
             \<and> StatusCode res0 = 201
             \<and> ValidURL env (Header_Get (Header res0) ''Location'')
             \<and> Header_Get (Header res0) ''Content-Type'' = ''application/pkix-cert''
             \<and> Body res0 = Inr der0
             \<and> loadExtraCertificates env
                  \<lparr>crt_URI = Header_Get (Header res0) ''Location'', crt_Resource = ''new-cert'',
                   crt_Certificate = der0, ExtraCertificates = [], CSR = csrDER,
                   crt_retryAt = zeroTime\<rparr>
                  res0 c0 w0 = None)"
    unfolding RequestCertificate_None loadCertificate_None
    by (simp only: Certificate.simps Certificate.update_convs ex_simps)
qed

lemma demo_link_up [simp]:
  "demo_link_ParseResponse res_cycle ''up'' = Some ''https://ca/cert/5''"
  by (simp add: demo_link_ParseResponse_def res_cycle_def Header_Get_def)

lemma cyclic_step:
  "crt_URI crt = ''https://ca/cert/5'' \<Longrightarrow>
   chain_step (demoEnv cyclic) (crt, res_cycle, c, ())
     = Inr (crt\<lparr>ExtraCertificates := ExtraCertificates crt @ [''DER'']\<rparr>, res_cycle, c, ())"
proof -
  assume u: "crt_URI crt = ''https://ca/cert/5''"
  have v: "ValidURL (demoEnv cyclic) (''https:'' @ ''//ca/cert/5'')"
    by (rule demo_ValidURL_https)
  have a: "absorb_nonce (demoEnv cyclic) res_cycle c = c"
    by (simp add: absorb_nonce_def res_cycle_def Header_Get_def)
  have url: "demo_url_String (demo_url_ResolveReference
               \<lparr>Scheme = ''https'', Rest = ''//ca/cert/5''\<rparr> \<lparr>Scheme = ''https'', Rest = ''//ca/cert/5''\<rparr>)
             = ''https://ca/cert/5''"
    by (simp add: demo_url_String_def demo_url_ResolveReference_def)
  have p: "demo_url_Parse ''https://ca/cert/5'' = Some \<lparr>Scheme = ''https'', Rest = ''//ca/cert/5''\<rparr>"
    by (simp add: demo_url_Parse_def)
  have d: "doReq (demoEnv cyclic) no_marshal no_decode ''GET'' ''https://ca/cert/5'' None None c ()
           = (Ok res_cycle, None, c, ())"
    using v by (subst doReq_plain [where res = res_cycle and ?w1.0 = "()"])
      (simp_all add: cyclic_def a, simp add: res_cycle_def)
  show ?thesis
    by (simp add: chain_step_def u p url d)
      (simp add: res_cycle_def Header_Get_def)
qed

text \<open>
  Against a server whose certificate carries an \<^verbatim>\<open>up\<close> link to itself the walk never
  returns, and neither does \<^verbatim>\<open>LoadCertificate\<close>.
\<close>

theorem chain_walk_counterexample:
  "loadExtraCertificates (demoEnv cyclic) demo_crt res_cycle demo_client () = None
   \<and> LoadCertificate (demoEnv cyclic) demo_crt demo_client () = None"
proof -
  let ?I = "\<lambda>s. \<exists>crt :: Certificate. crt_URI crt = ''https://ca/cert/5'' \<and> s = (crt, res_cycle, demo_client, ())"
  have never: "\<And>s. ?I s \<Longrightarrow> chain_loop (demoEnv cyclic) s = None"
  proof (rule chain_loop_never [where I = ?I])
    fix s assume "?I s"
    then obtain crt where c: "crt_URI crt = ''https://ca/cert/5''"
      and s: "s = (crt, res_cycle, demo_client, ())" by blast
    have "chain_step (demoEnv cyclic) s
            = Inr (crt\<lparr>ExtraCertificates := ExtraCertificates crt @ [''DER'']\<rparr>,
                   res_cycle, demo_client, ())"
      unfolding s using c by (rule cyclic_step)
    moreover have "?I (crt\<lparr>ExtraCertificates := ExtraCertificates crt @ [''DER'']\<rparr>,
                   res_cycle, demo_client, ())"
      using c by simp
    ultimately show "\<exists>s'. chain_step (demoEnv cyclic) s = Inr s' \<and> ?I s'" by blast
  qed
  have l1: "\<And>crt. crt_URI crt = ''https://ca/cert/5'' \<Longrightarrow>
              loadExtraCertificates (demoEnv cyclic) crt res_cycle demo_client () = None"
    unfolding loadExtraCertificates_def by (rule never) simp
  have v: "ValidURL (demoEnv cyclic) (''https:'' @ ''//ca/cert/5'')"
    by (rule demo_ValidURL_https)
  have a: "absorb_nonce (demoEnv cyclic) res_cycle demo_client = demo_client"
    by (simp add: absorb_nonce_def res_cycle_def Header_Get_def)
  have d: "doReq (demoEnv cyclic) no_marshal no_decode ''GET'' ''https://ca/cert/5'' None None
             demo_client ()
           = (Ok res_cycle, None, demo_client, ())"
    using v by (subst doReq_plain [where res = res_cycle and ?w1.0 = "()"])
      (simp_all add: cyclic_def a, simp add: res_cycle_def)
  have ct: "Header_Get (Header res_cycle) ''Content-Type'' = ''application/pkix-cert''"
    by (simp add: res_cycle_def Header_Get_def)
  have body: "Body res_cycle = Inr ''DER''" by (simp add: res_cycle_def)
  have "crt_URI (demo_crt\<lparr>crt_Certificate := ''DER''\<rparr>) = ''https://ca/cert/5''"
    by (simp add: demo_crt_def)
  then have "loadExtraCertificates (demoEnv cyclic) (demo_crt\<lparr>crt_Certificate := ''DER''\<rparr>)
               res_cycle demo_client () = None"
    by (rule l1)
  then have l2: "loadCertificate (demoEnv cyclic) demo_crt res_cycle demo_client () = None"
    by (simp add: loadCertificate_def ct body)
  have "crt_URI demo_crt = ''https://ca/cert/5''" by (simp add: demo_crt_def)
  then show ?thesis
    by (simp add: l1 LoadCertificate_def d l2)
qed

theorem chain_walk_returns_witness:
  "loadExtraCertificates (demoEnv scripted) demo_crt res_root demo_client [res_root]
     = Some (None, demo_crt, demo_client, [res_root])
   \<and> chain_step (demoEnv scripted) (demo_crt, res_root, demo_client, [res_root])
     = Inl (None, demo_crt, demo_client, [res_root])
   \<and> chain_step (demoEnv scripted) (demo_crt, res_leaf, demo_client, [res_root])
     = Inr (demo_crt\<lparr>ExtraCertificates := [''DER1'']\<rparr>, res_root, demo_client, [])
   \<and> loadExtraCertificates (demoEnv scripted) demo_crt res_leaf demo_client [res_root]
     = Some (None, demo_crt\<lparr>ExtraCertificates := [''DER1'']\<rparr>, demo_client, [])
   \<and> chain_run (demoEnv scripted) 2 (demo_crt, res_leaf, demo_client, [res_root])
     = Some (None, demo_crt\<lparr>ExtraCertificates := [''DER1'']\<rparr>, demo_client, [])
   \<and> chain_step (demoEnv scripted) (demo_crt, res_leaf, demo_client, [])
     = Inl (Some (LibError ''connection refused''), demo_crt, demo_client, [])
   \<and> loadExtraCertificates (demoEnv scripted) demo_crt res_leaf demo_client []
     = Some (Some (LibError ''connection refused''), demo_crt, demo_client, [])
   \<and> chain_step (demoEnv scripted) (demo_crt, res_leaf, demo_client, [res_pending])
     = Inl (Some (UnexpectedCertificateType []), demo_crt, demo_client, [])
   \<and> chain_step (demoEnv scripted) (demo_crt, res_leaf, demo_client,
        [res_root\<lparr>Body := Inl ''unexpected EOF''\<rparr>])
     = Inl (Some (LibError ''unexpected EOF''), demo_crt, demo_client, [])
   \<and> chain_step (demoEnv scripted\<lparr>url_Parse := (\<lambda>s. None)\<rparr>)
        (demo_crt, res_leaf, demo_client, [res_root])
     = Inl (Some InvalidURIError, demo_crt, demo_client, [res_root])
   \<and> loadExtraCertificates (demoEnv cyclic) (demo_crt\<lparr>crt_Certificate := ''DER''\<rparr>) res_cycle
        demo_registered () = None
   \<and> LoadCertificate (demoEnv cyclic) demo_crt demo_registered () = None"
proof -
  let ?E = "demoEnv scripted"
  let ?leaf1 = "(demo_crt, res_leaf, demo_client, [res_root])"
  let ?root1 = "(demo_crt\<lparr>ExtraCertificates := [''DER1'']\<rparr>, res_root, demo_client, [] :: Response list)"
  let ?done = "(None :: error option, demo_crt\<lparr>ExtraCertificates := [''DER1'']\<rparr>, demo_client,
                [] :: Response list)"
  have e: "demo_crt\<lparr>ExtraCertificates := []\<rparr> = demo_crt" by (simp add: demo_crt_def)
  have x: "ExtraCertificates demo_crt = []" by (simp add: demo_crt_def)
  have u: "crt_URI demo_crt = ''https://ca/cert/5''" by (simp add: demo_crt_def)
  have n: "link_ParseResponse ?E res_root ''up'' = None"
    by (simp add: demo_link_ParseResponse_def res_root_def Header_Get_def)
  have up: "link_ParseResponse ?E res_leaf ''up'' = Some ''https://ca/ca/root''"
    by (simp add: demo_link_ParseResponse_def res_leaf_def Header_Get_def)
  have p1: "url_Parse ?E (crt_URI demo_crt) = Some \<lparr>Scheme = ''https'', Rest = ''//ca/cert/5''\<rparr>"
    by (simp add: u demo_url_Parse_def)
  have p2: "url_Parse ?E ''https://ca/ca/root'' = Some \<lparr>Scheme = ''https'', Rest = ''//ca/ca/root''\<rparr>"
    by (simp add: demo_url_Parse_def)
  have url: "url_String ?E (url_ResolveReference ?E
               \<lparr>Scheme = ''https'', Rest = ''//ca/cert/5''\<rparr> \<lparr>Scheme = ''https'', Rest = ''//ca/ca/root''\<rparr>)
             = ''https://ca/ca/root''"
    by (simp add: demo_url_String_def demo_url_ResolveReference_def)
  have v: "ValidURL ?E (''https:'' @ ''//ca/ca/root'')"
    by (rule demo_ValidURL_https)
  have get: "\<And>res rest. doReq ?E no_marshal no_decode ''GET'' ''https://ca/ca/root'' None None
                 demo_client (res # rest)
               = (if 400 \<le> StatusCode res \<and> StatusCode res < 600
                  then ResErr res (newHTTPError res) else Ok res,
                  None, absorb_nonce ?E res demo_client, rest)"
    using v by (subst doReq_plain) (simp_all add: scripted_def)
  have a0: "absorb_nonce ?E res_root demo_client = demo_client"
    by (simp add: absorb_nonce_def res_root_def Header_Get_def)
  have a1: "absorb_nonce ?E res_pending demo_client = demo_client"
    by (simp add: absorb_nonce_def res_pending_def Header_Get_def)
  have a2: "absorb_nonce ?E (res_root\<lparr>Body := Inl ''unexpected EOF''\<rparr>) demo_client = demo_client"
    by (simp add: absorb_nonce_def res_root_def Header_Get_def)
  have d0: "doReq ?E no_marshal no_decode ''GET''
              (url_String ?E (url_ResolveReference ?E
                 \<lparr>Scheme = ''https'', Rest = ''//ca/cert/5''\<rparr> \<lparr>Scheme = ''https'', Rest = ''//ca/ca/root''\<rparr>))
              None None demo_client [res_root]
            = (Ok res_root, None, demo_client, [])"
    unfolding url get a0 by (simp add: res_root_def)
  have d1: "doReq ?E no_marshal no_decode ''GET''
              (url_String ?E (url_ResolveReference ?E
                 \<lparr>Scheme = ''https'', Rest = ''//ca/cert/5''\<rparr> \<lparr>Scheme = ''https'', Rest = ''//ca/ca/root''\<rparr>))
              None None demo_client [res_pending]
            = (Ok res_pending, None, demo_client, [])"
    unfolding url get a1 by (simp add: res_pending_def)
  have d2: "doReq ?E no_marshal no_decode ''GET''
              (url_String ?E (url_ResolveReference ?E
                 \<lparr>Scheme = ''https'', Rest = ''//ca/cert/5''\<rparr> \<lparr>Scheme = ''https'', Rest = ''//ca/ca/root''\<rparr>))
              None None demo_client [res_root\<lparr>Body := Inl ''unexpected EOF''\<rparr>]
            = (Ok (res_root\<lparr>Body := Inl ''unexpected EOF''\<rparr>), None, demo_client, [])"
    unfolding url get a2 by (simp add: res_root_def)
  have d3: "doReq ?E no_marshal no_decode ''GET''
              (url_String ?E (url_ResolveReference ?E
                 \<lparr>Scheme = ''https'', Rest = ''//ca/cert/5''\<rparr> \<lparr>Scheme = ''https'', Rest = ''//ca/ca/root''\<rparr>))
              None None demo_client []
            = (Fail (LibError ''connection refused''), None, demo_client, [])"
    unfolding url using v by (simp add: doReq_def doReqEx_def Let_def scripted_def)
  note no_up = chain_walk_returns [where env = ?E and res = res_root and crt = demo_crt
      and c = demo_client and w = "[res_root]", THEN conjunct1, THEN mp, OF n]
  note step_no_up = chain_walk_returns [where env = ?E and res = res_root
      and crt = "demo_crt\<lparr>ExtraCertificates := [''DER1'']\<rparr>" and c = demo_client and w = "[]",
      THEN conjunct2, THEN conjunct2, THEN conjunct2, THEN conjunct1, THEN mp, OF n]
  note step_no_up0 = chain_walk_returns [where env = ?E and res = res_root
      and crt = "demo_crt" and c = demo_client and w = "[res_root]",
      THEN conjunct2, THEN conjunct2, THEN conjunct2, THEN conjunct1, THEN mp, OF n]
  have c1: "loadExtraCertificates ?E demo_crt res_root demo_client [res_root]
              = Some (None, demo_crt, demo_client, [res_root])"
    using no_up unfolding e .
  note get_ok = chain_walk_returns [where env = ?E and res = res_leaf and crt = demo_crt
      and c = demo_client and w = "[res_root]" and up = "''https://ca/ca/root''"
      and oc = "Ok res_root" and res' = res_root and der = "''DER1''" and ?c1.0 = demo_client
      and ?w1.0 = "[]",
      THEN conjunct2, THEN conjunct2, THEN conjunct2, THEN conjunct2, THEN conjunct2,
      THEN conjunct1, THEN mp, OF conjI [OF up conjI [OF p1 conjI [OF p2 d0]]],
      THEN conjunct2, THEN conjunct2, THEN conjunct2, THEN mp]
  have s1: "chain_step ?E ?leaf1 = Inr ?root1"
    using get_ok by (simp add: x) (simp add: res_root_def Header_Get_def)
  have s2: "chain_step ?E ?root1 = Inl ?done" by (rule step_no_up)
  note get_fail = chain_walk_returns [where env = ?E and res = res_leaf and crt = demo_crt
      and c = demo_client and w = "[]" and up = "''https://ca/ca/root''"
      and oc = "Fail (LibError ''connection refused'')" and err = "LibError ''connection refused''"
      and ?c1.0 = demo_client and ?w1.0 = "[]",
      THEN conjunct2, THEN conjunct2, THEN conjunct2, THEN conjunct2, THEN conjunct2,
      THEN conjunct1, THEN mp, OF conjI [OF up conjI [OF p1 conjI [OF p2 d3]]],
      THEN conjunct1, THEN mp]
  have s3: "chain_step ?E (demo_crt, res_leaf, demo_client, [])
              = Inl (Some (LibError ''connection refused''), demo_crt, demo_client, [])"
    by (rule get_fail) (simp add: outcome_err_def)
  note get_type = chain_walk_returns [where env = ?E and res = res_leaf and crt = demo_crt
      and c = demo_client and w = "[res_pending]" and up = "''https://ca/ca/root''"
      and oc = "Ok res_pending" and res' = res_pending and ?c1.0 = demo_client and ?w1.0 = "[]",
      THEN conjunct2, THEN conjunct2, THEN conjunct2, THEN conjunct2, THEN conjunct2,
      THEN conjunct1, THEN mp, OF conjI [OF up conjI [OF p1 conjI [OF p2 d1]]],
      THEN conjunct2, THEN conjunct1, THEN mp]
  have s4: "chain_step ?E (demo_crt, res_leaf, demo_client, [res_pending])
              = Inl (Some (UnexpectedCertificateType []), demo_crt, demo_client, [])"
    using get_type by (simp add: res_pending_def Header_Get_def)
  note get_body = chain_walk_returns [where env = ?E and res = res_leaf and crt = demo_crt
      and c = demo_client and w = "[res_root\<lparr>Body := Inl ''unexpected EOF''\<rparr>]"
      and up = "''https://ca/ca/root''"
      and oc = "Ok (res_root\<lparr>Body := Inl ''unexpected EOF''\<rparr>)"
      and res' = "res_root\<lparr>Body := Inl ''unexpected EOF''\<rparr>" and msg = "''unexpected EOF''"
      and ?c1.0 = demo_client and ?w1.0 = "[]",
      THEN conjunct2, THEN conjunct2, THEN conjunct2, THEN conjunct2, THEN conjunct2,
      THEN conjunct1, THEN mp, OF conjI [OF up conjI [OF p1 conjI [OF p2 d2]]],
      THEN conjunct2, THEN conjunct2, THEN conjunct1, THEN mp]
  have s5: "chain_step ?E (demo_crt, res_leaf, demo_client,
              [res_root\<lparr>Body := Inl ''unexpected EOF''\<rparr>])
              = Inl (Some (LibError ''unexpected EOF''), demo_crt, demo_client, [])"
    using get_body by (simp add: res_root_def Header_Get_def)
  have up': "demo_link_ParseResponse res_leaf ''up'' = Some ''https://ca/ca/root''"
    using up by simp
  note invalid = chain_walk_returns [where env = "?E\<lparr>url_Parse := (\<lambda>s. None)\<rparr>"
      and res = res_leaf and crt = demo_crt and c = demo_client and w = "[res_root]"
      and up = "''https://ca/ca/root''",
      THEN conjunct2, THEN conjunct2, THEN conjunct2, THEN conjunct2, THEN conjunct1, THEN mp]
  have s6: "chain_step (?E\<lparr>url_Parse := (\<lambda>s. None)\<rparr>) ?leaf1
              = Inl (Some InvalidURIError, demo_crt, demo_client, [res_root])"
    by (rule invalid) (simp add: up')
  note trace = chain_walk_returns [THEN conjunct2, THEN conjunct2, THEN conjunct2,
      THEN conjunct2, THEN conjunct2, THEN conjunct2, THEN conjunct1, THEN iffD2]
  let ?f = "\<lambda>i :: nat. if i = 0 then ?leaf1 else ?root1"
  have t4: "?f 0 = (demo_crt\<lparr>ExtraCertificates := []\<rparr>, res_leaf, demo_client, [res_root])
        \<and> (\<forall>i<Suc 0. chain_step ?E (?f i) = Inr (?f (Suc i)))
        \<and> chain_step ?E (?f (Suc 0)) = Inl ?done"
    by (simp add: e s1 s2)
  have c4: "loadExtraCertificates ?E demo_crt res_leaf demo_client [res_root] = Some ?done"
    by (rule trace, rule exI [where x = "Suc 0"], rule exI [where x = ?f], rule t4)
  let ?g = "\<lambda>i :: nat. (demo_crt, res_leaf, demo_client, [] :: Response list)"
  have t7: "?g 0 = (demo_crt\<lparr>ExtraCertificates := []\<rparr>, res_leaf, demo_client, [])
        \<and> (\<forall>i<0. chain_step ?E (?g i) = Inr (?g (Suc i)))
        \<and> chain_step ?E (?g 0)
            = Inl (Some (LibError ''connection refused''), demo_crt, demo_client, [])"
    by (simp add: e s3)
  have c7: "loadExtraCertificates ?E demo_crt res_leaf demo_client []
              = Some (Some (LibError ''connection refused''), demo_crt, demo_client, [])"
    by (rule trace, rule exI [where x = 0], rule exI [where x = ?g], rule t7)
  have c5: "chain_run ?E 2 ?leaf1 = Some ?done"
    by (simp add: numeral_2_eq_2 s1 s2)
  let ?C = "demoEnv cyclic"
  let ?I = "\<lambda>s. \<exists>crt :: Certificate. crt_URI crt = ''https://ca/cert/5''
                \<and> s = (crt, res_cycle, demo_registered, ())"
  note never = chain_walk_returns [where env = ?C and I = ?I and res = res_cycle
      and crt = "demo_crt\<lparr>crt_Certificate := ''DER''\<rparr>" and c = demo_registered and w = "()",
      THEN conjunct2, THEN conjunct2, THEN conjunct2, THEN conjunct2, THEN conjunct2,
      THEN conjunct2, THEN conjunct2, THEN conjunct1, THEN mp]
  have c8: "loadExtraCertificates ?C (demo_crt\<lparr>crt_Certificate := ''DER''\<rparr>) res_cycle
              demo_registered () = None"
  proof (rule never, intro conjI allI impI)
    fix s assume "?I s"
    then obtain crt where c: "crt_URI crt = ''https://ca/cert/5''"
      and s: "s = (crt, res_cycle, demo_registered, ())" by blast
    have "chain_step ?C s
            = Inr (crt\<lparr>ExtraCertificates := ExtraCertificates crt @ [''DER'']\<rparr>,
                   res_cycle, demo_registered, ())"
      unfolding s using c by (rule cyclic_step)
    moreover have "?I (crt\<lparr>ExtraCertificates := ExtraCertificates crt @ [''DER'']\<rparr>,
                   res_cycle, demo_registered, ())"
      using c by simp
    ultimately show "\<exists>s'. chain_step ?C s = Inr s' \<and> ?I s'" by blast
  next
    show "?I (demo_crt\<lparr>crt_Certificate := ''DER'', ExtraCertificates := []\<rparr>, res_cycle,
              demo_registered, ())"
      by (simp add: demo_crt_def)
  qed
  have vc: "ValidURL ?C (''https:'' @ ''//ca/cert/5'')"
    by (rule demo_ValidURL_https)
  have ac: "absorb_nonce ?C res_cycle demo_registered = demo_registered"
    by (simp add: absorb_nonce_def res_cycle_def Header_Get_def)
  have dc: "doReq ?C no_marshal no_decode ''GET'' (crt_URI demo_crt) None None demo_registered ()
           = (Ok res_cycle, None, demo_registered, ())"
    unfolding u using vc by (subst doReq_plain [where res = res_cycle and ?w1.0 = "()"])
      (simp_all add: cyclic_def ac, simp add: res_cycle_def)
  note load = chain_walk_returns [where env = ?C and crt = demo_crt and c = demo_registered
      and w = "()", THEN conjunct2, THEN conjunct2, THEN conjunct2, THEN conjunct2,
      THEN conjunct2, THEN conjunct2, THEN conjunct2, THEN conjunct2, THEN conjunct1, THEN iffD2]
  have c9: "LoadCertificate ?C demo_crt demo_registered () = None"
  proof (rule load, intro exI conjI)
    show "doReq ?C no_marshal no_decode ''GET'' (crt_URI demo_crt) None None demo_registered ()
           = (Ok res_cycle, None, demo_registered, ())" by (rule dc)
    show "Header_Get (Header res_cycle) ''Content-Type'' = ''application/pkix-cert''"
      by (simp add: res_cycle_def Header_Get_def)
    show "Body res_cycle = Inr ''DER''" by (simp add: res_cycle_def)
    show "loadExtraCertificates ?C (demo_crt\<lparr>crt_Certificate := ''DER''\<rparr>) res_cycle
              demo_registered () = None" by (rule c8)
  qed
  from c1 step_no_up0 s1 c4 c5 s3 c7 s4 s5 s6 c8 c9 show ?thesis by simp
qed

section \<open>Properties of waiting\<close>

lemma waitUntil_done:
  "ctx_Done ctx now \<Longrightarrow> waitUntil t now ctx pick = (Some (ctx_Err ctx), now)"
  by (simp add: waitUntil_def Let_def)

lemma waitUntil_expired:
  "\<not> ctx_Done ctx now \<Longrightarrow> \<not> t > now \<Longrightarrow> waitUntil t now ctx pick = (None, now)"
  by (auto simp: waitUntil_def ctx_Done_def Let_def split: option.splits)

text \<open>
  Claim C8. \<^verbatim>\<open>waitUntil\<close> returns the context's error, at once, whenever the context is
  cancelled at the call, whatever the poll instant is; with a context that is not
  cancelled and a poll instant that is not in the future it returns success at once.
  So \<^verbatim>\<open>WaitLoadAuthorization\<close>, \<^verbatim>\<open>WaitLoadChallenge\<close> and \<^verbatim>\<open>WaitLoadCertificate\<close> return
  the context's error without a request in the first case, and are the plain load in
  the second.
\<close>

theorem waitUntil_cancellation:
  "(ctx_Done ctx now \<longrightarrow> waitUntil t now ctx pick = (Some (ctx_Err ctx), now))
   \<and> (\<not> ctx_Done ctx now \<and> \<not> t > now \<longrightarrow> waitUntil t now ctx pick = (None, now))
   \<and> (ctx_Done ctx (time_Now env w)
        \<longrightarrow> WaitLoadAuthorization env ctx pick az c w = (Some (ctx_Err ctx), az, c, w)
          \<and> WaitLoadChallenge env ctx pick ch c w = (Some (ctx_Err ctx), ch, c, w)
          \<and> WaitLoadCertificate env ctx pick crt c w = Some (Some (ctx_Err ctx), crt, c, w))
   \<and> (\<not> ctx_Done ctx (time_Now env w) \<and> \<not> az_retryAt az > time_Now env w
        \<longrightarrow> WaitLoadAuthorization env ctx pick az c w = LoadAuthorization env az c w)
   \<and> (\<not> ctx_Done ctx (time_Now env w) \<and> \<not> ch_retryAt ch > time_Now env w
        \<longrightarrow> WaitLoadChallenge env ctx pick ch c w = LoadChallenge env ch c w)
   \<and> (\<not> ctx_Done ctx (time_Now env w) \<and> \<not> crt_retryAt crt > time_Now env w
        \<longrightarrow> WaitLoadCertificate env ctx pick crt c w = LoadCertificate env crt c w)"
  by (simp add: waitUntil_done waitUntil_expired WaitLoadAuthorization_def
        WaitLoadChallenge_def WaitLoadCertificate_def)

theorem waitUntil_cancellation_witness:
  "waitUntil 3 10 ctx_cancelled False = (Some (LibError ''context canceled''), 10)
   \<and> waitUntil 3 10 ctx_background True = (None, 10)
   \<and> WaitLoadAuthorization (demoEnv scripted) ctx_cancelled False demo_az demo_client
         [res_authz_three]
       = (Some (LibError ''context canceled''), demo_az, demo_client, [res_authz_three])
   \<and> WaitLoadChallenge (demoEnv scripted) ctx_cancelled False (demo_challenge ''http-01'')
         demo_client [res_authz_three]
       = (Some (LibError ''context canceled''), demo_challenge ''http-01'', demo_client,
          [res_authz_three])
   \<and> WaitLoadCertificate (demoEnv scripted) ctx_cancelled False demo_crt demo_client
         [res_authz_three]
       = Some (Some (LibError ''context canceled''), demo_crt, demo_client, [res_authz_three])
   \<and> WaitLoadAuthorization (demoEnv scripted) ctx_background False demo_az demo_client
         [res_authz_three]
       = LoadAuthorization (demoEnv scripted) demo_az demo_client [res_authz_three]
   \<and> WaitLoadChallenge (demoEnv scripted) ctx_background False (demo_challenge ''http-01'')
         demo_client [res_authz_three]
       = LoadChallenge (demoEnv scripted) (demo_challenge ''http-01'') demo_client
           [res_authz_three]
   \<and> WaitLoadCertificate (demoEnv scripted) ctx_background False demo_crt demo_client
         [res_authz_three]
       = LoadCertificate (demoEnv scripted) demo_crt demo_client [res_authz_three]"
proof -
  let ?w = "[res_authz_three]"
  let ?ch = "demo_challenge ''http-01''"
  have d1: "ctx_Done ctx_cancelled 10" by (simp add: ctx_Done_def ctx_cancelled_def)
  have d2: "\<not> ctx_Done ctx_background 10 \<and> \<not> (3::int) > 10"
    by (simp add: ctx_Done_def ctx_background_def)
  have d3: "ctx_Done ctx_cancelled (time_Now (demoEnv scripted) ?w)"
    by (simp add: ctx_Done_def ctx_cancelled_def Second_def)
  have n: "\<not> ctx_Done ctx_background (time_Now (demoEnv scripted) ?w)"
    by (simp add: ctx_Done_def ctx_background_def)
  have d4: "\<not> ctx_Done ctx_background (time_Now (demoEnv scripted) ?w)
            \<and> \<not> az_retryAt demo_az > time_Now (demoEnv scripted) ?w"
    using n by (simp add: demo_az_def zeroTime_def Second_def)
  have d5: "\<not> ctx_Done ctx_background (time_Now (demoEnv scripted) ?w)
            \<and> \<not> ch_retryAt ?ch > time_Now (demoEnv scripted) ?w"
    using n by (simp add: demo_challenge_def zeroTime_def Second_def)
  have d6: "\<not> ctx_Done ctx_background (time_Now (demoEnv scripted) ?w)
            \<and> \<not> crt_retryAt demo_crt > time_Now (demoEnv scripted) ?w"
    using n by (simp add: demo_crt_def zeroTime_def Second_def)
  have e: "ctx_Err ctx_cancelled = LibError ''context canceled''"
    by (simp add: ctx_cancelled_def)
  note t = waitUntil_cancellation [where ctx = ctx_cancelled and now = 10 and t = 3
      and pick = False and env = "demoEnv scripted" and w = ?w
      and az = demo_az and ch = ?ch and crt = demo_crt and c = demo_client]
  note u = waitUntil_cancellation [where ctx = ctx_background and now = 10 and t = 3
      and pick = True]
  note u' = waitUntil_cancellation [where ctx = ctx_background and pick = False
      and env = "demoEnv scripted" and w = ?w
      and az = demo_az and ch = ?ch and crt = demo_crt and c = demo_client]
  have w1: "waitUntil 3 10 ctx_cancelled False = (Some (LibError ''context canceled''), 10)"
    using t [THEN conjunct1, THEN mp, OF d1] e by simp
  have w2: "waitUntil 3 10 ctx_background True = (None, 10)"
    by (rule u [THEN conjunct2, THEN conjunct1, THEN mp, OF d2])
  have w3: "WaitLoadAuthorization (demoEnv scripted) ctx_cancelled False demo_az demo_client ?w
       = (Some (LibError ''context canceled''), demo_az, demo_client, ?w)
   \<and> WaitLoadChallenge (demoEnv scripted) ctx_cancelled False ?ch demo_client ?w
       = (Some (LibError ''context canceled''), ?ch, demo_client, ?w)
   \<and> WaitLoadCertificate (demoEnv scripted) ctx_cancelled False demo_crt demo_client ?w
       = Some (Some (LibError ''context canceled''), demo_crt, demo_client, ?w)"
    using t [THEN conjunct2, THEN conjunct2, THEN conjunct1, THEN mp, OF d3] e by simp
  have w4: "WaitLoadAuthorization (demoEnv scripted) ctx_background False demo_az demo_client ?w
       = LoadAuthorization (demoEnv scripted) demo_az demo_client ?w"
    by (rule u' [THEN conjunct2, THEN conjunct2, THEN conjunct2, THEN conjunct1, THEN mp, OF d4])
  have w5: "WaitLoadChallenge (demoEnv scripted) ctx_background False ?ch demo_client ?w
       = LoadChallenge (demoEnv scripted) ?ch demo_client ?w"
    by (rule u' [THEN conjunct2, THEN conjunct2, THEN conjunct2, THEN conjunct2,
          THEN conjunct1, THEN mp, OF d5])
  have w6: "WaitLoadCertificate (demoEnv scripted) ctx_background False demo_crt demo_client ?w
       = LoadCertificate (demoEnv scripted) demo_crt demo_client ?w"
    by (rule u' [THEN conjunct2, THEN conjunct2, THEN conjunct2, THEN conjunct2,
          THEN conjunct2, THEN mp, OF d6])
  show ?thesis using w1 w2 w3 w4 w5 w6 by simp
qed

section \<open>Properties of registration\<close>

lemma receive_error_status:
  "400 \<le> StatusCode res \<Longrightarrow> StatusCode res < 600 \<Longrightarrow>
   receive env decode r res c = (ResErr res (newHTTPError res), r, absorb_nonce env res c)"
  by (simp add: receive_def Let_def)

lemma receive_decode:
  "\<not> (400 \<le> StatusCode res \<and> StatusCode res < 600) \<Longrightarrow>
   receive env decode (Some tgt) res c =
     (if Header_Get (Header res) ''Content-Type'' \<noteq> ''application/json''
      then (ResErr res (UnexpectedContentType (Header_Get (Header res) ''Content-Type'')),
            Some tgt, absorb_nonce env res c)
      else case decode (Body res) tgt of
             (Some err, tgt') \<Rightarrow> (Fail err, Some tgt', absorb_nonce env res c)
           | (None, tgt') \<Rightarrow> (Ok res, Some tgt', absorb_nonce env res c))"
proof -
  assume n: "\<not> (400 \<le> StatusCode res \<and> StatusCode res < 600)"
  show ?thesis
    unfolding receive_def Let_def if_not_P [OF n] by simp
qed

text \<open>
  Claim C6, as the code has it. With a registration URI already known it is returned and
  nothing is requested. Otherwise, once the directory is there and the POST of the
  new-reg object has handed back a response: under status 201 and under status 409 a
  valid Location is cached as the registration URI and returned, and an invalid one is
  the invalid URL error; under any other status the call fails, with the transactor's
  error when there is one and with the unexpected status error otherwise. When the
  transactor hands back no response the call fails with the transactor's error. The
  transactor hands a 409 back without decoding its body; a 201 is handed back when its
  content type is not JSON or its body decodes, and is withheld when the body fails to
  decode.
\<close>

theorem getRegistrationURI_status:
  "(RegistrationURI c \<noteq> [] \<longrightarrow> getRegistrationURI env c w = (Inr (RegistrationURI c), c, w))
   \<and> (RegistrationURI c = [] \<and> getDirectory env c w = (Inl err, c1, w1)
      \<longrightarrow> getRegistrationURI env c w = (Inl err, c1, w1))
   \<and> (RegistrationURI c = [] \<and> getDirectory env c w = (Inr di, c1, w1)
        \<and> doReq env (json_Marshal_regInfo env) (json_Decode_regInfo env) ''POST'' (NewReg di)
              (Some \<lparr>reg_Resource = ''new-reg'', Contact = ContactURIs c1, AgreementURI = [],
                      AuthorizationsURI = [], CertificatesURI = []\<rparr>)
              (Some None) c1 w1 = (oc, resInfo, c2, w2)
      \<longrightarrow> (oc = Fail err \<longrightarrow> getRegistrationURI env c w = (Inl err, c2, w2))
        \<and> (oc = Ok res \<or> oc = ResErr res err
            \<longrightarrow> getRegistrationURI env c w =
                  (if StatusCode res = 201 \<or> StatusCode res = 409
                   then if ValidURL env (Header_Get (Header res) ''Location'')
                        then (Inr (Header_Get (Header res) ''Location''),
                              c2\<lparr>RegistrationURI := Header_Get (Header res) ''Location''\<rparr>, w2)
                        else (Inl (InvalidURL (Header_Get (Header res) ''Location'')), c2, w2)
                   else (Inl (case outcome_err oc of
                                Some e \<Rightarrow> e
                              | None \<Rightarrow> UnexpectedStatusCode (StatusCode res)), c2, w2))))
   \<and> (StatusCode res = 409
      \<longrightarrow> receive env decode r res c = (ResErr res (newHTTPError res), r, absorb_nonce env res c))
   \<and> (StatusCode res = 201
      \<longrightarrow> receive env decode (Some tgt) res c =
            (if Header_Get (Header res) ''Content-Type'' \<noteq> ''application/json''
             then (ResErr res (UnexpectedContentType (Header_Get (Header res) ''Content-Type'')),
                   Some tgt, absorb_nonce env res c)
             else case decode (Body res) tgt of
                    (Some err, tgt') \<Rightarrow> (Fail err, Some tgt', absorb_nonce env res c)
                  | (None, tgt') \<Rightarrow> (Ok res, Some tgt', absorb_nonce env res c)))"
proof (intro conjI impI)
  assume "RegistrationURI c \<noteq> []"
  then show "getRegistrationURI env c w = (Inr (RegistrationURI c), c, w)"
    by (simp add: getRegistrationURI_def)
next
  assume "RegistrationURI c = [] \<and> getDirectory env c w = (Inl err, c1, w1)"
  then show "getRegistrationURI env c w = (Inl err, c1, w1)"
    by (simp add: getRegistrationURI_def)
next
  assume a: "RegistrationURI c = [] \<and> getDirectory env c w = (Inr di, c1, w1)
        \<and> doReq env (json_Marshal_regInfo env) (json_Decode_regInfo env) ''POST'' (NewReg di)
              (Some \<lparr>reg_Resource = ''new-reg'', Contact = ContactURIs c1, AgreementURI = [],
                      AuthorizationsURI = [], CertificatesURI = []\<rparr>)
              (Some None) c1 w1 = (oc, resInfo, c2, w2)"
    and f: "oc = Fail err"
  then show "getRegistrationURI env c w = (Inl err, c2, w2)"
    by (simp add: getRegistrationURI_def)
next
  assume a: "RegistrationURI c = [] \<and> getDirectory env c w = (Inr di, c1, w1)
        \<and> doReq env (json_Marshal_regInfo env) (json_Decode_regInfo env) ''POST'' (NewReg di)
              (Some \<lparr>reg_Resource = ''new-reg'', Contact = ContactURIs c1, AgreementURI = [],
                      AuthorizationsURI = [], CertificatesURI = []\<rparr>)
              (Some None) c1 w1 = (oc, resInfo, c2, w2)"
    and o: "oc = Ok res \<or> oc = ResErr res err"
  from o show "getRegistrationURI env c w =
                  (if StatusCode res = 201 \<or> StatusCode res = 409
                   then if ValidURL env (Header_Get (Header res) ''Location'')
                        then (Inr (Header_Get (Header res) ''Location''),
                              c2\<lparr>RegistrationURI := Header_Get (Header res) ''Location''\<rparr>, w2)
                        else (Inl (InvalidURL (Header_Get (Header res) ''Location'')), c2, w2)
                   else (Inl (case outcome_err oc of
                                Some e \<Rightarrow> e
                              | None \<Rightarrow> UnexpectedStatusCode (StatusCode res)), c2, w2))"
  proof
    assume "oc = Ok res"
    with a show ?thesis by (simp add: getRegistrationURI_def outcome_err_def Let_def)
  next
    assume "oc = ResErr res err"
    with a show ?thesis by (simp add: getRegistrationURI_def outcome_err_def Let_def)
  qed
next
  assume "StatusCode res = 409"
  then show "receive env decode r res c
               = (ResErr res (newHTTPError res), r, absorb_nonce env res c)"
    by (simp add: receive_error_status)
next
  assume "StatusCode res = 201"
  then show "receive env decode (Some tgt) res c =
            (if Header_Get (Header res) ''Content-Type'' \<noteq> ''application/json''
             then (ResErr res (UnexpectedContentType (Header_Get (Header res) ''Content-Type'')),
                   Some tgt, absorb_nonce env res c)
             else case decode (Body res) tgt of
                    (Some err, tgt') \<Rightarrow> (Fail err, Some tgt', absorb_nonce env res c)
                  | (None, tgt') \<Rightarrow> (Ok res, Some tgt', absorb_nonce env res c))"
    by (simp add: receive_decode)
qed

lemma doReq_post:
  assumes "ValidURL env (noTLS_url env url)"
    and "marshal x = Inr b"
    and "AccountKey c = Some k"
    and "algorithmFromKey k = Inr kalg"
    and "jose_NewSigner env kalg k = None"
    and "jose_Sign env kalg k b (nonceSource c) w = (Inr s, ns, w0)"
    and "http_NewRequest env m (noTLS_url env url) = None"
    and "http_Do env w0 \<lparr>Method = m, URL = noTLS_url env url,
                          ReqHeader = request_headers m, ReqBody = Some s\<rparr> = (Inr res, w1)"
  shows "doReq env marshal decode m url (Some x) r c w =
           (case receive env decode r res (c\<lparr>nonceSource := ns\<rparr>) of
              (oc, r', c2) \<Rightarrow> (oc, r', c2, w1))"
  using assms by (simp add: doReq_def doReqEx_def signBody_def Let_def)

lemma demo_doReq_post:
  assumes "nonceSource c = n # ns" and "AccountKey c = Some RSAPrivateKey"
    and "marshal x = Inr b"
  shows "doReq (demoEnv scripted) marshal decode ''POST'' (''https:'' @ rest) (Some x) r c
           (res # rest_w) =
           (case receive (demoEnv scripted) decode r res (c\<lparr>nonceSource := ns\<rparr>) of
              (oc, r', c2) \<Rightarrow> (oc, r', c2, rest_w))"
proof -
  have v: "ValidURL (demoEnv scripted) (noTLS_url (demoEnv scripted) (''https:'' @ rest))"
    by (simp only: demo_noTLS demo_ValidURL_https)
  have a: "algorithmFromKey RSAPrivateKey = Inr RS256" by (simp add: algorithmFromKey_def)
  show ?thesis
    by (rule doReq_post [where marshal = marshal and x = x and b = b and k = RSAPrivateKey
          and kalg = RS256 and s = "''jws:'' @ n @ '':'' @ b" and ns = ns and ?w0.0 = "res # rest_w",
          OF v assms(3) assms(2) a])
      (simp_all add: assms(1) demo_Sign_def scripted_def)
qed

lemma demo_getDirectory [simp]:
  "getDirectory env demo_client w = (Inr demo_directory, demo_client, w)"
  by (simp add: getDirectory_def demo_client_def)

lemma demo_new_reg_post:
  "doReq (demoEnv scripted) (json_Marshal_regInfo (demoEnv scripted))
     demo_Decode_regInfo ''POST'' (NewReg demo_directory)
     (Some \<lparr>reg_Resource = ''new-reg'', Contact = ContactURIs demo_client, AgreementURI = [],
             AuthorizationsURI = [], CertificatesURI = []\<rparr>)
     (Some None) demo_client [res]
   = (case receive (demoEnv scripted) demo_Decode_regInfo (Some None) res
             (demo_client\<lparr>nonceSource := [''n2'', ''n3'']\<rparr>) of
        (oc, r', c2) \<Rightarrow> (oc, r', c2, []))"
proof -
  have u: "NewReg demo_directory = ''https:'' @ ''//ca/new-reg''"
    by (simp add: demo_directory_def)
  have m: "json_Marshal_regInfo (demoEnv scripted)
             \<lparr>reg_Resource = ''new-reg'', Contact = ContactURIs demo_client, AgreementURI = [],
              AuthorizationsURI = [], CertificatesURI = []\<rparr> = Inr ''{\"resource\":\"new-reg\"}''"
    by (simp add: demoEnv_def demo_Marshal_regInfo_def)
  have n: "nonceSource demo_client = ''n1'' # [''n2'', ''n3'']"
    and k: "AccountKey demo_client = Some RSAPrivateKey"
    by (simp_all add: demo_client_def)
  show ?thesis
    unfolding u
    by (rule demo_doReq_post [where marshal = "json_Marshal_regInfo (demoEnv scripted)"
          and x = "\<lparr>reg_Resource = ''new-reg'', Contact = ContactURIs demo_client,
                    AgreementURI = [], AuthorizationsURI = [], CertificatesURI = []\<rparr>"
          and b = "''{\"resource\":\"new-reg\"}''", OF n k m])
qed

lemma demo_absorb [simp]:
  "Header_Get (Header res) ''Replay-Nonce'' = [] \<Longrightarrow> absorb_nonce env res c = c"
  by (simp add: absorb_nonce_def)

text \<open>
  A 201 with a valid Location, the JSON content type and an empty body makes the call
  fail with the decoder's error; the same answer under status 409 succeeds.
\<close>

theorem getRegistrationURI_status_counterexample:
  "fst (getRegistrationURI (demoEnv scripted) demo_client [res_created_empty])
     = Inl (LibError ''json: syntax error'')
   \<and> StatusCode res_created_empty = 201
   \<and> ValidURL (demoEnv scripted) (Header_Get (Header res_created_empty) ''Location'')
   \<and> fst (getRegistrationURI (demoEnv scripted) demo_client [res_conflict_empty])
     = Inr ''https://ca/acct/1''
   \<and> Header res_conflict_empty = Header res_created_empty
   \<and> Body res_conflict_empty = Body res_created_empty"
proof -
  have e: "RegistrationURI demo_client = []" by (simp add: demo_client_def)
  have h1: "Header_Get (Header res_created_empty) ''Replay-Nonce'' = []"
    "Header_Get (Header res_created_empty) ''Content-Type'' = ''application/json''"
    "Header_Get (Header res_created_empty) ''Location'' = ''https:'' @ ''//ca/acct/1''"
    "StatusCode res_created_empty = 201" "Body res_created_empty = Inr []"
    by (simp_all add: res_created_empty_def Header_Get_def)
  have h2: "Header_Get (Header res_conflict_empty) ''Replay-Nonce'' = []"
    "Header_Get (Header res_conflict_empty) ''Location'' = ''https:'' @ ''//ca/acct/1''"
    "StatusCode res_conflict_empty = 409"
    by (simp_all add: res_conflict_empty_def Header_Get_def)
  have r1: "receive (demoEnv scripted) demo_Decode_regInfo (Some None) res_created_empty
              (demo_client\<lparr>nonceSource := [''n2'', ''n3'']\<rparr>)
            = (Fail (LibError ''json: syntax error''), Some None,
               demo_client\<lparr>nonceSource := [''n2'', ''n3'']\<rparr>)"
    by (simp add: receive_decode h1 demo_Decode_regInfo_def)
  have r2: "receive (demoEnv scripted) demo_Decode_regInfo (Some None) res_conflict_empty
              (demo_client\<lparr>nonceSource := [''n2'', ''n3'']\<rparr>)
            = (ResErr res_conflict_empty (newHTTPError res_conflict_empty), Some None,
               demo_client\<lparr>nonceSource := [''n2'', ''n3'']\<rparr>)"
    by (simp add: receive_error_status h2)
  have g1: "fst (getRegistrationURI (demoEnv scripted) demo_client [res_created_empty])
     = Inl (LibError ''json: syntax error'')"
    by (simp add: getRegistrationURI_def e demo_new_reg_post r1)
  have g2: "fst (getRegistrationURI (demoEnv scripted) demo_client [res_conflict_empty])
     = Inr ''https://ca/acct/1''"
    by (simp add: getRegistrationURI_def e demo_new_reg_post r2 h2 Let_def del: append.simps)
  have v: "ValidURL (demoEnv scripted) (Header_Get (Header res_created_empty) ''Location'')"
    by (simp only: h1 demo_ValidURL_https)
  have same: "Header res_conflict_empty = Header res_created_empty"
    "Body res_conflict_empty = Body res_created_empty"
    by (simp_all add: res_conflict_empty_def res_created_empty_def)
  show ?thesis using g1 g2 v h1(4) same by simp
qed

theorem getRegistrationURI_status_witness:
  "getRegistrationURI (demoEnv scripted) demo_client [res_created]
     = (Inr ''https://ca/acct/1'',
        demo_client\<lparr>nonceSource := [''n2'', ''n3''], RegistrationURI := ''https://ca/acct/1''\<rparr>,
        [])
   \<and> getRegistrationURI (demoEnv scripted) demo_client [res_conflict_empty]
     = (Inr ''https://ca/acct/1'',
        demo_client\<lparr>nonceSource := [''n2'', ''n3''], RegistrationURI := ''https://ca/acct/1''\<rparr>,
        [])
   \<and> getRegistrationURI (demoEnv scripted)
        (demo_client\<lparr>RegistrationURI := ''https://ca/acct/9''\<rparr>) [res_created]
     = (Inr ''https://ca/acct/9'', demo_client\<lparr>RegistrationURI := ''https://ca/acct/9''\<rparr>,
        [res_created])
   \<and> getRegistrationURI (demoEnv scripted) (demo_client\<lparr>dir := None\<rparr>) []
     = (Inl (LibError ''connection refused''), demo_client\<lparr>dir := None\<rparr>, [])
   \<and> getRegistrationURI (demoEnv scripted) demo_client [res_created_empty]
     = (Inl (LibError ''json: syntax error''),
        demo_client\<lparr>nonceSource := [''n2'', ''n3'']\<rparr>, [])
   \<and> receive (demoEnv scripted) demo_Decode_regInfo (Some None) res_conflict_empty demo_client
     = (ResErr res_conflict_empty (newHTTPError res_conflict_empty), Some None, demo_client)
   \<and> receive (demoEnv scripted) demo_Decode_regInfo (Some None) res_created_empty demo_client
     = (Fail (LibError ''json: syntax error''), Some None, demo_client)"
proof -
  let ?c2 = "demo_client\<lparr>nonceSource := [''n2'', ''n3'']\<rparr>"
  let ?reg = "\<lparr>reg_Resource = [], Contact = [''mailto:a@b''], AgreementURI = [],
                AuthorizationsURI = [], CertificatesURI = []\<rparr>"
  have e: "RegistrationURI demo_client = []" by (simp add: demo_client_def)
  have h1: "Header_Get (Header res_created) ''Replay-Nonce'' = []"
    "Header_Get (Header res_created) ''Content-Type'' = ''application/json''"
    "Header_Get (Header res_created) ''Location'' = ''https:'' @ ''//ca/acct/1''"
    "StatusCode res_created = 201"
    "Body res_created = Inr ''{\"contact\":[\"mailto:a@b\"]}''"
    by (simp_all add: res_created_def Header_Get_def)
  have h2: "Header_Get (Header res_conflict_empty) ''Replay-Nonce'' = []"
    "Header_Get (Header res_conflict_empty) ''Location'' = ''https:'' @ ''//ca/acct/1''"
    "StatusCode res_conflict_empty = 409"
    by (simp_all add: res_conflict_empty_def Header_Get_def)
  have r1: "receive (demoEnv scripted) demo_Decode_regInfo (Some None) res_created ?c2
            = (Ok res_created, Some (Some ?reg), ?c2)"
    by (simp add: receive_decode h1 demo_Decode_regInfo_def)
  have r2: "receive (demoEnv scripted) demo_Decode_regInfo (Some None) res_conflict_empty ?c2
            = (ResErr res_conflict_empty (newHTTPError res_conflict_empty), Some None, ?c2)"
    by (simp add: receive_error_status h2)
  have p1: "RegistrationURI demo_client = []
        \<and> getDirectory (demoEnv scripted) demo_client [res_created]
            = (Inr demo_directory, demo_client, [res_created])
        \<and> doReq (demoEnv scripted) (json_Marshal_regInfo (demoEnv scripted))
              (json_Decode_regInfo (demoEnv scripted)) ''POST'' (NewReg demo_directory)
              (Some \<lparr>reg_Resource = ''new-reg'', Contact = ContactURIs demo_client,
                      AgreementURI = [], AuthorizationsURI = [], CertificatesURI = []\<rparr>)
              (Some None) demo_client [res_created]
            = (Ok res_created, Some (Some ?reg), ?c2, [])"
    by (simp add: e demo_new_reg_post r1)
  have p2: "RegistrationURI demo_client = []
        \<and> getDirectory (demoEnv scripted) demo_client [res_conflict_empty]
            = (Inr demo_directory, demo_client, [res_conflict_empty])
        \<and> doReq (demoEnv scripted) (json_Marshal_regInfo (demoEnv scripted))
              (json_Decode_regInfo (demoEnv scripted)) ''POST'' (NewReg demo_directory)
              (Some \<lparr>reg_Resource = ''new-reg'', Contact = ContactURIs demo_client,
                      AgreementURI = [], AuthorizationsURI = [], CertificatesURI = []\<rparr>)
              (Some None) demo_client [res_conflict_empty]
            = (ResErr res_conflict_empty (newHTTPError res_conflict_empty), Some None, ?c2, [])"
    by (simp add: e demo_new_reg_post r2)
  have v: "ValidURL (demoEnv scripted) (''https:'' @ ''//ca/acct/1'')"
    by (rule demo_ValidURL_https)
  note t3 = getRegistrationURI_status [THEN conjunct2, THEN conjunct2, THEN conjunct1, THEN mp,
      THEN conjunct2, THEN mp]
  have g1: "getRegistrationURI (demoEnv scripted) demo_client [res_created]
     = (Inr ''https://ca/acct/1'', ?c2\<lparr>RegistrationURI := ''https://ca/acct/1''\<rparr>, [])"
    using t3 [OF p1 disjI1, OF refl] v
    by (simp add: h1 del: append.simps)
  have g2: "getRegistrationURI (demoEnv scripted) demo_client [res_conflict_empty]
     = (Inr ''https://ca/acct/1'', ?c2\<lparr>RegistrationURI := ''https://ca/acct/1''\<rparr>, [])"
    using t3 [OF p2 disjI2, OF refl] v
    by (simp add: h2 del: append.simps)
  have n: "RegistrationURI (demo_client\<lparr>RegistrationURI := ''https://ca/acct/9''\<rparr>) \<noteq> []"
    by simp
  have g3: "getRegistrationURI (demoEnv scripted)
        (demo_client\<lparr>RegistrationURI := ''https://ca/acct/9''\<rparr>) [res_created]
     = (Inr ''https://ca/acct/9'', demo_client\<lparr>RegistrationURI := ''https://ca/acct/9''\<rparr>,
        [res_created])"
    using getRegistrationURI_status [THEN conjunct1, THEN mp, OF n] by simp
  let ?c0 = "demo_client\<lparr>dir := None\<rparr>"
  have e0: "RegistrationURI ?c0 = []" by (simp add: demo_client_def)
  have vd: "ValidURL (demoEnv scripted) (noTLS_url (demoEnv scripted) (''https:'' @ ''//ca/directory''))"
    by (simp only: demo_noTLS demo_ValidURL_https)
  have du: "DirectoryURL demo_client = ''https://ca/directory''"
    by (simp add: demo_client_def)
  have dd: "doReq (demoEnv scripted) no_marshal demo_Decode_directoryInfo ''GET''
              ''https://ca/directory'' None (Some None) ?c0 []
            = (Fail (LibError ''connection refused''), Some None, ?c0, [])"
    using vd by (simp add: doReq_def doReqEx_def scripted_def)
  have gd: "getDirectory (demoEnv scripted) ?c0 [] = (Inl (LibError ''connection refused''), ?c0, [])"
    by (simp add: getDirectory_def Let_def du dd outcome_err_def)
  have g4: "getRegistrationURI (demoEnv scripted) ?c0 []
              = (Inl (LibError ''connection refused''), ?c0, [])"
    by (rule getRegistrationURI_status [THEN conjunct2, THEN conjunct1, THEN mp,
          OF conjI [OF e0 gd]])
  have h3: "Header_Get (Header res_created_empty) ''Replay-Nonce'' = []"
    "Header_Get (Header res_created_empty) ''Content-Type'' = ''application/json''"
    "StatusCode res_created_empty = 201" "Body res_created_empty = Inr []"
    by (simp_all add: res_created_empty_def Header_Get_def)
  have r3: "receive (demoEnv scripted) demo_Decode_regInfo (Some None) res_created_empty ?c2
            = (Fail (LibError ''json: syntax error''), Some None, ?c2)"
    by (simp add: receive_decode h3 demo_Decode_regInfo_def)
  have p3: "RegistrationURI demo_client = []
        \<and> getDirectory (demoEnv scripted) demo_client [res_created_empty]
            = (Inr demo_directory, demo_client, [res_created_empty])
        \<and> doReq (demoEnv scripted) (json_Marshal_regInfo (demoEnv scripted))
              (json_Decode_regInfo (demoEnv scripted)) ''POST'' (NewReg demo_directory)
              (Some \<lparr>reg_Resource = ''new-reg'', Contact = ContactURIs demo_client,
                      AgreementURI = [], AuthorizationsURI = [], CertificatesURI = []\<rparr>)
              (Some None) demo_client [res_created_empty]
            = (Fail (LibError ''json: syntax error''), Some None, ?c2, [])"
    by (simp add: e demo_new_reg_post r3)
  have g5: "getRegistrationURI (demoEnv scripted) demo_client [res_created_empty]
              = (Inl (LibError ''json: syntax error''), ?c2, [])"
    by (rule getRegistrationURI_status [THEN conjunct2, THEN conjunct2, THEN conjunct1, THEN mp,
          OF p3, THEN conjunct1, THEN mp, OF refl])
  have g6: "receive (demoEnv scripted) demo_Decode_regInfo (Some None) res_conflict_empty
              demo_client
            = (ResErr res_conflict_empty (newHTTPError res_conflict_empty), Some None,
               demo_client)"
    using getRegistrationURI_status [where env = "demoEnv scripted"
        and decode = demo_Decode_regInfo and r = "Some None" and c = demo_client
        and res = res_conflict_empty, THEN conjunct2, THEN conjunct2, THEN conjunct2,
        THEN conjunct1, THEN mp, OF h2(3)]
    by (simp add: h2)
  have g7: "receive (demoEnv scripted) demo_Decode_regInfo (Some None) res_created_empty
              demo_client
            = (Fail (LibError ''json: syntax error''), Some None, demo_client)"
    using getRegistrationURI_status [where env = "demoEnv scripted"
        and decode = demo_Decode_regInfo and tgt = None and c = demo_client
        and res = res_created_empty, THEN conjunct2, THEN conjunct2, THEN conjunct2,
        THEN conjunct2, THEN mp, OF h3(3)]
    by (simp add: h3 demo_Decode_regInfo_def)
  show ?thesis using g1 g2 g3 g4 g5 g6 g7 by simp
qed

section \<open>Properties of authorizations\<close>

lemma all_indices_eq: "all_indices i n js = js @ map int [i..<n]"
proof (induction i n js rule: all_indices.induct)
  case (1 i n js)
  show ?case
  proof (cases "i < n")
    case True
    with "1" show ?thesis by (simp add: all_indices.simps [of i n js] upt_conv_Cons)
  next
    case False
    then show ?thesis by (simp add: all_indices.simps [of i n js])
  qed
qed

lemma index_out_of_range_iff: "index_out_of_range n js = (\<exists>i\<in>set js. i \<ge> int n)"
  by (induction js) auto

lemma combinations_malformed_iff:
  "combinations_malformed n cs = (\<exists>comb\<in>set cs. \<exists>i\<in>set comb. i \<ge> int n)"
  by (induction cs) (auto simp: index_out_of_range_iff)

lemma validate_no_challenges:
  "Challenges az = [] \<Longrightarrow> Authorization_validate az = (Some NoChallengesOffered, az)"
  by (simp add: Authorization_validate_def)

lemma validate_synthesis:
  "Challenges az \<noteq> [] \<Longrightarrow> Combinations az = None \<Longrightarrow>
   Authorization_validate az
     = (None, az\<lparr>Combinations := Some [map int [0..<length (Challenges az)]]\<rparr>)"
  by (simp add: Authorization_validate_def all_indices_eq slice_elems_def
        combinations_malformed_iff)

lemma validate_given:
  "Challenges az \<noteq> [] \<Longrightarrow> Combinations az = Some cs \<Longrightarrow>
   Authorization_validate az
     = (if \<exists>comb\<in>set cs. \<exists>i\<in>set comb. i \<ge> int (length (Challenges az))
        then (Some CombinationsMalformed, az) else (None, az))"
  by (simp add: Authorization_validate_def slice_elems_def combinations_malformed_iff) blast

lemma validate_success:
  assumes "Authorization_validate az = (None, az')"
  shows "well_formed az'"
proof -
  from assms have ne: "Challenges az \<noteq> []"
    by (auto simp: Authorization_validate_def)
  show ?thesis
  proof (cases "Combinations az")
    case None
    with ne assms have "az' = az\<lparr>Combinations := Some [map int [0..<length (Challenges az)]]\<rparr>"
      by (simp add: validate_synthesis)
    with ne show ?thesis by (simp add: well_formed_def)
  next
    case (Some cs)
    with ne assms have "az' = az"
      and "\<not> (\<exists>comb\<in>set cs. \<exists>i\<in>set comb. i \<ge> int (length (Challenges az)))"
      by (simp_all add: validate_given split: if_splits)
    with ne Some show ?thesis by (fastforce simp: well_formed_def)
  qed
qed

lemma well_formed_retryAt [simp]: "well_formed (az\<lparr>az_retryAt := t\<rparr>) = well_formed az"
  by (simp add: well_formed_def)

lemma LoadAuthorization_success:
  assumes "LoadAuthorization env az c w = (None, az', c', w')"
  shows "well_formed az'"
proof -
  obtain oc r' c1 w1 where d: "doReq env no_marshal (decode_Authorization env) ''GET''
      (az_URI az) None (Some (az\<lparr>Combinations := None\<rparr>)) c w
      = (oc, r', c1, w1)"
    using prod_cases4 by blast
  define az1 where "az1 = (case r' of Some a \<Rightarrow> a | None \<Rightarrow> az\<lparr>Combinations := None\<rparr>)"
  obtain e az2 where v: "Authorization_validate az1 = (e, az2)"
    by (cases "Authorization_validate az1") blast
  from assms d have l: "(case oc of
             Fail err \<Rightarrow> (Some err, az1, c1, w1)
           | ResErr res err \<Rightarrow> (Some err, az1, c1, w1)
           | Ok res \<Rightarrow>
               (case Authorization_validate az1 of
                  (Some err, az2) \<Rightarrow> (Some err, az2, c1, w1)
                | (None, az2) \<Rightarrow>
                    (None,
                     az2\<lparr>az_retryAt :=
                           retryAtDefault env (Header res) (10 * Second) (time_Now env w1)\<rparr>,
                     c1, w1))) = (None, az', c', w')"
    unfolding LoadAuthorization_def az1_def Let_def by simp
  show ?thesis
  proof (cases oc)
    case (Fail err)
    with l show ?thesis by simp
  next
    case (ResErr res err)
    with l show ?thesis by simp
  next
    case (Ok res)
    show ?thesis
    proof (cases e)
      case None
      with l Ok v have "az' = az2\<lparr>az_retryAt :=
          retryAtDefault env (Header res) (10 * Second) (time_Now env w1)\<rparr>"
        by auto
      moreover from v None have "well_formed az2" by (simp add: validate_success)
      ultimately show ?thesis by simp
    next
      case (Some err)
      with l Ok v show ?thesis by simp
    qed
  qed
qed

lemma NewAuthorization_success:
  assumes "NewAuthorization env hostname c w = (Inr az', c', w')"
  shows "well_formed az'"
proof -
  obtain gd c1 w1 where g: "getDirectory env c w = (gd, c1, w1)"
    using prod_cases3 by blast
  show ?thesis
  proof (cases gd)
    case (Inl err)
    with assms g show ?thesis by (simp add: NewAuthorization_def)
  next
    case (Inr di)
    define az where "az = \<lparr>az_URI = [], az_Resource = ''new-authz'',
                     az_Identifier = \<lparr>id_Type = ''dns'', id_Value = hostname\<rparr>,
                     az_Status = [], Expires = zeroTime, Challenges = [],
                     Combinations = None, az_retryAt = zeroTime\<rparr>"
    obtain oc r' c2 w2 where d: "doReq env (json_Marshal_Authorization env)
        (decode_Authorization env) ''POST'' (NewAuthz di) (Some az) (Some az) c1 w1
        = (oc, r', c2, w2)"
      using prod_cases4 by blast
    define az1 where "az1 = (case r' of Some a \<Rightarrow> a | None \<Rightarrow> az)"
    from assms g Inr d have l: "(case oc of
                     Fail err \<Rightarrow> (Inl err, c2, w2)
                   | ResErr res err \<Rightarrow> (Inl err, c2, w2)
                   | Ok res \<Rightarrow>
                       (let loc = Header_Get (Header res) ''Location''
                        in if StatusCode res \<noteq> 201 \<or> \<not> ValidURL env loc
                           then (Inl ExpectedStatus201AndValidLocation, c2, w2)
                           else
                             case Authorization_validate (az1\<lparr>az_URI := loc\<rparr>) of
                               (Some err, az2) \<Rightarrow> (Inl err, c2, w2)
                             | (None, az2) \<Rightarrow> (Inr az2, c2, w2))) = (Inr az', c', w')"
      unfolding NewAuthorization_def az_def az1_def Let_def by simp
    show ?thesis
    proof (cases oc)
      case (Fail err)
      with l show ?thesis by simp
    next
      case (ResErr res err)
      with l show ?thesis by simp
    next
      case (Ok res)
      define loc where "loc = Header_Get (Header res) ''Location''"
      obtain e az2 where v: "Authorization_validate (az1\<lparr>az_URI := loc\<rparr>) = (e, az2)"
        by (cases "Authorization_validate (az1\<lparr>az_URI := loc\<rparr>)") blast
      from l Ok v have "e = None \<and> az2 = az'"
        by (cases e) (simp_all add: Let_def loc_def [symmetric] split: if_splits)
      with v show ?thesis by (simp add: validate_success)
    qed
  qed
qed

lemma LoadAuthorization_clears:
  "LoadAuthorization env (az\<lparr>Combinations := x\<rparr>) c w = LoadAuthorization env az c w"
  by (simp add: LoadAuthorization_def)

lemma doReq_get:
  assumes "ValidURL env (noTLS_url env url)"
    and "http_NewRequest env m (noTLS_url env url) = None"
    and "http_Do env w \<lparr>Method = m, URL = noTLS_url env url,
                         ReqHeader = request_headers m, ReqBody = None\<rparr> = (Inr res, w1)"
  shows "doReq env marshal decode m url None r c w =
           (case receive env decode r res c of (oc, r', c2) \<Rightarrow> (oc, r', c2, w1))"
  using assms by (simp add: doReq_def doReqEx_def Let_def)

text \<open>
  Claim C1, as the code has it. An Authorization that \<^verbatim>\<open>LoadAuthorization\<close> or
  \<^verbatim>\<open>NewAuthorization\<close> returns with success has at least one challenge, its combinations
  are not nil, and every index in them is below the number of challenges.
  \<^verbatim>\<open>LoadAuthorization\<close> does not depend on the combinations its argument had: it clears
  them before decoding. \<^verbatim>\<open>validate\<close> turns nil combinations into the single combination
  of all challenge indices in order, fails on an empty challenge list and on an index
  that is not below the number of challenges, and leaves any other Authorization as it
  is; \<^verbatim>\<open>LoadAuthorization\<close> returns the verdict of \<^verbatim>\<open>validate\<close> on the decoded object,
  and so does \<^verbatim>\<open>NewAuthorization\<close> once the server has answered 201 with a valid
  \<^verbatim>\<open>Location\<close>, on the decoded object with that location as its URI.
\<close>

theorem Authorization_well_formed:
  "(LoadAuthorization env az c w = (None, az', c', w')
      \<longrightarrow> Challenges az' \<noteq> []
          \<and> (\<exists>cs. Combinations az' = Some cs
                \<and> (\<forall>comb\<in>set cs. \<forall>i\<in>set comb. i < int (length (Challenges az')))))
   \<and> (NewAuthorization env hostname c w = (Inr az', c', w')
      \<longrightarrow> Challenges az' \<noteq> []
          \<and> (\<exists>cs. Combinations az' = Some cs
                \<and> (\<forall>comb\<in>set cs. \<forall>i\<in>set comb. i < int (length (Challenges az')))))
   \<and> LoadAuthorization env (az\<lparr>Combinations := x\<rparr>) c w = LoadAuthorization env az c w
   \<and> (Challenges az \<noteq> [] \<and> Combinations az = None
      \<longrightarrow> Authorization_validate az
            = (None, az\<lparr>Combinations := Some [map int [0..<length (Challenges az)]]\<rparr>))
   \<and> (Challenges az = [] \<longrightarrow> Authorization_validate az = (Some NoChallengesOffered, az))
   \<and> (Challenges az \<noteq> [] \<and> Combinations az = Some cs
        \<and> (\<exists>comb\<in>set cs. \<exists>i\<in>set comb. i \<ge> int (length (Challenges az)))
      \<longrightarrow> Authorization_validate az = (Some CombinationsMalformed, az))
   \<and> (Challenges az \<noteq> [] \<and> Combinations az = Some cs
        \<and> (\<forall>comb\<in>set cs. \<forall>i\<in>set comb. i < int (length (Challenges az)))
      \<longrightarrow> Authorization_validate az = (None, az))
   \<and> (doReq env no_marshal (decode_Authorization env) ''GET'' (az_URI az) None
          (Some (az\<lparr>Combinations := None\<rparr>)) c w = (Ok res, Some az1, c1, w1)
      \<longrightarrow> LoadAuthorization env az c w =
            (case Authorization_validate az1 of
               (Some err, az2) \<Rightarrow> (Some err, az2, c1, w1)
             | (None, az2) \<Rightarrow>
                 (None,
                  az2\<lparr>az_retryAt :=
                        retryAtDefault env (Header res) (10 * Second) (time_Now env w1)\<rparr>,
                  c1, w1)))
   \<and> (getDirectory env c w = (Inr di, c1, w1)
        \<and> doReq env (json_Marshal_Authorization env) (decode_Authorization env) ''POST''
             (NewAuthz di)
             (Some \<lparr>az_URI = [], az_Resource = ''new-authz'',
                     az_Identifier = \<lparr>id_Type = ''dns'', id_Value = hostname\<rparr>,
                     az_Status = [], Expires = zeroTime, Challenges = [],
                     Combinations = None, az_retryAt = zeroTime\<rparr>)
             (Some \<lparr>az_URI = [], az_Resource = ''new-authz'',
                     az_Identifier = \<lparr>id_Type = ''dns'', id_Value = hostname\<rparr>,
                     az_Status = [], Expires = zeroTime, Challenges = [],
                     Combinations = None, az_retryAt = zeroTime\<rparr>)
             c1 w1 = (Ok res, Some az1, c2, w2)
        \<and> StatusCode res = 201 \<and> ValidURL env (Header_Get (Header res) ''Location'')
      \<longrightarrow> NewAuthorization env hostname c w =
            (case Authorization_validate (az1\<lparr>az_URI := Header_Get (Header res) ''Location''\<rparr>) of
               (Some err, az2) \<Rightarrow> (Inl err, c2, w2)
             | (None, az2) \<Rightarrow> (Inr az2, c2, w2)))"
proof (intro conjI impI)
  assume "LoadAuthorization env az c w = (None, az', c', w')"
  then have "well_formed az'" by (rule LoadAuthorization_success)
  then show "Challenges az' \<noteq> []"
    and "\<exists>cs. Combinations az' = Some cs
           \<and> (\<forall>comb\<in>set cs. \<forall>i\<in>set comb. i < int (length (Challenges az')))"
    by (simp_all add: well_formed_def)
next
  assume "NewAuthorization env hostname c w = (Inr az', c', w')"
  then have "well_formed az'" by (rule NewAuthorization_success)
  then show "Challenges az' \<noteq> []"
    and "\<exists>cs. Combinations az' = Some cs
           \<and> (\<forall>comb\<in>set cs. \<forall>i\<in>set comb. i < int (length (Challenges az')))"
    by (simp_all add: well_formed_def)
next
  show "LoadAuthorization env (az\<lparr>Combinations := x\<rparr>) c w = LoadAuthorization env az c w"
    by (rule LoadAuthorization_clears)
next
  assume "Challenges az \<noteq> [] \<and> Combinations az = None"
  then show "Authorization_validate az
            = (None, az\<lparr>Combinations := Some [map int [0..<length (Challenges az)]]\<rparr>)"
    by (simp add: validate_synthesis)
next
  assume "Challenges az = []"
  then show "Authorization_validate az = (Some NoChallengesOffered, az)"
    by (rule validate_no_challenges)
next
  assume "Challenges az \<noteq> [] \<and> Combinations az = Some cs
        \<and> (\<exists>comb\<in>set cs. \<exists>i\<in>set comb. i \<ge> int (length (Challenges az)))"
  then show "Authorization_validate az = (Some CombinationsMalformed, az)"
    by (simp add: validate_given)
next
  assume a: "Challenges az \<noteq> [] \<and> Combinations az = Some cs
        \<and> (\<forall>comb\<in>set cs. \<forall>i\<in>set comb. i < int (length (Challenges az)))"
  then have "\<not> (\<exists>comb\<in>set cs. \<exists>i\<in>set comb. i \<ge> int (length (Challenges az)))"
    by fastforce
  with a show "Authorization_validate az = (None, az)"
    by (simp add: validate_given)
next
  assume "doReq env no_marshal (decode_Authorization env) ''GET'' (az_URI az) None
          (Some (az\<lparr>Combinations := None\<rparr>)) c w = (Ok res, Some az1, c1, w1)"
  then show "LoadAuthorization env az c w =
            (case Authorization_validate az1 of
               (Some err, az2) \<Rightarrow> (Some err, az2, c1, w1)
             | (None, az2) \<Rightarrow>
                 (None,
                  az2\<lparr>az_retryAt :=
                        retryAtDefault env (Header res) (10 * Second) (time_Now env w1)\<rparr>,
                  c1, w1))"
    by (simp add: LoadAuthorization_def)
next
  assume "getDirectory env c w = (Inr di, c1, w1)
        \<and> doReq env (json_Marshal_Authorization env) (decode_Authorization env) ''POST''
             (NewAuthz di)
             (Some \<lparr>az_URI = [], az_Resource = ''new-authz'',
                     az_Identifier = \<lparr>id_Type = ''dns'', id_Value = hostname\<rparr>,
                     az_Status = [], Expires = zeroTime, Challenges = [],
                     Combinations = None, az_retryAt = zeroTime\<rparr>)
             (Some \<lparr>az_URI = [], az_Resource = ''new-authz'',
                     az_Identifier = \<lparr>id_Type = ''dns'', id_Value = hostname\<rparr>,
                     az_Status = [], Expires = zeroTime, Challenges = [],
                     Combinations = None, az_retryAt = zeroTime\<rparr>)
             c1 w1 = (Ok res, Some az1, c2, w2)
        \<and> StatusCode res = 201 \<and> ValidURL env (Header_Get (Header res) ''Location'')"
  then show "NewAuthorization env hostname c w =
            (case Authorization_validate (az1\<lparr>az_URI := Header_Get (Header res) ''Location''\<rparr>) of
               (Some err, az2) \<Rightarrow> (Inl err, c2, w2)
             | (None, az2) \<Rightarrow> (Inr az2, c2, w2))"
    by (simp add: NewAuthorization_def Let_def)
qed

lemma demo_doReq_authz:
  assumes "StatusCode res = 200"
    and "Header_Get (Header res) ''Content-Type'' = ''application/json''"
    and "Header_Get (Header res) ''Replay-Nonce'' = []"
    and "demo_Decode_Authorization (Body res) (demo_az\<lparr>Combinations := None\<rparr>) = (None, az1)"
  shows "doReq (demoEnv scripted) no_marshal (decode_Authorization (demoEnv scripted)) ''GET''
           (az_URI demo_az) None (Some (demo_az\<lparr>Combinations := None\<rparr>)) demo_client [res]
         = (Ok res, Some (az1\<lparr>az_URI := ''https://ca/authz/7'', az_retryAt := zeroTime\<rparr>),
            demo_client, [])"
proof -
  have v: "ValidURL (demoEnv scripted) (''https:'' @ ''//ca/authz/7'')"
    by (rule demo_ValidURL_https)
  have u: "az_URI demo_az = ''https://ca/authz/7''" by (simp add: demo_az_def)
  have r: "az_retryAt demo_az = zeroTime" by (simp add: demo_az_def)
  have "receive (demoEnv scripted) (decode_Authorization (demoEnv scripted))
          (Some (demo_az\<lparr>Combinations := None\<rparr>)) res demo_client
        = (Ok res, Some (az1\<lparr>az_URI := ''https://ca/authz/7'', az_retryAt := zeroTime\<rparr>),
           demo_client)"
    using assms by (simp add: receive_def absorb_nonce_def decode_Authorization_def u r)
  then show ?thesis
    unfolding u using v
    by (subst doReq_get [where res = res and ?w1.0 = "[]"]) (simp_all add: scripted_def)
qed

text \<open>
  The server sends one challenge and the empty array as combinations: the decoder
  leaves an empty slice that is not nil, \<^verbatim>\<open>validate\<close> accepts it, and the Authorization
  is returned with no combination at all.
\<close>

theorem Authorization_well_formed_counterexample:
  "fst (LoadAuthorization (demoEnv scripted) demo_az demo_client [res_authz_empty]) = None
   \<and> Combinations (fst (snd (LoadAuthorization (demoEnv scripted) demo_az demo_client
                                 [res_authz_empty]))) = Some []"
proof -
  let ?az1 = "demo_az\<lparr>Combinations := Some [], az_Status := ''pending'',
                Challenges := [demo_challenge ''http-01'']\<rparr>"
  have dec: "demo_Decode_Authorization (Body res_authz_empty) (demo_az\<lparr>Combinations := None\<rparr>)
               = (None, ?az1)"
    by (simp add: demo_Decode_Authorization_def res_authz_empty_def)
  have d: "doReq (demoEnv scripted) no_marshal (decode_Authorization (demoEnv scripted)) ''GET''
           (az_URI demo_az) None (Some (demo_az\<lparr>Combinations := None\<rparr>)) demo_client
           [res_authz_empty]
         = (Ok res_authz_empty,
            Some (?az1\<lparr>az_URI := ''https://ca/authz/7'', az_retryAt := zeroTime\<rparr>),
            demo_client, [])"
    by (rule demo_doReq_authz [OF _ _ _ dec])
      (simp_all add: res_authz_empty_def Header_Get_def)
  have val: "Authorization_validate (?az1\<lparr>az_URI := ''https://ca/authz/7'', az_retryAt := zeroTime\<rparr>)
               = (None, ?az1\<lparr>az_URI := ''https://ca/authz/7'', az_retryAt := zeroTime\<rparr>)"
    by (simp add: Authorization_validate_def slice_elems_def)
  show ?thesis
    by (simp add: LoadAuthorization_def d val)
qed

theorem Authorization_well_formed_witness:
  "fst (LoadAuthorization (demoEnv scripted) demo_az demo_client [res_authz_three]) = None
   \<and> Combinations (fst (snd (LoadAuthorization (demoEnv scripted) demo_az demo_client
                                 [res_authz_three]))) = Some [[0, 1, 2]]
   \<and> Authorization_validate (demo_az\<lparr>Challenges := [demo_challenge ''http-01'',
                                                      demo_challenge ''dns-01''],
                                       Combinations := Some [[0, 2]]\<rparr>)
       = (Some CombinationsMalformed,
          demo_az\<lparr>Challenges := [demo_challenge ''http-01'', demo_challenge ''dns-01''],
                   Combinations := Some [[0, 2]]\<rparr>)
   \<and> Authorization_validate demo_az = (Some NoChallengesOffered, demo_az)
   \<and> Challenges (fst (snd (LoadAuthorization (demoEnv scripted) demo_az demo_client
                               [res_authz_three]))) \<noteq> []
   \<and> fst (NewAuthorization (demoEnv scripted) ''example.com'' demo_client [res_authz_created])
       = Inr \<lparr>az_URI = ''https://ca/authz/7'', az_Resource = ''new-authz'',
               az_Identifier = \<lparr>id_Type = ''dns'', id_Value = ''example.com''\<rparr>,
               az_Status = ''pending'', Expires = zeroTime, Challenges = demo_three,
               Combinations = Some [[0, 1, 2]], az_retryAt = zeroTime\<rparr>
   \<and> demo_three \<noteq> []
   \<and> Authorization_validate (demo_az\<lparr>Challenges := demo_three\<rparr>)
       = (None, demo_az\<lparr>Challenges := demo_three\<rparr>)"
proof -
  let ?az1 = "demo_az\<lparr>Combinations := None, az_Status := ''pending'',
                Challenges := demo_three\<rparr>"
  let ?az1' = "?az1\<lparr>az_URI := ''https://ca/authz/7'', az_retryAt := zeroTime\<rparr>"
  let ?bad = "demo_az\<lparr>Challenges := [demo_challenge ''http-01'', demo_challenge ''dns-01''],
                       Combinations := Some [[0, 2]]\<rparr>"
  have dec: "demo_Decode_Authorization (Body res_authz_three) (demo_az\<lparr>Combinations := None\<rparr>)
               = (None, ?az1)"
    by (simp add: demo_Decode_Authorization_def res_authz_three_def)
  have d: "doReq (demoEnv scripted) no_marshal (decode_Authorization (demoEnv scripted)) ''GET''
           (az_URI demo_az) None (Some (demo_az\<lparr>Combinations := None\<rparr>)) demo_client
           [res_authz_three]
         = (Ok res_authz_three, Some ?az1', demo_client, [])"
    by (rule demo_doReq_authz [OF _ _ _ dec])
      (simp_all add: res_authz_three_def Header_Get_def)
  have three: "Challenges ?az1' \<noteq> [] \<and> Combinations ?az1' = None"
    by (simp add: demo_three_def)
  have len: "map int [0..<length (Challenges ?az1')] = [0, 1, 2]"
    by (simp add: demo_three_def upt_rec)
  have bad: "Challenges ?bad \<noteq> [] \<and> Combinations ?bad = Some [[0, 2]]
        \<and> (\<exists>comb\<in>set [[0, 2]]. \<exists>i\<in>set comb. i \<ge> int (length (Challenges ?bad)))"
    by simp
  have none: "Challenges demo_az = []" by (simp add: demo_az_def)
  note t4 = Authorization_well_formed [THEN conjunct2, THEN conjunct2, THEN conjunct2,
      THEN conjunct1, THEN mp]
  note t5 = Authorization_well_formed [THEN conjunct2, THEN conjunct2, THEN conjunct2,
      THEN conjunct2, THEN conjunct1, THEN mp]
  note t6 = Authorization_well_formed [THEN conjunct2, THEN conjunct2, THEN conjunct2,
      THEN conjunct2, THEN conjunct2, THEN conjunct1, THEN mp]
  note t8 = Authorization_well_formed [THEN conjunct2, THEN conjunct2, THEN conjunct2,
      THEN conjunct2, THEN conjunct2, THEN conjunct2, THEN conjunct2, THEN conjunct1, THEN mp]
  note t9 = Authorization_well_formed [THEN conjunct2, THEN conjunct2, THEN conjunct2,
      THEN conjunct2, THEN conjunct2, THEN conjunct2, THEN conjunct2, THEN conjunct2, THEN mp]
  have v1: "Authorization_validate ?az1' = (None, ?az1'\<lparr>Combinations := Some [[0, 1, 2]]\<rparr>)"
    using t4 [OF three] len by simp
  have l: "LoadAuthorization (demoEnv scripted) demo_az demo_client [res_authz_three]
        = (None, ?az1'\<lparr>Combinations := Some [[0, 1, 2]],
             az_retryAt := retryAtDefault (demoEnv scripted) (Header res_authz_three)
                             (10 * Second) (time_Now (demoEnv scripted) [])\<rparr>, demo_client, [])"
    using t8 [OF d] by (simp add: v1)
  have v2: "Authorization_validate ?bad = (Some CombinationsMalformed, ?bad)"
    by (rule t6 [OF bad])
  have v3: "Authorization_validate demo_az = (Some NoChallengesOffered, demo_az)"
    by (rule t5 [OF none])
  note t1 = Authorization_well_formed [THEN conjunct1, THEN mp]
  note t2 = Authorization_well_formed [THEN conjunct2, THEN conjunct1, THEN mp]
  note t7 = Authorization_well_formed [THEN conjunct2, THEN conjunct2, THEN conjunct2,
      THEN conjunct2, THEN conjunct2, THEN conjunct2, THEN conjunct1, THEN mp]
  have c1: "Challenges (?az1'\<lparr>Combinations := Some [[0, 1, 2]],
             az_retryAt := retryAtDefault (demoEnv scripted) (Header res_authz_three)
                             (10 * Second) (time_Now (demoEnv scripted) [])\<rparr>) \<noteq> []"
    by (rule t1 [OF l, THEN conjunct1])
  let ?new = "\<lparr>az_URI = [], az_Resource = ''new-authz'',
                az_Identifier = \<lparr>id_Type = ''dns'', id_Value = ''example.com''\<rparr>,
                az_Status = [], Expires = zeroTime, Challenges = [],
                Combinations = None, az_retryAt = zeroTime\<rparr>"
  let ?got = "\<lparr>az_URI = ''https://ca/authz/7'', az_Resource = ''new-authz'',
               az_Identifier = \<lparr>id_Type = ''dns'', id_Value = ''example.com''\<rparr>,
               az_Status = ''pending'', Expires = zeroTime, Challenges = demo_three,
               Combinations = Some [[0, 1, 2]], az_retryAt = zeroTime\<rparr>"
  have h: "Header_Get (Header res_authz_created) ''Replay-Nonce'' = []"
    "Header_Get (Header res_authz_created) ''Content-Type'' = ''application/json''"
    "Header_Get (Header res_authz_created) ''Location'' = ''https:'' @ ''//ca/authz/7''"
    "StatusCode res_authz_created = 201"
    by (simp_all add: res_authz_created_def Header_Get_def)
  have dec': "demo_Decode_Authorization (Body res_authz_created) ?new
                = (None, ?new\<lparr>az_Status := ''pending'', Challenges := demo_three\<rparr>)"
    by (simp add: demo_Decode_Authorization_def res_authz_created_def)
  have rc: "receive (demoEnv scripted) (decode_Authorization (demoEnv scripted)) (Some ?new)
              res_authz_created (demo_client\<lparr>nonceSource := [''n2'', ''n3'']\<rparr>)
            = (Ok res_authz_created,
               Some (?new\<lparr>az_Status := ''pending'', Challenges := demo_three\<rparr>),
               demo_client\<lparr>nonceSource := [''n2'', ''n3'']\<rparr>)"
    by (simp add: receive_decode h decode_Authorization_def dec')
  have m: "json_Marshal_Authorization (demoEnv scripted) ?new = Inr ''{\"resource\":\"new-authz\"}''"
    by (simp add: demoEnv_def)
  have ns: "nonceSource demo_client = ''n1'' # [''n2'', ''n3'']"
    and k: "AccountKey demo_client = Some RSAPrivateKey"
    by (simp_all add: demo_client_def)
  have u: "NewAuthz demo_directory = ''https:'' @ ''//ca/new-authz''"
    by (simp add: demo_directory_def)
  have post: "doReq (demoEnv scripted) (json_Marshal_Authorization (demoEnv scripted))
                (decode_Authorization (demoEnv scripted)) ''POST'' (NewAuthz demo_directory)
                (Some ?new) (Some ?new) demo_client [res_authz_created]
              = (Ok res_authz_created,
                 Some (?new\<lparr>az_Status := ''pending'', Challenges := demo_three\<rparr>),
                 demo_client\<lparr>nonceSource := [''n2'', ''n3'']\<rparr>, [])"
    unfolding u
    by (subst demo_doReq_post [where marshal = "json_Marshal_Authorization (demoEnv scripted)"
          and b = "''{\"resource\":\"new-authz\"}''", OF ns k m]) (simp add: rc)
  have v: "ValidURL (demoEnv scripted) (''https:'' @ ''//ca/authz/7'')"
    by (rule demo_ValidURL_https)
  have three': "Challenges (?new\<lparr>az_Status := ''pending'', Challenges := demo_three,
                  az_URI := ''https://ca/authz/7''\<rparr>) \<noteq> []
                \<and> Combinations (?new\<lparr>az_Status := ''pending'', Challenges := demo_three,
                  az_URI := ''https://ca/authz/7''\<rparr>) = None"
    by (simp add: demo_three_def)
  have len': "map int [0..<length demo_three] = [0, 1, 2]"
    by (simp add: demo_three_def upt_rec)
  have val: "Authorization_validate (?new\<lparr>az_Status := ''pending'', Challenges := demo_three,
                  az_URI := ''https://ca/authz/7''\<rparr>) = (None, ?got)"
    using t4 [OF three'] len' by simp
  have loc: "Header_Get (Header res_authz_created) ''Location'' = ''https://ca/authz/7''"
    using h(3) by simp
  have pre: "getDirectory (demoEnv scripted) demo_client [res_authz_created]
               = (Inr demo_directory, demo_client, [res_authz_created])
        \<and> doReq (demoEnv scripted) (json_Marshal_Authorization (demoEnv scripted))
             (decode_Authorization (demoEnv scripted)) ''POST'' (NewAuthz demo_directory)
             (Some ?new) (Some ?new) demo_client [res_authz_created]
             = (Ok res_authz_created,
                Some (?new\<lparr>az_Status := ''pending'', Challenges := demo_three\<rparr>),
                demo_client\<lparr>nonceSource := [''n2'', ''n3'']\<rparr>, [])
        \<and> StatusCode res_authz_created = 201
        \<and> ValidURL (demoEnv scripted) (Header_Get (Header res_authz_created) ''Location'')"
    using v post h(4) by (simp add: loc)
  have na: "NewAuthorization (demoEnv scripted) ''example.com'' demo_client [res_authz_created]
              = (Inr ?got, demo_client\<lparr>nonceSource := [''n2'', ''n3'']\<rparr>, [])"
    using t9 [OF pre] val by (simp add: loc)
  have c2: "Challenges ?got \<noteq> []"
    by (rule t2 [OF na, THEN conjunct1])
  have ok: "Challenges (demo_az\<lparr>Challenges := demo_three\<rparr>) \<noteq> []
            \<and> Combinations (demo_az\<lparr>Challenges := demo_three\<rparr>) = Some [[0], [1]]
            \<and> (\<forall>comb\<in>set [[0], [1]]. \<forall>i\<in>set comb.
                  i < int (length (Challenges (demo_az\<lparr>Challenges := demo_three\<rparr>))))"
    by (simp add: demo_az_def demo_three_def)
  have v7: "Authorization_validate (demo_az\<lparr>Challenges := demo_three\<rparr>)
              = (None, demo_az\<lparr>Challenges := demo_three\<rparr>)"
    by (rule t7 [OF ok])
  show ?thesis using l v2 v3 c1 na c2 v7 by simp
qed

section \<open>Properties of the registration update\<close>

lemma absorb_nonce_AgreementURIs [simp]:
  "AgreementURIs (absorb_nonce env res c) = AgreementURIs c"
  by (simp add: absorb_nonce_def Let_def)

lemma signBody_AgreementURIs:
  "signBody env marshal key v c w = (x, c', w') \<Longrightarrow> AgreementURIs c' = AgreementURIs c"
  by (auto simp: signBody_def split: option.splits sum.splits prod.splits)

lemma receive_AgreementURIs:
  "receive env decode r res c = (oc, r', c') \<Longrightarrow> AgreementURIs c' = AgreementURIs c"
  by (auto simp: receive_def Let_def split: option.splits prod.splits if_splits)

lemma doReqEx_AgreementURIs:
  assumes "doReqEx env marshal decode m url key v r c w = (oc, r', c', w')"
  shows "AgreementURIs c' = AgreementURIs c"
proof (cases "ValidURL env (noTLS_url env url)")
  case False
  with assms show ?thesis by (simp add: doReqEx_def)
next
  case True
  obtain x c1 w1 where s: "signBody env marshal
      (case key of None \<Rightarrow> AccountKey c | Some k \<Rightarrow> Some k) v c w = (x, c1, w1)"
    using prod_cases3 by blast
  then have c1: "AgreementURIs c1 = AgreementURIs c" by (rule signBody_AgreementURIs)
  show ?thesis
  proof (cases x)
    case (Inl err)
    with assms True s c1 show ?thesis by (simp add: doReqEx_def)
  next
    case (Inr rdr)
    show ?thesis
    proof (cases "http_NewRequest env m (noTLS_url env url)")
      case (Some err)
      with assms True s c1 Inr show ?thesis by (simp add: doReqEx_def)
    next
      case None
      obtain y w2 where d: "http_Do env w1 \<lparr>Method = m, URL = noTLS_url env url,
          ReqHeader = request_headers m, ReqBody = rdr\<rparr> = (y, w2)"
        by (cases "http_Do env w1 \<lparr>Method = m, URL = noTLS_url env url,
          ReqHeader = request_headers m, ReqBody = rdr\<rparr>") blast
      show ?thesis
      proof (cases y)
        case (Inl err)
        with assms True s c1 Inr None d show ?thesis by (simp add: doReqEx_def)
      next
        case res: (Inr res)
        obtain oc0 r0 c2 where rc: "receive env decode r res c1 = (oc0, r0, c2)"
          using prod_cases3 by blast
        then have "AgreementURIs c2 = AgreementURIs c1" by (rule receive_AgreementURIs)
        with assms True s c1 Inr None d res rc show ?thesis by (simp add: doReqEx_def)
      qed
    qed
  qed
qed

lemma doReq_AgreementURIs:
  "doReq env marshal decode m url v r c w = (oc, r', c', w') \<Longrightarrow>
   AgreementURIs c' = AgreementURIs c"
  unfolding doReq_def by (rule doReqEx_AgreementURIs)

lemma getDirectory_AgreementURIs:
  assumes "getDirectory env c w = (x, c', w')"
  shows "AgreementURIs c' = AgreementURIs c"
proof (cases "dir c")
  case (Some d)
  with assms show ?thesis by (simp add: getDirectory_def)
next
  case None
  define c1 where "c1 = (if DirectoryURL c = [] then c\<lparr>DirectoryURL := DefaultDirectoryURL\<rparr> else c)"
  have a1: "AgreementURIs c1 = AgreementURIs c" by (simp add: c1_def)
  obtain oc r' c2 w2 where d: "doReq env no_marshal (json_Decode_directoryInfo env) ''GET''
      (DirectoryURL c1) None (Some (dir c1)) c1 w = (oc, r', c2, w2)"
    using prod_cases4 by blast
  then have a2: "AgreementURIs c2 = AgreementURIs c1" by (rule doReq_AgreementURIs)
  from assms None d have "AgreementURIs c' = AgreementURIs c2"
    unfolding getDirectory_def c1_def [symmetric] Let_def
    by (auto split: option.splits if_splits)
  with a1 a2 show ?thesis by simp
qed

lemma getRegistrationURI_AgreementURIs:
  assumes "getRegistrationURI env c w = (x, c', w')"
  shows "AgreementURIs c' = AgreementURIs c"
proof (cases "RegistrationURI c \<noteq> []")
  case True
  with assms show ?thesis by (simp add: getRegistrationURI_def)
next
  case False
  obtain gd c1 w1 where g: "getDirectory env c w = (gd, c1, w1)"
    using prod_cases3 by blast
  then have a1: "AgreementURIs c1 = AgreementURIs c" by (rule getDirectory_AgreementURIs)
  show ?thesis
  proof (cases gd)
    case (Inl err)
    with assms False g a1 show ?thesis by (simp add: getRegistrationURI_def)
  next
    case (Inr di)
    obtain oc r' c2 w2 where d: "doReq env (json_Marshal_regInfo env) (json_Decode_regInfo env)
        ''POST'' (NewReg di)
        (Some \<lparr>reg_Resource = ''new-reg'', Contact = ContactURIs c1, AgreementURI = [],
                AuthorizationsURI = [], CertificatesURI = []\<rparr>) (Some None) c1 w1
        = (oc, r', c2, w2)"
      using prod_cases4 by blast
    then have a2: "AgreementURIs c2 = AgreementURIs c1" by (rule doReq_AgreementURIs)
    from assms False g Inr d have "AgreementURIs c' = AgreementURIs c2"
      unfolding getRegistrationURI_def Let_def
      by (cases oc) (auto split: if_splits)
    with a1 a2 show ?thesis by simp
  qed
qed

text \<open>
  Claim C7. Let the registration URI be found and the update POST succeed with a
  registration object in its body. If the response has a terms-of-service link whose
  URI differs from the agreement of the returned registration, then: when that URI is
  not among the Client's \<^verbatim>\<open>AgreementURIs\<close> the call fails with the agreement error
  carrying it; when it is, the update is posted once more with that URI as its agreement,
  and the call returns what this second POST returns. With no terms-of-service link, or
  one that equals the returned agreement, the call succeeds in the state the first POST
  left: nothing more is sent.
\<close>

theorem UpsertRegistration_agreement:
  "getRegistrationURI env c w = (Inr regURI, c1, w1)
   \<and> doReq env (json_Marshal_regInfo env) (json_Decode_regInfo env) ''POST'' regURI
        (Some \<lparr>reg_Resource = ''reg'', Contact = ContactURIs c1, AgreementURI = [],
                AuthorizationsURI = [], CertificatesURI = []\<rparr>)
        (Some None) c1 w1 = (Ok res, Some (Some ri), c2, w2)
   \<longrightarrow>
     (link_ParseResponse env res ''terms-of-service'' = Some tos \<and> AgreementURI ri \<noteq> tos
        \<and> tos \<notin> AgreementURIs c
      \<longrightarrow> UpsertRegistration env c w = (Some (AgreementError tos), c2, w2))
   \<and> (link_ParseResponse env res ''terms-of-service'' = Some tos \<and> AgreementURI ri \<noteq> tos
        \<and> tos \<in> AgreementURIs c
        \<and> doReq env (json_Marshal_regInfo env) (json_Decode_regInfo env) ''POST'' regURI
             (Some \<lparr>reg_Resource = ''reg'', Contact = ContactURIs c1, AgreementURI = tos,
                     AuthorizationsURI = [], CertificatesURI = []\<rparr>)
             (Some (Some ri)) c2 w2 = (oc', r', c3, w3)
      \<longrightarrow> UpsertRegistration env c w = (outcome_err oc', c3, w3))
   \<and> (link_ParseResponse env res ''terms-of-service'' = None
        \<or> link_ParseResponse env res ''terms-of-service'' = Some (AgreementURI ri)
      \<longrightarrow> UpsertRegistration env c w = (None, c2, w2))"
proof (intro impI conjI)
  assume a: "getRegistrationURI env c w = (Inr regURI, c1, w1)
   \<and> doReq env (json_Marshal_regInfo env) (json_Decode_regInfo env) ''POST'' regURI
        (Some \<lparr>reg_Resource = ''reg'', Contact = ContactURIs c1, AgreementURI = [],
                AuthorizationsURI = [], CertificatesURI = []\<rparr>)
        (Some None) c1 w1 = (Ok res, Some (Some ri), c2, w2)"
  then have "AgreementURIs c1 = AgreementURIs c" and "AgreementURIs c2 = AgreementURIs c1"
    by (auto dest: getRegistrationURI_AgreementURIs doReq_AgreementURIs)
  then have agr: "AgreementURIs c2 = AgreementURIs c" by simp
  {
    assume "link_ParseResponse env res ''terms-of-service'' = Some tos \<and> AgreementURI ri \<noteq> tos
        \<and> tos \<notin> AgreementURIs c"
    with a agr show "UpsertRegistration env c w = (Some (AgreementError tos), c2, w2)"
      by (simp add: UpsertRegistration_def)
  }
  {
    assume "link_ParseResponse env res ''terms-of-service'' = Some tos \<and> AgreementURI ri \<noteq> tos
        \<and> tos \<in> AgreementURIs c
        \<and> doReq env (json_Marshal_regInfo env) (json_Decode_regInfo env) ''POST'' regURI
             (Some \<lparr>reg_Resource = ''reg'', Contact = ContactURIs c1, AgreementURI = tos,
                     AuthorizationsURI = [], CertificatesURI = []\<rparr>)
             (Some (Some ri)) c2 w2 = (oc', r', c3, w3)"
    with a agr show "UpsertRegistration env c w = (outcome_err oc', c3, w3)"
      by (simp add: UpsertRegistration_def split: option.splits)
  }
  {
    assume "link_ParseResponse env res ''terms-of-service'' = None
        \<or> link_ParseResponse env res ''terms-of-service'' = Some (AgreementURI ri)"
    then show "UpsertRegistration env c w = (None, c2, w2)"
    proof
      assume "link_ParseResponse env res ''terms-of-service'' = None"
      with a show ?thesis by (simp add: UpsertRegistration_def)
    next
      assume "link_ParseResponse env res ''terms-of-service'' = Some (AgreementURI ri)"
      with a show ?thesis by (simp add: UpsertRegistration_def)
    qed
  }
qed

text \<open>
  When the body of the update response is the JSON value \<^verbatim>\<open>null\<close>, the decoder leaves
  the nil pointer, and reading the agreement through it panics.
\<close>

lemma UpsertRegistration_null_registration:
  "getRegistrationURI env c w = (Inr regURI, c1, w1) \<Longrightarrow>
   doReq env (json_Marshal_regInfo env) (json_Decode_regInfo env) ''POST'' regURI
        (Some \<lparr>reg_Resource = ''reg'', Contact = ContactURIs c1, AgreementURI = [],
                AuthorizationsURI = [], CertificatesURI = []\<rparr>)
        (Some None) c1 w1 = (Ok res, Some None, c2, w2) \<Longrightarrow>
   link_ParseResponse env res ''terms-of-service'' = Some tos \<Longrightarrow>
   UpsertRegistration env c w = (Some NilDereference, c2, w2)"
  by (simp add: UpsertRegistration_def)

lemma demo_doReq_post_recording:
  assumes "nonceSource c = n # ns" and "AccountKey c = Some RSAPrivateKey"
    and "marshal x = Inr b"
  shows "doReq (demoEnv recording) marshal decode ''POST'' (''https:'' @ rest) (Some x) r c
           (res # rest_w, log) =
           (case receive (demoEnv recording) decode r res (c\<lparr>nonceSource := ns\<rparr>) of
              (oc, r', c2) \<Rightarrow>
                (oc, r', c2, rest_w,
                 \<lparr>Method = ''POST'', URL = ''https:'' @ rest,
                  ReqHeader = request_headers ''POST'',
                  ReqBody = Some (''jws:'' @ n @ '':'' @ b)\<rparr> # log))"
proof -
  have v: "ValidURL (demoEnv recording) (noTLS_url (demoEnv recording) (''https:'' @ rest))"
    by (simp only: demo_noTLS demo_ValidURL_https)
  have a: "algorithmFromKey RSAPrivateKey = Inr RS256" by (simp add: algorithmFromKey_def)
  show ?thesis
    by (rule doReq_post [where marshal = marshal and x = x and b = b and k = RSAPrivateKey
          and kalg = RS256 and s = "''jws:'' @ n @ '':'' @ b" and ns = ns
          and ?w0.0 = "(res # rest_w, log)",
          OF v assms(3) assms(2) a])
      (simp_all add: assms(1) demo_Sign_def recording_def)
qed

lemma demo_reg_post:
  assumes "nonceSource c = n # ns" and "AccountKey c = Some RSAPrivateKey"
  shows "doReq (demoEnv recording) (json_Marshal_regInfo (demoEnv recording))
           (json_Decode_regInfo (demoEnv recording)) ''POST'' ''https://ca/acct/1''
           (Some \<lparr>reg_Resource = ''reg'', Contact = cs, AgreementURI = [],
                   AuthorizationsURI = [], CertificatesURI = []\<rparr>)
           r c (res # rest_w, log) =
           (case receive (demoEnv recording) demo_Decode_regInfo r res (c\<lparr>nonceSource := ns\<rparr>) of
              (oc, r', c2) \<Rightarrow>
                (oc, r', c2, rest_w, req_reg (''jws:'' @ n @ '':{\"resource\":\"reg\"}'') # log))"
proof -
  have m: "json_Marshal_regInfo (demoEnv recording)
             \<lparr>reg_Resource = ''reg'', Contact = cs, AgreementURI = [],
              AuthorizationsURI = [], CertificatesURI = []\<rparr> = Inr ''{\"resource\":\"reg\"}''"
    by (simp add: demoEnv_def demo_Marshal_regInfo_def)
  have "doReq (demoEnv recording) (json_Marshal_regInfo (demoEnv recording))
           (json_Decode_regInfo (demoEnv recording)) ''POST'' (''https:'' @ ''//ca/acct/1'')
           (Some \<lparr>reg_Resource = ''reg'', Contact = cs, AgreementURI = [],
                   AuthorizationsURI = [], CertificatesURI = []\<rparr>)
           r c (res # rest_w, log) =
           (case receive (demoEnv recording) (json_Decode_regInfo (demoEnv recording)) r res
                   (c\<lparr>nonceSource := ns\<rparr>) of
              (oc, r', c2) \<Rightarrow>
                (oc, r', c2, rest_w,
                 \<lparr>Method = ''POST'', URL = ''https:'' @ ''//ca/acct/1'',
                  ReqHeader = request_headers ''POST'',
                  ReqBody = Some (''jws:'' @ n @ '':'' @ ''{\"resource\":\"reg\"}'')\<rparr> # log))"
    by (rule demo_doReq_post_recording [where marshal = "json_Marshal_regInfo (demoEnv recording)"
          and b = "''{\"resource\":\"reg\"}''", OF assms m])
  then show ?thesis by (simp add: req_reg_def)
qed

lemma demo_reg_post_agree:
  assumes "nonceSource c = n # ns" and "AccountKey c = Some RSAPrivateKey"
  shows "doReq (demoEnv recording) (json_Marshal_regInfo (demoEnv recording))
           (json_Decode_regInfo (demoEnv recording)) ''POST'' ''https://ca/acct/1''
           (Some \<lparr>reg_Resource = ''reg'', Contact = cs, AgreementURI = ''https://ca/tos/v2'',
                   AuthorizationsURI = [], CertificatesURI = []\<rparr>)
           r c (res # rest_w, log) =
           (case receive (demoEnv recording) demo_Decode_regInfo r res (c\<lparr>nonceSource := ns\<rparr>) of
              (oc, r', c2) \<Rightarrow>
                (oc, r', c2, rest_w,
                 req_reg (''jws:'' @ n
                          @ '':{\"resource\":\"reg\",\"agreement\":\"https://ca/tos/v2\"}'') # log))"
proof -
  have m: "json_Marshal_regInfo (demoEnv recording)
             \<lparr>reg_Resource = ''reg'', Contact = cs, AgreementURI = ''https://ca/tos/v2'',
              AuthorizationsURI = [], CertificatesURI = []\<rparr>
           = Inr ''{\"resource\":\"reg\",\"agreement\":\"https://ca/tos/v2\"}''"
    by (simp add: demoEnv_def demo_Marshal_regInfo_def)
  have "doReq (demoEnv recording) (json_Marshal_regInfo (demoEnv recording))
           (json_Decode_regInfo (demoEnv recording)) ''POST'' (''https:'' @ ''//ca/acct/1'')
           (Some \<lparr>reg_Resource = ''reg'', Contact = cs, AgreementURI = ''https://ca/tos/v2'',
                   AuthorizationsURI = [], CertificatesURI = []\<rparr>)
           r c (res # rest_w, log) =
           (case receive (demoEnv recording) (json_Decode_regInfo (demoEnv recording)) r res
                   (c\<lparr>nonceSource := ns\<rparr>) of
              (oc, r', c2) \<Rightarrow>
                (oc, r', c2, rest_w,
                 \<lparr>Method = ''POST'', URL = ''https:'' @ ''//ca/acct/1'',
                  ReqHeader = request_headers ''POST'',
                  ReqBody = Some (''jws:'' @ n @ '':''
                     @ ''{\"resource\":\"reg\",\"agreement\":\"https://ca/tos/v2\"}'')\<rparr> # log))"
    by (rule demo_doReq_post_recording [where marshal = "json_Marshal_regInfo (demoEnv recording)"
          and b = "''{\"resource\":\"reg\",\"agreement\":\"https://ca/tos/v2\"}''", OF assms m])
  then show ?thesis by (simp add: req_reg_def)
qed

lemma receive_reg_tos:
  "receive (demoEnv recording) demo_Decode_regInfo (Some t) res_reg_tos c
     = (Ok res_reg_tos, Some (Some reg_contact), c)"
proof -
  have h: "Header_Get (Header res_reg_tos) ''Replay-Nonce'' = []"
    "Header_Get (Header res_reg_tos) ''Content-Type'' = ''application/json''"
    "StatusCode res_reg_tos = 200"
    "Body res_reg_tos = Inr ''{\"contact\":[\"mailto:a@b\"]}''"
    by (simp_all add: res_reg_tos_def Header_Get_def)
  show ?thesis
    by (simp add: receive_decode h demo_Decode_regInfo_def reg_contact_def)
qed

lemma receive_reg_agreed:
  "receive (demoEnv recording) demo_Decode_regInfo (Some t) res_reg_agreed c
     = (Ok res_reg_agreed, Some (Some (reg_contact\<lparr>AgreementURI := ''https://ca/tos/v2''\<rparr>)), c)"
proof -
  have h: "Header_Get (Header res_reg_agreed) ''Replay-Nonce'' = []"
    "Header_Get (Header res_reg_agreed) ''Content-Type'' = ''application/json''"
    "StatusCode res_reg_agreed = 200"
    "Body res_reg_agreed
       = Inr ''{\"contact\":[\"mailto:a@b\"],\"agreement\":\"https://ca/tos/v2\"}''"
    by (simp_all add: res_reg_agreed_def Header_Get_def)
  show ?thesis
    by (simp add: receive_decode h demo_Decode_regInfo_def reg_contact_def)
qed

lemma demo_tos [simp]:
  "demo_link_ParseResponse res_reg_tos ''terms-of-service'' = Some ''https://ca/tos/v2''"
  "demo_link_ParseResponse res_reg_agreed ''terms-of-service'' = Some ''https://ca/tos/v2''"
  by (simp_all add: demo_link_ParseResponse_def res_reg_tos_def res_reg_agreed_def
        Header_Get_def)

lemma demo_registered_fields [simp]:
  "RegistrationURI demo_registered = ''https://ca/acct/1''"
  "nonceSource demo_registered = [''n1'', ''n2'', ''n3'']"
  "AccountKey demo_registered = Some RSAPrivateKey"
  "ContactURIs demo_registered = [''mailto:a@b'']"
  by (simp_all add: demo_registered_def demo_client_def)

theorem UpsertRegistration_agreement_witness:
  "UpsertRegistration (demoEnv recording) (demo_registered\<lparr>AgreementURIs := {}\<rparr>)
       ([res_reg_tos, res_reg_agreed], [])
     = (Some (AgreementError ''https://ca/tos/v2''),
        demo_registered\<lparr>AgreementURIs := {}, nonceSource := [''n2'', ''n3'']\<rparr>,
        [res_reg_agreed], [req_reg ''jws:n1:{\"resource\":\"reg\"}''])
   \<and> UpsertRegistration (demoEnv recording)
       (demo_registered\<lparr>AgreementURIs := {''https://ca/tos/v2''}\<rparr>)
       ([res_reg_tos, res_reg_agreed], [])
     = (None,
        demo_registered\<lparr>AgreementURIs := {''https://ca/tos/v2''}, nonceSource := [''n3'']\<rparr>,
        [],
        [req_reg ''jws:n2:{\"resource\":\"reg\",\"agreement\":\"https://ca/tos/v2\"}'',
         req_reg ''jws:n1:{\"resource\":\"reg\"}''])
   \<and> UpsertRegistration (demoEnv recording) (demo_registered\<lparr>AgreementURIs := {}\<rparr>)
       ([res_reg_agreed], [])
     = (None,
        demo_registered\<lparr>AgreementURIs := {}, nonceSource := [''n2'', ''n3'']\<rparr>,
        [], [req_reg ''jws:n1:{\"resource\":\"reg\"}''])"
proof -
  let ?tos = "''https://ca/tos/v2''"
  let ?r1 = "req_reg ''jws:n1:{\"resource\":\"reg\"}''"
  let ?r2 = "req_reg ''jws:n2:{\"resource\":\"reg\",\"agreement\":\"https://ca/tos/v2\"}''"
  have g: "\<And>A w. getRegistrationURI (demoEnv recording) (demo_registered\<lparr>AgreementURIs := A\<rparr>) w
             = (Inr ''https://ca/acct/1'', demo_registered\<lparr>AgreementURIs := A\<rparr>, w)"
    by (simp add: getRegistrationURI_def)
  have p1: "\<And>A. doReq (demoEnv recording) (json_Marshal_regInfo (demoEnv recording))
        (json_Decode_regInfo (demoEnv recording)) ''POST'' ''https://ca/acct/1''
        (Some \<lparr>reg_Resource = ''reg'',
                Contact = ContactURIs (demo_registered\<lparr>AgreementURIs := A\<rparr>),
                AgreementURI = [], AuthorizationsURI = [], CertificatesURI = []\<rparr>)
        (Some None) (demo_registered\<lparr>AgreementURIs := A\<rparr>) ([res_reg_tos, res_reg_agreed], [])
      = (Ok res_reg_tos, Some (Some reg_contact),
         demo_registered\<lparr>AgreementURIs := A, nonceSource := [''n2'', ''n3'']\<rparr>,
         [res_reg_agreed], [?r1])"
    by (subst demo_reg_post [where n = "''n1''" and ns = "[''n2'', ''n3'']"])
      (simp_all add: receive_reg_tos)
  have p2: "\<And>A. doReq (demoEnv recording) (json_Marshal_regInfo (demoEnv recording))
        (json_Decode_regInfo (demoEnv recording)) ''POST'' ''https://ca/acct/1''
        (Some \<lparr>reg_Resource = ''reg'',
                Contact = ContactURIs (demo_registered\<lparr>AgreementURIs := A\<rparr>),
                AgreementURI = ?tos, AuthorizationsURI = [], CertificatesURI = []\<rparr>)
        (Some (Some reg_contact))
        (demo_registered\<lparr>AgreementURIs := A, nonceSource := [''n2'', ''n3'']\<rparr>)
        ([res_reg_agreed], [?r1])
      = (Ok res_reg_agreed, Some (Some (reg_contact\<lparr>AgreementURI := ?tos\<rparr>)),
         demo_registered\<lparr>AgreementURIs := A, nonceSource := [''n3'']\<rparr>,
         [], [?r2, ?r1])"
    by (subst demo_reg_post_agree [where n = "''n2''" and ns = "[''n3'']"])
      (simp_all add: receive_reg_agreed)
  have p3: "\<And>A. doReq (demoEnv recording) (json_Marshal_regInfo (demoEnv recording))
        (json_Decode_regInfo (demoEnv recording)) ''POST'' ''https://ca/acct/1''
        (Some \<lparr>reg_Resource = ''reg'',
                Contact = ContactURIs (demo_registered\<lparr>AgreementURIs := A\<rparr>),
                AgreementURI = [], AuthorizationsURI = [], CertificatesURI = []\<rparr>)
        (Some None) (demo_registered\<lparr>AgreementURIs := A\<rparr>) ([res_reg_agreed], [])
      = (Ok res_reg_agreed, Some (Some (reg_contact\<lparr>AgreementURI := ?tos\<rparr>)),
         demo_registered\<lparr>AgreementURIs := A, nonceSource := [''n2'', ''n3'']\<rparr>,
         [], [?r1])"
    by (subst demo_reg_post [where n = "''n1''" and ns = "[''n2'', ''n3'']"])
      (simp_all add: receive_reg_agreed)
  have l1: "link_ParseResponse (demoEnv recording) res_reg_tos ''terms-of-service'' = Some ?tos"
    and l2: "link_ParseResponse (demoEnv recording) res_reg_agreed ''terms-of-service''
               = Some ?tos"
    by simp_all
  have n1: "AgreementURI reg_contact \<noteq> ?tos" by (simp add: reg_contact_def)
  have e3: "AgreementURI (reg_contact\<lparr>AgreementURI := ?tos\<rparr>) = ?tos" by simp
  note t = UpsertRegistration_agreement [THEN mp]
  have u1: "UpsertRegistration (demoEnv recording) (demo_registered\<lparr>AgreementURIs := {}\<rparr>)
       ([res_reg_tos, res_reg_agreed], [])
     = (Some (AgreementError ?tos),
        demo_registered\<lparr>AgreementURIs := {}, nonceSource := [''n2'', ''n3'']\<rparr>,
        [res_reg_agreed], [?r1])"
  proof -
    have m: "?tos \<notin> AgreementURIs (demo_registered\<lparr>AgreementURIs := {}\<rparr>)" by simp
    show ?thesis
      by (rule t [OF conjI [OF g p1], THEN conjunct1, THEN mp,
            OF conjI [OF l1 conjI [OF n1 m]]])
  qed
  have u2: "UpsertRegistration (demoEnv recording)
       (demo_registered\<lparr>AgreementURIs := {?tos}\<rparr>) ([res_reg_tos, res_reg_agreed], [])
     = (outcome_err (Ok res_reg_agreed),
        demo_registered\<lparr>AgreementURIs := {?tos}, nonceSource := [''n3'']\<rparr>,
        [], [?r2, ?r1])"
  proof -
    have m: "?tos \<in> AgreementURIs (demo_registered\<lparr>AgreementURIs := {?tos}\<rparr>)" by simp
    show ?thesis
      by (rule t [OF conjI [OF g p1], THEN conjunct2, THEN conjunct1, THEN mp,
            OF conjI [OF l1 conjI [OF n1 conjI [OF m p2]]]])
  qed
  have u3: "UpsertRegistration (demoEnv recording) (demo_registered\<lparr>AgreementURIs := {}\<rparr>)
       ([res_reg_agreed], [])
     = (None,
        demo_registered\<lparr>AgreementURIs := {}, nonceSource := [''n2'', ''n3'']\<rparr>,
        [], [?r1])"
  proof -
    have m: "link_ParseResponse (demoEnv recording) res_reg_agreed ''terms-of-service''
               = Some (AgreementURI (reg_contact\<lparr>AgreementURI := ?tos\<rparr>))"
      using l2 by simp
    show ?thesis
      by (rule t [OF conjI [OF g p3], THEN conjunct2, THEN conjunct2, THEN mp,
            OF disjI2 [OF m]])
  qed
  show ?thesis using u1 u2 u3 by (simp add: outcome_err_def)
qed

end
